theory Spec2Isabelle
  imports Complex_Main "HOL-Library.Sublist" "HOL-Library.Multiset" "HOL-Library.Word"
begin

section \<open>Data model\<close>

text \<open>
  A Go \<^verbatim>\<open>error\<close> is modelled by its message (\<^verbatim>\<open>err.Error()\<close>); a \<^verbatim>\<open>nil\<close> error is
  \<open>None\<close>. Wrapping with \<^verbatim>\<open>fmt.Errorf("...: %w", err)\<close> prepends the prefix.
\<close>

type_synonym error = string

text \<open>\<^verbatim>\<open>aliyun.SpotInstance\<close> (internal/aliyun/ecs.go).\<close>

record SpotInstance =
  InstanceID :: string
  InstanceName :: string
  RegionID :: string
  Status :: string
  PublicIPAddress :: string
  PrivateIPAddress :: string
  SpotStrategy :: string

text \<open>The fields of the SDK's \<^verbatim>\<open>ecs.Instance\<close> that the client reads.\<close>

record RawInstance =
  raw_InstanceId :: string
  raw_InstanceName :: string
  raw_Status :: string
  raw_SpotStrategy :: string
  raw_PublicIpAddress :: "string list"
  raw_EipAddress :: string
  raw_InnerIpAddress :: "string list"
  raw_VpcPrivateIpAddress :: "string list"

text \<open>
  A \<^verbatim>\<open>float64\<close> as far as the comparisons of the traffic check read it: the finite
  values, the two infinities and NaN. \<^verbatim>\<open>>=\<close> and \<^verbatim>\<open><\<close> are false whenever an operand is
  NaN.
\<close>

datatype float64 = NaN | NegInf | Fin real | PosInf



text \<open>The part of \<^verbatim>\<open>aliyun.TrafficSummary\<close> that \<^verbatim>\<open>CheckTraffic\<close> reads.\<close>

record TrafficSummary =
  ChinaMainlandGB :: float64
  NonChinaMainlandGB :: float64
  TotalTrafficGB :: float64

text \<open>The calls of the notifier that the monitor makes, with their arguments.\<close>

datatype notification =
    NotifyInstanceReclaimed string string string
  | NotifyInstanceStarted string string string string int
  | NotifyInstanceStartFailed string string string int "error option"
  | NotifyTrafficShutdown string float64 float64 "string list"
  | NotifyMonitorStarted nat "string list"

text \<open>
  What a run leaves behind for an observer: the calls on the ECS client with their
  results, the notifier calls with their results, the sleeps, the two info-level log lines
  of the reconciliation, and the bulk shutdowns handed to a new goroutine.
\<close>

datatype event =
    EvGetInstanceStatus string string "error + string"
  | EvStartInstance string string "error option"
  | EvStopInstance string string string "error option"
  | EvGetInstance string string
  | EvNotify notification "error option"
  | EvSleep int
  | EvLogNew SpotInstance
  | EvLogRemoved SpotInstance
  | EvGoShutdown string float64 float64

text \<open>
  The collaborators. Each remote call is an oracle over a world \<open>'w\<close> that the call may
  change; nothing is assumed about it. \<open>getClient\<close> stands for \<^verbatim>\<open>ECSClient.getClient\<close>
  (the client cache is part of the world). \<open>sdkDescribeInstancePages\<close> gives the
  successive pages of one region's listing (page size 100); past the last one the
  listing is empty. \<open>ticksBeforeTimeout\<close> is the number of ticker events that
  \<^verbatim>\<open>select\<close> delivers in one \<^verbatim>\<open>waitForRunning\<close> before its two-minute timer wins.
  \<open>completionOrder\<close> is the order in which the scanning goroutines append their results.
  \<open>isChinaMainlandRegion\<close> and \<open>getRegionDisplayName\<close> are functions of the package
  \<^verbatim>\<open>aliyun\<close> whose file is not among the sources; they are left open.
\<close>

record 'w cloud =
  getClient :: "string \<Rightarrow> 'w \<Rightarrow> error option \<times> 'w"
  sdkDescribeRegions :: "'w \<Rightarrow> (error + string list) \<times> 'w"
  sdkDescribeInstancePages :: "string \<Rightarrow> 'w \<Rightarrow> (error + RawInstance list) list \<times> 'w"
  sdkDescribeInstance :: "string \<Rightarrow> string \<Rightarrow> 'w \<Rightarrow> (error + RawInstance list) \<times> 'w"
  sdkDescribeInstanceStatus :: "string \<Rightarrow> string \<Rightarrow> 'w \<Rightarrow> (error + string list) \<times> 'w"
  sdkStartInstance :: "string \<Rightarrow> string \<Rightarrow> 'w \<Rightarrow> error option \<times> 'w"
  sdkStopInstance :: "string \<Rightarrow> string \<Rightarrow> string \<Rightarrow> 'w \<Rightarrow> error option \<times> 'w"
  completionOrder :: "string list \<Rightarrow> 'w \<Rightarrow> string list"
  timeNow :: "'w \<Rightarrow> int"
  timeSleep :: "int \<Rightarrow> 'w \<Rightarrow> 'w"
  ticksBeforeTimeout :: "'w \<Rightarrow> nat"
  notifierSend :: "notification \<Rightarrow> 'w \<Rightarrow> error option \<times> 'w"
  queryInternetTraffic :: "'w \<Rightarrow> (error + TrafficSummary) \<times> 'w"
  isChinaMainlandRegion :: "string \<Rightarrow> bool"
  getRegionDisplayName :: "string \<Rightarrow> string"

section \<open>The ECS client (internal/aliyun/ecs.go)\<close>

text \<open>\<^verbatim>\<open>strings.Contains(s, sub)\<close>.\<close>

fun strings_Contains :: "string \<Rightarrow> string \<Rightarrow> bool" where
  "strings_Contains [] sub = (sub = [])"
| "strings_Contains (c # s) sub = (prefix sub (c # s) \<or> strings_Contains s sub)"

text \<open>
  \<^verbatim>\<open>StartInstance\<close>: a failure of \<open>getClient\<close> is returned as it is; an SDK error whose
  message contains \<^verbatim>\<open>IncorrectInstanceStatus\<close> is swallowed; any other SDK error is
  wrapped and returned.
\<close>

definition StartInstance :: "'w cloud \<Rightarrow> string \<Rightarrow> string \<Rightarrow> 'w \<Rightarrow> error option \<times> 'w" where
  "StartInstance c regionID instanceID w =
     (case getClient c regionID w of
        (Some err, w1) \<Rightarrow> (Some err, w1)
      | (None, w1) \<Rightarrow>
         (case sdkStartInstance c regionID instanceID w1 of
            (Some err, w2) \<Rightarrow>
              if strings_Contains err ''IncorrectInstanceStatus'' then (None, w2)
              else (Some (''failed to start instance '' @ instanceID @ '': '' @ err), w2)
          | (None, w2) \<Rightarrow> (None, w2)))"

definition StopInstance ::
  "'w cloud \<Rightarrow> string \<Rightarrow> string \<Rightarrow> string \<Rightarrow> 'w \<Rightarrow> error option \<times> 'w" where
  "StopInstance c regionID instanceID stoppedMode w =
     (case getClient c regionID w of
        (Some err, w1) \<Rightarrow> (Some err, w1)
      | (None, w1) \<Rightarrow>
         (case sdkStopInstance c regionID instanceID stoppedMode w1 of
            (Some err, w2) \<Rightarrow>
              if strings_Contains err ''IncorrectInstanceStatus'' then (None, w2)
              else (Some (''failed to stop instance '' @ instanceID @ '': '' @ err), w2)
          | (None, w2) \<Rightarrow> (None, w2)))"

text \<open>\<^verbatim>\<open>GetInstanceStatus\<close>: the status of the first entry of the answer.\<close>

definition GetInstanceStatus ::
  "'w cloud \<Rightarrow> string \<Rightarrow> string \<Rightarrow> 'w \<Rightarrow> (error + string) \<times> 'w" where
  "GetInstanceStatus c regionID instanceID w =
     (case getClient c regionID w of
        (Some err, w1) \<Rightarrow> (Inl err, w1)
      | (None, w1) \<Rightarrow>
         (case sdkDescribeInstanceStatus c regionID instanceID w1 of
            (Inl err, w2) \<Rightarrow> (Inl (''failed to get instance status: '' @ err), w2)
          | (Inr [], w2) \<Rightarrow> (Inl (''instance '' @ instanceID @ '' not found''), w2)
          | (Inr (st # _), w2) \<Rightarrow> (Inr st, w2)))"

text \<open>The conversion of an SDK instance that \<^verbatim>\<open>GetSpotInstances\<close> and \<^verbatim>\<open>GetInstance\<close> share.\<close>

definition toSpotInstance :: "string \<Rightarrow> RawInstance \<Rightarrow> SpotInstance" where
  "toSpotInstance regionID inst =
     (let publicIP0 = (case raw_PublicIpAddress inst of [] \<Rightarrow> [] | a # _ \<Rightarrow> a);
          publicIP = (if publicIP0 = [] \<and> raw_EipAddress inst \<noteq> [] then raw_EipAddress inst
                      else publicIP0);
          privateIP0 = (case raw_InnerIpAddress inst of [] \<Rightarrow> [] | a # _ \<Rightarrow> a);
          privateIP = (if privateIP0 = []
                       then (case raw_VpcPrivateIpAddress inst of [] \<Rightarrow> privateIP0 | a # _ \<Rightarrow> a)
                       else privateIP0)
      in \<lparr> InstanceID = raw_InstanceId inst, InstanceName = raw_InstanceName inst,
           RegionID = regionID, Status = raw_Status inst, PublicIPAddress = publicIP,
           PrivateIPAddress = privateIP, SpotStrategy = raw_SpotStrategy inst \<rparr>)"

definition GetInstance ::
  "'w cloud \<Rightarrow> string \<Rightarrow> string \<Rightarrow> 'w \<Rightarrow> (error + SpotInstance) \<times> 'w" where
  "GetInstance c regionID instanceID w =
     (case getClient c regionID w of
        (Some err, w1) \<Rightarrow> (Inl err, w1)
      | (None, w1) \<Rightarrow>
         (case sdkDescribeInstance c regionID instanceID w1 of
            (Inl err, w2) \<Rightarrow> (Inl (''failed to get instance: '' @ err), w2)
          | (Inr [], w2) \<Rightarrow> (Inl (''instance '' @ instanceID @ '' not found''), w2)
          | (Inr (inst # _), w2) \<Rightarrow> (Inr (toSpotInstance regionID inst), w2)))"

text \<open>\<^verbatim>\<open>GetAllRegions\<close> asks through the client of \<^verbatim>\<open>cn-hangzhou\<close>.\<close>

definition GetAllRegions :: "'w cloud \<Rightarrow> 'w \<Rightarrow> (error + string list) \<times> 'w" where
  "GetAllRegions c w =
     (case getClient c ''cn-hangzhou'' w of
        (Some err, w1) \<Rightarrow> (Inl err, w1)
      | (None, w1) \<Rightarrow>
         (case sdkDescribeRegions c w1 of
            (Inl err, w2) \<Rightarrow> (Inl (''failed to describe regions: '' @ err), w2)
          | (Inr regions, w2) \<Rightarrow> (Inr regions, w2)))"

text \<open>The filter of \<^verbatim>\<open>GetSpotInstances\<close>: spot instances only.\<close>

definition isSpot :: "RawInstance \<Rightarrow> bool" where
  "isSpot inst = (raw_SpotStrategy inst \<noteq> ''NoSpot'' \<and> raw_SpotStrategy inst \<noteq> [])"

text \<open>
  The paging loop of \<^verbatim>\<open>GetSpotInstances\<close> over the page answers: an error on any page
  drops what was collected; a page shorter than the page size ends the loop; when the
  answers run out the next page is empty.
\<close>

fun scanPages ::
  "string \<Rightarrow> (error + RawInstance list) list \<Rightarrow> SpotInstance list \<Rightarrow> error + SpotInstance list"
  where
  "scanPages regionID [] acc = Inr acc"
| "scanPages regionID (Inl err # ps) acc =
     Inl (''failed to describe instances in region '' @ regionID @ '': '' @ err)"
| "scanPages regionID (Inr page # ps) acc =
     (let acc' = acc @ map (toSpotInstance regionID) (filter isSpot page)
      in if length page < 100 then Inr acc' else scanPages regionID ps acc')"

definition GetSpotInstances ::
  "'w cloud \<Rightarrow> string \<Rightarrow> 'w \<Rightarrow> (error + SpotInstance list) \<times> 'w" where
  "GetSpotInstances c regionID w =
     (case getClient c regionID w of
        (Some err, w1) \<Rightarrow> (Inl err, w1)
      | (None, w1) \<Rightarrow>
         (case sdkDescribeInstancePages c regionID w1 of
            (pages, w2) \<Rightarrow> (scanPages regionID pages [], w2)))"

text \<open>
  The body of one scanning goroutine of \<^verbatim>\<open>DiscoverAllSpotInstances\<close>, and the scan over
  the regions in the order in which the goroutines append: a region whose listing fails
  contributes nothing.
\<close>

fun scanRegions ::
  "'w cloud \<Rightarrow> string list \<Rightarrow> SpotInstance list \<Rightarrow> 'w \<Rightarrow> SpotInstance list \<times> 'w" where
  "scanRegions c [] allInstances w = (allInstances, w)"
| "scanRegions c (regionID # rs) allInstances w =
     (case GetSpotInstances c regionID w of
        (Inl err, w1) \<Rightarrow> scanRegions c rs allInstances w1
      | (Inr instances, w1) \<Rightarrow>
          if length instances > 0 then scanRegions c rs (allInstances @ instances) w1
          else scanRegions c rs allInstances w1)"

definition DiscoverAllSpotInstances ::
  "'w cloud \<Rightarrow> 'w \<Rightarrow> (error + SpotInstance list) \<times> 'w" where
  "DiscoverAllSpotInstances c w =
     (case GetAllRegions c w of
        (Inl err, w1) \<Rightarrow> (Inl err, w1)
      | (Inr regions, w1) \<Rightarrow>
          (case scanRegions c (completionOrder c regions w1) [] w1 of
             (allInstances, w2) \<Rightarrow> (Inr allInstances, w2)))"

section \<open>The monitor (package monitor)\<close>

text \<open>The fields of \<^verbatim>\<open>config.Config\<close> that the monitor's core reads.\<close>

record Config =
  RetryCount :: int
  RetryInterval :: int
  NotifyCooldown :: int
  TrafficShutdownEnabled :: bool
  TrafficLimitChinaGB :: float64
  TrafficLimitNonChinaGB :: float64

text \<open>
  \<^verbatim>\<open>Monitor\<close>: \<open>hasNotifier\<close> is \<^verbatim>\<open>m.notifier != nil\<close>, \<open>hasTrafficClient\<close> is
  \<^verbatim>\<open>m.trafficClient != nil\<close>; times are readings of the clock in nanoseconds.
\<close>

record Monitor =
  cfg :: Config
  hasNotifier :: bool
  hasTrafficClient :: bool
  instances :: "SpotInstance list"
  lastNotify :: "string \<rightharpoonup> int"
  chinaShutdown :: bool
  nonChinaShutdown :: bool

text \<open>The monitor together with the world it acts on and the events of the run so far.\<close>

record 'w sys =
  mon :: Monitor
  world :: 'w
  trace :: "event list"

subsection \<open>Durations\<close>

text \<open>
  \<^verbatim>\<open>time.Duration(n) * time.Second\<close> is a product of 64-bit integers and wraps;
  \<^verbatim>\<open>time.Since\<close> saturates at the ends of the 64-bit range.
\<close>

definition secondsDuration :: "int \<Rightarrow> int" where
  "secondsDuration n = sint (word_of_int n * 1000000000 :: 64 word)"

definition time_Since :: "int \<Rightarrow> int \<Rightarrow> int" where
  "time_Since now t = max (- (2 ^ 63)) (min (2 ^ 63 - 1) (now - t))"

subsection \<open>Calls on the collaborators, recorded in the trace\<close>

definition ecsGetInstanceStatus ::
  "'w cloud \<Rightarrow> string \<Rightarrow> string \<Rightarrow> 'w sys \<Rightarrow> (error + string) \<times> 'w sys" where
  "ecsGetInstanceStatus c regionID instanceID s =
     (case GetInstanceStatus c regionID instanceID (world s) of
        (res, w1) \<Rightarrow>
          (res, s\<lparr>world := w1, trace := trace s @ [EvGetInstanceStatus regionID instanceID res]\<rparr>))"

definition ecsStartInstance ::
  "'w cloud \<Rightarrow> string \<Rightarrow> string \<Rightarrow> 'w sys \<Rightarrow> error option \<times> 'w sys" where
  "ecsStartInstance c regionID instanceID s =
     (case StartInstance c regionID instanceID (world s) of
        (res, w1) \<Rightarrow>
          (res, s\<lparr>world := w1, trace := trace s @ [EvStartInstance regionID instanceID res]\<rparr>))"

definition ecsStopInstance ::
  "'w cloud \<Rightarrow> string \<Rightarrow> string \<Rightarrow> string \<Rightarrow> 'w sys \<Rightarrow> error option \<times> 'w sys" where
  "ecsStopInstance c regionID instanceID stoppedMode s =
     (case StopInstance c regionID instanceID stoppedMode (world s) of
        (res, w1) \<Rightarrow>
          (res, s\<lparr>world := w1,
                  trace := trace s @ [EvStopInstance regionID instanceID stoppedMode res]\<rparr>))"

definition ecsGetInstance ::
  "'w cloud \<Rightarrow> string \<Rightarrow> string \<Rightarrow> 'w sys \<Rightarrow> (error + SpotInstance) \<times> 'w sys" where
  "ecsGetInstance c regionID instanceID s =
     (case GetInstance c regionID instanceID (world s) of
        (res, w1) \<Rightarrow>
          (res, s\<lparr>world := w1, trace := trace s @ [EvGetInstance regionID instanceID]\<rparr>))"

text \<open>
  A call of the notifier behind the guard \<^verbatim>\<open>if m.notifier != nil\<close>; its error is only
  logged.
\<close>

definition notify :: "'w cloud \<Rightarrow> notification \<Rightarrow> 'w sys \<Rightarrow> 'w sys" where
  "notify c n s =
     (if hasNotifier (mon s)
      then (case notifierSend c n (world s) of
              (res, w1) \<Rightarrow> s\<lparr>world := w1, trace := trace s @ [EvNotify n res]\<rparr>)
      else s)"

definition sleep :: "'w cloud \<Rightarrow> int \<Rightarrow> 'w sys \<Rightarrow> 'w sys" where
  "sleep c d s = s\<lparr>world := timeSleep c d (world s), trace := trace s @ [EvSleep d]\<rparr>"

subsection \<open>Notification cooldown\<close>

definition canNotify :: "Monitor \<Rightarrow> string \<Rightarrow> int \<Rightarrow> bool" where
  "canNotify m instanceID now =
     (case lastNotify m instanceID of
        None \<Rightarrow> True
      | Some lastTime \<Rightarrow> time_Since now lastTime > secondsDuration (NotifyCooldown (cfg m)))"

definition updateNotifyTime :: "Monitor \<Rightarrow> string \<Rightarrow> int \<Rightarrow> Monitor" where
  "updateNotifyTime m instanceID now = m\<lparr>lastNotify := (lastNotify m)(instanceID \<mapsto> now)\<rparr>"

subsection \<open>Reclaim and restart\<close>

text \<open>
  \<^verbatim>\<open>waitForRunning\<close>: every ticker event polls the status; the loop ends with the first
  poll that answers \<^verbatim>\<open>Running\<close>, or with the timeout.
\<close>

fun waitPolls ::
  "'w cloud \<Rightarrow> string \<Rightarrow> string \<Rightarrow> nat \<Rightarrow> 'w sys \<Rightarrow> error option \<times> 'w sys" where
  "waitPolls c regionID instanceID 0 s = (Some ''timeout waiting for instance to start'', s)"
| "waitPolls c regionID instanceID (Suc n) s =
     (case ecsGetInstanceStatus c regionID instanceID s of
        (Inl err, s1) \<Rightarrow> waitPolls c regionID instanceID n s1
      | (Inr status, s1) \<Rightarrow>
          if status = ''Running'' then (None, s1) else waitPolls c regionID instanceID n s1)"

definition waitForRunning ::
  "'w cloud \<Rightarrow> string \<Rightarrow> string \<Rightarrow> 'w sys \<Rightarrow> error option \<times> 'w sys" where
  "waitForRunning c regionID instanceID s =
     waitPolls c regionID instanceID (ticksBeforeTimeout c (world s)) s"

text \<open>
  The cooldown block of \<^verbatim>\<open>checkInstance\<close> (the reclaimed notification and the update of
  the cooldown time).
\<close>

definition reclaimNotify :: "'w cloud \<Rightarrow> SpotInstance \<Rightarrow> 'w sys \<Rightarrow> 'w sys" where
  "reclaimNotify c inst s =
     (if \<not> canNotify (mon s) (InstanceID inst) (timeNow c (world s)) then s
      else
        (let s1 = notify c (NotifyInstanceReclaimed (InstanceID inst) (InstanceName inst)
                              (RegionID inst)) s
         in s1\<lparr>mon := updateNotifyTime (mon s1) (InstanceID inst) (timeNow c (world s1))\<rparr>))"

text \<open>
  The retry loop of \<^verbatim>\<open>checkInstance\<close> from iteration \<open>i\<close> on, with the code after the loop
  (all retries failed) as its exit.
\<close>

function retryLoop ::
  "'w cloud \<Rightarrow> SpotInstance \<Rightarrow> int \<Rightarrow> int \<Rightarrow> int \<Rightarrow> nat \<Rightarrow> error option \<Rightarrow> 'w sys
     \<Rightarrow> error option \<times> 'w sys" where
  "retryLoop c inst startTime retryCount retryInterval i lastErr s =
     (if int i < retryCount then
        (let s0 = (if i > 0 then sleep c (secondsDuration retryInterval) s else s) in
         case ecsStartInstance c (RegionID inst) (InstanceID inst) s0 of
           (Some err, s1) \<Rightarrow>
             retryLoop c inst startTime retryCount retryInterval (Suc i) (Some err) s1
         | (None, s1) \<Rightarrow>
            (case waitForRunning c (RegionID inst) (InstanceID inst) s1 of
               (Some err, s2) \<Rightarrow>
                 retryLoop c inst startTime retryCount retryInterval (Suc i) (Some err) s2
             | (None, s2) \<Rightarrow>
                (case ecsGetInstance c (RegionID inst) (InstanceID inst) s2 of
                   (res, s3) \<Rightarrow>
                     (let inst' = (case res of Inl err \<Rightarrow> inst | Inr updatedInst \<Rightarrow> updatedInst);
                          duration = time_Since (timeNow c (world s3)) startTime
                      in (None, notify c (NotifyInstanceStarted (InstanceID inst')
                                            (InstanceName inst') (RegionID inst')
                                            (PublicIPAddress inst') duration) s3)))))
      else (lastErr, notify c (NotifyInstanceStartFailed (InstanceID inst) (InstanceName inst)
                                 (RegionID inst) retryCount lastErr) s))"
  by pat_completeness auto
termination
  by (relation "measure (\<lambda>(c, inst, startTime, retryCount, retryInterval, i, lastErr, s).
                          nat (retryCount - int i))") auto

definition blocked :: "'w cloud \<Rightarrow> Monitor \<Rightarrow> SpotInstance \<Rightarrow> bool" where
  "blocked c m inst =
     (let isChina = isChinaMainlandRegion c (RegionID inst)
      in (isChina \<and> chinaShutdown m) \<or> (\<not> isChina \<and> nonChinaShutdown m))"

definition checkInstance :: "'w cloud \<Rightarrow> SpotInstance \<Rightarrow> 'w sys \<Rightarrow> error option \<times> 'w sys" where
  "checkInstance c inst s =
     (if blocked c (mon s) inst then (None, s)
      else
        (case ecsGetInstanceStatus c (RegionID inst) (InstanceID inst) s of
           (Inl err, s1) \<Rightarrow> (Some (''failed to get status: '' @ err), s1)
         | (Inr status, s1) \<Rightarrow>
             if status \<noteq> ''Stopped'' then (None, s1)
             else
               (let s2 = reclaimNotify c inst s1;
                    startTime = timeNow c (world s2)
                in retryLoop c inst startTime (RetryCount (cfg (mon s2)))
                     (RetryInterval (cfg (mon s2))) 0 None s2)))"

subsection \<open>Discovery and the check cycle\<close>

text \<open>The Go maps \<^verbatim>\<open>oldMap\<close> and \<^verbatim>\<open>newMap\<close> of \<^verbatim>\<open>refreshInstances\<close> (a missing key reads false).\<close>

definition idMap :: "SpotInstance list \<Rightarrow> string \<Rightarrow> bool" where
  "idMap insts = foldl (\<lambda>mp inst. mp(InstanceID inst := True)) (\<lambda>k. False) insts"

definition refreshInstances :: "'w cloud \<Rightarrow> 'w sys \<Rightarrow> error option \<times> 'w sys" where
  "refreshInstances c s =
     (case DiscoverAllSpotInstances c (world s) of
        (Inl err, w1) \<Rightarrow> (Some (''failed to discover instances: '' @ err), s\<lparr>world := w1\<rparr>)
      | (Inr insts, w1) \<Rightarrow>
          (let oldMap = idMap (instances (mon s));
               newMap = idMap insts;
               added = map EvLogNew (filter (\<lambda>inst. \<not> oldMap (InstanceID inst)) insts);
               removed = map EvLogRemoved
                           (filter (\<lambda>inst. \<not> newMap (InstanceID inst)) (instances (mon s)))
           in (None, s\<lparr>mon := (mon s)\<lparr>instances := insts\<rparr>, world := w1,
                       trace := trace s @ added @ removed\<rparr>)))"

definition instanceLine :: "SpotInstance \<Rightarrow> string" where
  "instanceLine inst =
     InstanceName inst @ '' ('' @ InstanceID inst @ '') - '' @ RegionID inst"

definition DiscoverInstances :: "'w cloud \<Rightarrow> 'w sys \<Rightarrow> error option \<times> 'w sys" where
  "DiscoverInstances c s =
     (case DiscoverAllSpotInstances c (world s) of
        (Inl err, w1) \<Rightarrow> (Some (''failed to discover instances: '' @ err), s\<lparr>world := w1\<rparr>)
      | (Inr insts, w1) \<Rightarrow>
          (let s1 = s\<lparr>mon := (mon s)\<lparr>instances := insts\<rparr>, world := w1\<rparr>
           in (None,
               if length insts > 0
               then notify c (NotifyMonitorStarted (length insts) (map instanceLine insts)) s1
               else s1)))"

text \<open>The loop of \<^verbatim>\<open>Check\<close> over its copy of the list: an instance's error is only logged.\<close>

fun checkAll :: "'w cloud \<Rightarrow> SpotInstance list \<Rightarrow> 'w sys \<Rightarrow> 'w sys" where
  "checkAll c [] s = s"
| "checkAll c (inst # rest) s = checkAll c rest (snd (checkInstance c inst s))"

definition Check :: "'w cloud \<Rightarrow> 'w sys \<Rightarrow> error option \<times> 'w sys" where
  "Check c s =
     (let s1 = snd (refreshInstances c s)
      in (None, checkAll c (instances (mon s1)) s1))"

subsection \<open>Traffic budget\<close>



definition stoppedLine :: "'w cloud \<Rightarrow> SpotInstance \<Rightarrow> string" where
  "stoppedLine c inst =
     InstanceName inst @ '' ('' @ InstanceID inst @ '') - '' @
       getRegionDisplayName c (RegionID inst)"

definition skippedGroup :: "'w cloud \<Rightarrow> string \<Rightarrow> SpotInstance \<Rightarrow> bool" where
  "skippedGroup c region inst =
     (let isChina = isChinaMainlandRegion c (RegionID inst)
      in (region = ''china'' \<and> \<not> isChina) \<or> (region = ''non-china'' \<and> isChina))"

text \<open>The loop of \<^verbatim>\<open>shutdownRegionInstances\<close>, with its local \<^verbatim>\<open>stoppedInstances\<close>.\<close>

fun shutdownLoop ::
  "'w cloud \<Rightarrow> string \<Rightarrow> SpotInstance list \<Rightarrow> string list \<Rightarrow> 'w sys \<Rightarrow> string list \<times> 'w sys"
  where
  "shutdownLoop c region [] stoppedInstances s = (stoppedInstances, s)"
| "shutdownLoop c region (inst # rest) stoppedInstances s =
     (if skippedGroup c region inst then shutdownLoop c region rest stoppedInstances s
      else
        (case ecsGetInstanceStatus c (RegionID inst) (InstanceID inst) s of
           (Inl err, s1) \<Rightarrow> shutdownLoop c region rest stoppedInstances s1
         | (Inr status, s1) \<Rightarrow>
             if status \<noteq> ''Running'' then shutdownLoop c region rest stoppedInstances s1
             else
               (case ecsStopInstance c (RegionID inst) (InstanceID inst) ''StopCharging'' s1 of
                  (Some err, s2) \<Rightarrow> shutdownLoop c region rest stoppedInstances s2
                | (None, s2) \<Rightarrow>
                    shutdownLoop c region rest (stoppedInstances @ [stoppedLine c inst]) s2)))"

definition shutdownRegionInstances ::
  "'w cloud \<Rightarrow> string \<Rightarrow> float64 \<Rightarrow> float64 \<Rightarrow> 'w sys \<Rightarrow> 'w sys" where
  "shutdownRegionInstances c region trafficGB limitGB s =
     (case shutdownLoop c region (instances (mon s)) [] s of
        (stoppedInstances, s1) \<Rightarrow>
          if length stoppedInstances > 0
          then notify c (NotifyTrafficShutdown region trafficGB limitGB stoppedInstances) s1
          else s1)"

subsection \<open>Callback dispatch\<close>

text \<open>\<^verbatim>\<open>strings.Split(data, sep)\<close> for a separator of one character.\<close>

fun strings_Split :: "string \<Rightarrow> char \<Rightarrow> string list" where
  "strings_Split [] sep = [[]]"
| "strings_Split (x # xs) sep =
     (if x = sep then [] # strings_Split xs sep
      else (case strings_Split xs sep of
              [] \<Rightarrow> [[x]]
            | p # ps \<Rightarrow> (x # p) # ps))"

text \<open>
  The handlers that \<^verbatim>\<open>handleCallbackQuery\<close> dispatches to, and the bot's
  \<^verbatim>\<open>AnswerCallbackQuery\<close>, as operations on a state \<open>'s\<close> that holds everything they can
  reach (monitor, cloud, chat).
\<close>

record 's cbwp =
  handleCBWPSelectInstance :: "string \<Rightarrow> string \<Rightarrow> int \<Rightarrow> 's \<Rightarrow> error option \<times> 's"
  handleCBWPBind :: "string \<Rightarrow> string \<Rightarrow> string \<Rightarrow> int \<Rightarrow> 's \<Rightarrow> error option \<times> 's"
  handleCBWPUnbind :: "string \<Rightarrow> string \<Rightarrow> string \<Rightarrow> int \<Rightarrow> 's \<Rightarrow> error option \<times> 's"
  handleCBWPBackToList :: "int \<Rightarrow> 's \<Rightarrow> error option \<times> 's"
  answerCallbackQuery :: "string \<Rightarrow> string \<Rightarrow> bool \<Rightarrow> 's \<Rightarrow> error option \<times> 's"

definition handleCallbackQuery ::
  "'s cbwp \<Rightarrow> string \<Rightarrow> string \<Rightarrow> int \<Rightarrow> 's \<Rightarrow> error option \<times> 's" where
  "handleCallbackQuery h callbackID data messageID s =
     (let parts = strings_Split data (CHR '':'') in
      if length parts < 2 \<or> parts ! 0 \<noteq> ''cbwp'' then (None, s)
      else
        (let action = parts ! 1 in
         if action = ''select'' then
           (if length parts < 3 then (None, s)
            else handleCBWPSelectInstance h callbackID (parts ! 2) messageID s)
         else if action = ''bind'' then
           (if length parts < 4 then (None, s)
            else handleCBWPBind h callbackID (parts ! 2) (parts ! 3) messageID s)
         else if action = ''unbind'' then
           (if length parts < 4 then (None, s)
            else handleCBWPUnbind h callbackID (parts ! 2) (parts ! 3) messageID s)
         else if action = ''back'' then
           (case answerCallbackQuery h callbackID [] False s of
              (res, s1) \<Rightarrow> handleCBWPBackToList h messageID s1)
         else (None, s)))"

section \<open>Observing a run\<close>

text \<open>The events that a run appended to the trace.\<close>

definition newEvents :: "'w sys \<Rightarrow> 'w sys \<Rightarrow> event list" where
  "newEvents s s' = drop (length (trace s)) (trace s')"

fun isStartCmd :: "event \<Rightarrow> bool" where
  "isStartCmd (EvStartInstance r i res) = True"
| "isStartCmd e = False"

text \<open>The notifier calls among some events, in order.\<close>

fun noteOf :: "event \<Rightarrow> notification option" where
  "noteOf (EvNotify n res) = Some n"
| "noteOf e = None"

definition notesOf :: "event list \<Rightarrow> notification list" where
  "notesOf evs = List.map_filter noteOf evs"

fun isStarted :: "notification \<Rightarrow> bool" where
  "isStarted (NotifyInstanceStarted i n r ip d) = True"
| "isStarted x = False"

fun isStartFailed :: "notification \<Rightarrow> bool" where
  "isStartFailed (NotifyInstanceStartFailed i n r k e) = True"
| "isStartFailed x = False"

fun isReclaimed :: "notification \<Rightarrow> bool" where
  "isReclaimed (NotifyInstanceReclaimed i n r) = True"
| "isReclaimed x = False"

fun isMonitorStarted :: "notification \<Rightarrow> bool" where
  "isMonitorStarted (NotifyMonitorStarted k l) = True"
| "isMonitorStarted x = False"

fun isTrafficShutdown :: "notification \<Rightarrow> bool" where
  "isTrafficShutdown (NotifyTrafficShutdown g t l names) = True"
| "isTrafficShutdown x = False"

text \<open>
  \<open>ranTo s s' evs\<close>: the run from \<open>s\<close> to \<open>s'\<close> appended the events \<open>evs\<close> and left the
  monitor as it was.
\<close>

definition ranTo :: "'w sys \<Rightarrow> 'w sys \<Rightarrow> event list \<Rightarrow> bool" where
  "ranTo s s' evs \<longleftrightarrow> trace s' = trace s @ evs \<and> mon s' = mon s"

fun launchedFor :: "string \<Rightarrow> event \<Rightarrow> bool" where
  "launchedFor g (EvGoShutdown r t l) = (r = g)"
| "launchedFor g e = False"

text \<open>The bulk shutdowns launched for a group among some events.\<close>

definition launches :: "string \<Rightarrow> event list \<Rightarrow> nat" where
  "launches g evs = length (filter (launchedFor g) evs)"

fun statusQueried :: "event \<Rightarrow> (string \<times> string) option" where
  "statusQueried (EvGetInstanceStatus r i res) = Some (r, i)"
| "statusQueried e = None"

fun sawRunning :: "event \<Rightarrow> (string \<times> string) option" where
  "sawRunning (EvGetInstanceStatus r i (Inr st)) = (if st = ''Running'' then Some (r, i) else None)"
| "sawRunning e = None"

fun stopIssued :: "event \<Rightarrow> (string \<times> string \<times> string) option" where
  "stopIssued (EvStopInstance r i mode res) = Some (r, i, mode)"
| "stopIssued e = None"

fun stopSucceeded :: "event \<Rightarrow> (string \<times> string) option" where
  "stopSucceeded (EvStopInstance r i mode None) = Some (r, i)"
| "stopSucceeded e = None"

text \<open>
  What the retry loop of \<^verbatim>\<open>checkInstance\<close>, entered at iteration \<open>i\<close> with \<open>lastErr = le\<close>,
  leaves behind when it returns \<open>res\<close>: at most the remaining number of start commands, no
  stop command, no bulk shutdown, and, with a notifier, exactly one notification: either
  "started" (and the result is nil) or "start failed" with the retry count and the result.
\<close>

definition retried ::
  "SpotInstance \<Rightarrow> int \<Rightarrow> int \<Rightarrow> nat \<Rightarrow> error option \<Rightarrow> bool \<Rightarrow> error option \<Rightarrow> event list
     \<Rightarrow> bool" where
  "retried inst startTime n i le notifier res evs \<longleftrightarrow>
     length (filter isStartCmd evs) \<le> nat (n - int i)
     \<and> List.map_filter stopIssued evs = []
     \<and> filter (\<lambda>e. launchedFor ''china'' e \<or> launchedFor ''non-china'' e) evs = []
     \<and> (if notifier
        then ((\<exists>i' n' r' ip tnow.
                 notesOf evs = [NotifyInstanceStarted i' n' r' ip (time_Since tnow startTime)])
              \<and> res = None)
           \<or> (notesOf evs = [NotifyInstanceStartFailed (InstanceID inst) (InstanceName inst)
                               (RegionID inst) n res]
              \<and> (if int i < n then res \<noteq> None else res = le))
        else notesOf evs = [])"

definition instKey :: "SpotInstance \<Rightarrow> string \<times> string" where
  "instKey inst = (RegionID inst, InstanceID inst)"

text \<open>
  What the listing answered during a scan of \<^verbatim>\<open>DiscoverAllSpotInstances\<close>: for each region
  whose client could be made, in the order of the scan, the pages received.
\<close>

fun scanAnswers ::
  "'w cloud \<Rightarrow> string list \<Rightarrow> 'w \<Rightarrow> (error + RawInstance list) list list" where
  "scanAnswers c [] w = []"
| "scanAnswers c (regionID # rs) w =
     (case getClient c regionID w of
        (Some err, w1) \<Rightarrow> scanAnswers c rs w1
      | (None, w1) \<Rightarrow>
          (case sdkDescribeInstancePages c regionID w1 of
             (pages, w2) \<Rightarrow> pages # scanAnswers c rs w2))"

fun pageIds :: "error + RawInstance list \<Rightarrow> string list" where
  "pageIds (Inl err) = []"
| "pageIds (Inr page) = map raw_InstanceId page"

definition listedIds :: "(error + RawInstance list) list list \<Rightarrow> string list" where
  "listedIds answers = concat (map (\<lambda>pages. concat (map pageIds pages)) answers)"

text \<open>
  One attempt of the retry loop of \<^verbatim>\<open>checkInstance\<close>, iteration \<open>i\<close>: the pause before a
  retry, the start command and, when that returned nil, the wait for \<^verbatim>\<open>Running\<close>. Its result
  is nil when both succeeded and the error of the one that failed otherwise.
\<close>

definition attempt ::
  "'w cloud \<Rightarrow> SpotInstance \<Rightarrow> int \<Rightarrow> nat \<Rightarrow> 'w sys \<Rightarrow> error option \<times> 'w sys" where
  "attempt c inst retryInterval i s =
     (let s0 = (if i > 0 then sleep c (secondsDuration retryInterval) s else s) in
      case ecsStartInstance c (RegionID inst) (InstanceID inst) s0 of
        (Some err, s1) \<Rightarrow> (Some err, s1)
      | (None, s1) \<Rightarrow> waitForRunning c (RegionID inst) (InstanceID inst) s1)"

text \<open>
  What the specification says of the retries, to compare the loop with: make the attempts
  \<open>i\<close>, \<open>i + 1\<close>, ... one after the other, at most \<open>m\<close> of them, and stop at the first
  that succeeds. The result is \<open>Inr (j, s')\<close> when attempt \<open>j\<close> succeeded, leaving the state
  \<open>s'\<close>, and \<open>Inl (e, s')\<close> when all \<open>m\<close> attempts failed, \<open>e\<close> being the error of the last
  one (the given \<open>le\<close> when \<open>m = 0\<close>).
\<close>

fun attemptsUntilSuccess ::
  "'w cloud \<Rightarrow> SpotInstance \<Rightarrow> int \<Rightarrow> nat \<Rightarrow> nat \<Rightarrow> error option \<Rightarrow> 'w sys
     \<Rightarrow> (error option \<times> 'w sys) + (nat \<times> 'w sys)" where
  "attemptsUntilSuccess c inst retryInterval i 0 le s = Inl (le, s)"
| "attemptsUntilSuccess c inst retryInterval i (Suc m) le s =
     (case attempt c inst retryInterval i s of
        (Some err, s') \<Rightarrow> attemptsUntilSuccess c inst retryInterval (Suc i) m (Some err) s'
      | (None, s') \<Rightarrow> Inr (i, s'))"

text \<open>The notification that a restart sends after the wait has succeeded in state \<open>s\<close>.\<close>

definition startedNote ::
  "'w cloud \<Rightarrow> SpotInstance \<Rightarrow> int \<Rightarrow> 'w sys \<Rightarrow> notification" where
  "startedNote c inst startTime s =
     (let g = ecsGetInstance c (RegionID inst) (InstanceID inst) s;
          u = (case fst g of Inl err \<Rightarrow> inst | Inr updatedInst \<Rightarrow> updatedInst)
      in NotifyInstanceStarted (InstanceID u) (InstanceName u) (RegionID u) (PublicIPAddress u)
           (time_Since (timeNow c (world (snd g))) startTime))"

text \<open>
  Every listing of the scan over the regions \<open>rs\<close> fails, each asked in the world its
  predecessors left.
\<close>

fun everyListingFails :: "'w cloud \<Rightarrow> string list \<Rightarrow> 'w \<Rightarrow> bool" where
  "everyListingFails c [] w = True"
| "everyListingFails c (regionID # rs) w =
     (case GetSpotInstances c regionID w of
        (Inl err, w1) \<Rightarrow> everyListingFails c rs w1
      | (Inr insts, w1) \<Rightarrow> False)"

section \<open>Concrete collaborators\<close>

text \<open>
  A scripted world: a clock, and for each kind of remote call the answers still to be given
  (when a script has run out the call succeeds; a status query then finds no instance).
  Every remote call takes one second.
\<close>

record script =
  sc_clock :: int
  sc_clientErr :: "error option"
  sc_regions :: "error + string list"
  sc_pages :: "string \<Rightarrow> (error + RawInstance list) list"
  sc_statuses :: "(error + string list) list"
  sc_starts :: "error option list"
  sc_stops :: "error option list"
  sc_notifies :: "error option list"
  sc_traffic :: "(error + TrafficSummary) list"
  sc_ticks :: nat

definition tick :: "script \<Rightarrow> script" where
  "tick w = w\<lparr>sc_clock := sc_clock w + 1000000000\<rparr>"

definition scriptedCloud :: "script cloud" where
  "scriptedCloud =
     \<lparr> getClient = (\<lambda>r w. (sc_clientErr w, w)),
       sdkDescribeRegions = (\<lambda>w. (sc_regions w, tick w)),
       sdkDescribeInstancePages = (\<lambda>r w. (sc_pages w r, tick w)),
       sdkDescribeInstance = (\<lambda>r i w. (Inr [], tick w)),
       sdkDescribeInstanceStatus =
         (\<lambda>r i w. case sc_statuses w of
                    [] \<Rightarrow> (Inr [], tick w)
                  | a # as \<Rightarrow> (a, tick (w\<lparr>sc_statuses := as\<rparr>))),
       sdkStartInstance =
         (\<lambda>r i w. case sc_starts w of
                    [] \<Rightarrow> (None, tick w)
                  | a # as \<Rightarrow> (a, tick (w\<lparr>sc_starts := as\<rparr>))),
       sdkStopInstance =
         (\<lambda>r i mode w. case sc_stops w of
                    [] \<Rightarrow> (None, tick w)
                  | a # as \<Rightarrow> (a, tick (w\<lparr>sc_stops := as\<rparr>))),
       completionOrder = (\<lambda>rs w. rs),
       timeNow = sc_clock,
       timeSleep = (\<lambda>d w. w\<lparr>sc_clock := sc_clock w + d\<rparr>),
       ticksBeforeTimeout = sc_ticks,
       notifierSend =
         (\<lambda>n w. case sc_notifies w of
                    [] \<Rightarrow> (None, tick w)
                  | a # as \<Rightarrow> (a, tick (w\<lparr>sc_notifies := as\<rparr>))),
       queryInternetTraffic =
         (\<lambda>w. case sc_traffic w of
                    [] \<Rightarrow> (Inl ''no data'', tick w)
                  | a # as \<Rightarrow> (a, tick (w\<lparr>sc_traffic := as\<rparr>))),
       isChinaMainlandRegion = (\<lambda>r. prefix ''cn-'' r),
       getRegionDisplayName = (\<lambda>r. r) \<rparr>"

definition idleScript :: script where
  "idleScript =
     \<lparr> sc_clock = 0, sc_clientErr = None, sc_regions = Inr [], sc_pages = (\<lambda>r. []),
       sc_statuses = [], sc_starts = [], sc_stops = [], sc_notifies = [], sc_traffic = [],
       sc_ticks = 24 \<rparr>"

definition demoConfig :: Config where
  "demoConfig =
     \<lparr> RetryCount = 3, RetryInterval = 30, NotifyCooldown = 3600,
       TrafficShutdownEnabled = True, TrafficLimitChinaGB = Fin 19,
       TrafficLimitNonChinaGB = Fin 190 \<rparr>"

definition demoInstance :: "string \<Rightarrow> string \<Rightarrow> SpotInstance" where
  "demoInstance instanceID regionID =
     \<lparr> InstanceID = instanceID, InstanceName = ''web'', RegionID = regionID,
       Status = ''Running'', PublicIPAddress = [], PrivateIPAddress = [],
       SpotStrategy = ''SpotAsPriceGo'' \<rparr>"

definition demoMonitor :: "bool \<Rightarrow> SpotInstance list \<Rightarrow> Monitor" where
  "demoMonitor notifier insts =
     \<lparr> cfg = demoConfig, hasNotifier = notifier, hasTrafficClient = True, instances = insts,
       lastNotify = Map.empty, chinaShutdown = False, nonChinaShutdown = False \<rparr>"

definition demoSys :: "bool \<Rightarrow> SpotInstance list \<Rightarrow> script \<Rightarrow> script sys" where
  "demoSys notifier insts w = \<lparr> mon = demoMonitor notifier insts, world = w, trace = [] \<rparr>"

definition demoRaw :: "string \<Rightarrow> RawInstance" where
  "demoRaw instanceID =
     \<lparr> raw_InstanceId = instanceID, raw_InstanceName = ''web'', raw_Status = ''Running'',
       raw_SpotStrategy = ''SpotAsPriceGo'', raw_PublicIpAddress = [], raw_EipAddress = [],
       raw_InnerIpAddress = [], raw_VpcPrivateIpAddress = [] \<rparr>"

text \<open>Handlers that only count how often anything was called.\<close>

definition countingHandlers :: "nat cbwp" where
  "countingHandlers =
     \<lparr> handleCBWPSelectInstance = (\<lambda>cb i m s. (None, Suc s)),
       handleCBWPBind = (\<lambda>cb i b m s. (None, Suc s)),
       handleCBWPUnbind = (\<lambda>cb i b m s. (None, Suc s)),
       handleCBWPBackToList = (\<lambda>m s. (None, Suc s)),
       answerCallbackQuery = (\<lambda>cb t a s. (None, Suc s)) \<rparr>"

text \<open>\<^verbatim>\<open>strings.Join\<close>, to say what \<open>strings_Split\<close> computes.\<close>

fun strings_Join :: "string list \<Rightarrow> char \<Rightarrow> string" where
  "strings_Join [] sep = []"
| "strings_Join [p] sep = p"
| "strings_Join (p # q # ps) sep = p @ sep # strings_Join (q # ps) sep"

definition latchedSys :: "script sys" where
  "latchedSys =
     \<lparr> mon = (demoMonitor True [demoInstance ''i-001'' ''cn-hangzhou''])\<lparr>chinaShutdown := True\<rparr>,
       world = idleScript, trace = [] \<rparr>"

text \<open>
  The instance \<^verbatim>\<open>i-001\<close> was reclaimed: the first status query answers \<^verbatim>\<open>Stopped\<close>, the
  start command fails twice and then succeeds, and the next status query answers
  \<^verbatim>\<open>Running\<close>.
\<close>

definition reclaimedSys :: "bool \<Rightarrow> script sys" where
  "reclaimedSys notifier =
     demoSys notifier [demoInstance ''i-001'' ''cn-hangzhou'']
       (idleScript\<lparr>sc_statuses := [Inr [''Stopped''], Inr [''Running'']],
                   sc_starts := [Some ''Throttling'', Some ''Throttling'', None]\<rparr>)"

definition startingSys :: "script sys" where
  "startingSys = demoSys True [] (idleScript\<lparr>sc_statuses := [Inr [''Running'']]\<rparr>)"

text \<open>A sequence of check cycles, one after the other.\<close>

fun CheckTimes :: "'w cloud \<Rightarrow> nat \<Rightarrow> 'w sys \<Rightarrow> 'w sys" where
  "CheckTimes c 0 s = s"
| "CheckTimes c (Suc k) s = CheckTimes c k (snd (Check c s))"

text \<open>
  A fleet in one region: the registry holds \<^verbatim>\<open>A\<close> and \<^verbatim>\<open>B\<close>, the listing answers \<^verbatim>\<open>A\<close> and
  \<^verbatim>\<open>C\<close>; and the same with a listing of the regions that fails.
\<close>

definition fleetScript :: script where
  "fleetScript =
     idleScript\<lparr>sc_regions := Inr [''cn-hangzhou''],
                 sc_pages := (\<lambda>r. [Inr [demoRaw ''A'', demoRaw ''C'']])\<rparr>"

definition fleetSys :: "script sys" where
  "fleetSys =
     demoSys True [toSpotInstance ''cn-hangzhou'' (demoRaw ''A''),
                   toSpotInstance ''cn-hangzhou'' (demoRaw ''B'')]
       (fleetScript\<lparr>sc_statuses := [Inr [''Running''], Inr [''Running'']]\<rparr>)"

definition outageSys :: "script sys" where
  "outageSys =
     demoSys True [toSpotInstance ''cn-hangzhou'' (demoRaw ''A''),
                   toSpotInstance ''cn-hangzhou'' (demoRaw ''B'')]
       (idleScript\<lparr>sc_regions := Inl ''timeout'',
                   sc_statuses := [Inr [''Running''], Inr [''Running'']]\<rparr>)"

text \<open>Two moments after a first alert for \<^verbatim>\<open>i-001\<close>: 99 seconds and 3999 seconds later.\<close>

definition alertedSys :: "bool \<Rightarrow> script sys" where
  "alertedSys notifier =
     reclaimNotify scriptedCloud (demoInstance ''i-001'' ''cn-hangzhou'')
       (demoSys notifier [demoInstance ''i-001'' ''cn-hangzhou''] idleScript)"

definition laterSys :: "bool \<Rightarrow> int \<Rightarrow> script sys" where
  "laterSys notifier seconds =
     (alertedSys notifier)
       \<lparr>world := (world (alertedSys notifier))
                   \<lparr>sc_clock := sc_clock (world (alertedSys notifier)) + seconds * 1000000000\<rparr>\<rparr>"








text \<open>
  A registry of three instances, two of them in China regions; the status queries answer
  \<^verbatim>\<open>Running\<close> for the first and \<^verbatim>\<open>Stopped\<close> for the second. And a registry whose only
  instance is stopped already.
\<close>

definition breachedSys :: "script sys" where
  "breachedSys =
     demoSys True [demoInstance ''i-001'' ''cn-hangzhou'', demoInstance ''i-002'' ''us-west-1'',
                   demoInstance ''i-003'' ''cn-beijing'']
       (idleScript\<lparr>sc_statuses := [Inr [''Running''], Inr [''Stopped'']]\<rparr>)"

definition quietSys :: "script sys" where
  "quietSys =
     demoSys True [demoInstance ''i-003'' ''cn-beijing'']
       (idleScript\<lparr>sc_statuses := [Inr [''Stopped'']]\<rparr>)"

text \<open>
  A region with 101 spot instances whose listing shifts by one between the first and the
  second page (an instance was created in between): the last instance of the first page is
  listed again as the first of the second.
\<close>

definition numberedRaw :: "nat \<Rightarrow> RawInstance" where
  "numberedRaw k = demoRaw (''i-'' @ replicate k (CHR ''x''))"

definition firstPage :: "RawInstance list" where
  "firstPage = map numberedRaw [0..<100]"

definition shiftedScript :: script where
  "shiftedScript =
     idleScript\<lparr>sc_regions := Inr [''cn-hangzhou''],
                 sc_pages := (\<lambda>r. [Inr firstPage, Inr [numberedRaw 99]])\<rparr>"

definition shiftedSys :: "script sys" where
  "shiftedSys = demoSys True [] shiftedScript"

text \<open>The instance \<^verbatim>\<open>i-001\<close> was reclaimed and every start command fails.\<close>

definition failingSys :: "bool \<Rightarrow> script sys" where
  "failingSys notifier =
     demoSys notifier [demoInstance ''i-001'' ''cn-hangzhou'']
       (idleScript\<lparr>sc_statuses := [Inr [''Stopped'']],
                   sc_starts := [Some ''Throttling'', Some ''Throttling'', Some ''Throttling'']\<rparr>)"

text \<open>
  The registry holds \<^verbatim>\<open>A\<close> and \<^verbatim>\<open>B\<close>; the listing of the regions answers, the listing of
  the one region's instances fails.
\<close>

definition blackoutSys :: "script sys" where
  "blackoutSys =
     demoSys True [toSpotInstance ''cn-hangzhou'' (demoRaw ''A''),
                   toSpotInstance ''cn-hangzhou'' (demoRaw ''B'')]
       (idleScript\<lparr>sc_regions := Inr [''cn-hangzhou''],
                   sc_pages := (\<lambda>r. [Inl ''timeout'']),
                   sc_statuses := [Inr [''Running''], Inr [''Running'']]\<rparr>)"

section \<open>Strings\<close>

lemma strings_Contains_sublist: "strings_Contains s sub \<longleftrightarrow> sublist sub s"
  by (induction s) (auto simp: sublist_Cons_right)

lemma strings_Split_not_Nil: "strings_Split s sep \<noteq> []"
  by (induction s) (auto split: list.splits)

lemma strings_Split_no_sep: "p \<in> set (strings_Split s sep) \<Longrightarrow> sep \<notin> set p"
  by (induction s arbitrary: p) (auto split: list.splits if_splits)

lemma strings_Join_Split: "strings_Join (strings_Split s sep) sep = s"
proof (induction s)
  case Nil
  then show ?case by simp
next
  case (Cons x xs)
  obtain p ps where ps: "strings_Split xs sep = p # ps"
    using strings_Split_not_Nil[of xs sep] by (cases "strings_Split xs sep") auto
  with Cons show ?case by (cases ps) auto
qed

lemma conflict_message: "sublist ''IncorrectInstanceStatus'' ''ErrorCode: IncorrectInstanceStatus''"
  by (simp add: strings_Contains_sublist[symmetric])

lemma throttling_message: "\<not> sublist ''IncorrectInstanceStatus'' ''Throttling''"
  by (simp add: strings_Contains_sublist[symmetric])

section \<open>State conflicts on start and stop\<close>

text \<open>
  C8. When the start command of the SDK is rejected with an error whose message contains
  \<^verbatim>\<open>IncorrectInstanceStatus\<close>, \<^verbatim>\<open>StartInstance\<close> returns nil; likewise \<^verbatim>\<open>StopInstance\<close> for
  the stop command. Every other failure is returned as an error: another SDK error is
  returned wrapped, and a failure to obtain the region's client is returned as it is.
\<close>

theorem state_conflict_swallowed:
  "(getClient c regionID wa = (None, wa')
      \<and> sdkStartInstance c regionID instanceID wa' = (Some ea, wa'')
      \<and> sublist ''IncorrectInstanceStatus'' ea \<longrightarrow>
        StartInstance c regionID instanceID wa = (None, wa''))
   \<and> (getClient c regionID wb = (None, wb')
      \<and> sdkStopInstance c regionID instanceID mode wb' = (Some eb, wb'')
      \<and> sublist ''IncorrectInstanceStatus'' eb \<longrightarrow>
        StopInstance c regionID instanceID mode wb = (None, wb''))
   \<and> (getClient c regionID wc = (None, wc')
      \<and> sdkStartInstance c regionID instanceID wc' = (Some ec, wc'')
      \<and> \<not> sublist ''IncorrectInstanceStatus'' ec \<longrightarrow>
        StartInstance c regionID instanceID wc =
          (Some (''failed to start instance '' @ instanceID @ '': '' @ ec), wc''))
   \<and> (getClient c regionID wd = (None, wd')
      \<and> sdkStopInstance c regionID instanceID mode wd' = (Some ed, wd'')
      \<and> \<not> sublist ''IncorrectInstanceStatus'' ed \<longrightarrow>
        StopInstance c regionID instanceID mode wd =
          (Some (''failed to stop instance '' @ instanceID @ '': '' @ ed), wd''))
   \<and> (getClient c regionID we = (Some ee, we') \<longrightarrow>
        StartInstance c regionID instanceID we = (Some ee, we')
        \<and> StopInstance c regionID instanceID mode we = (Some ee, we'))"
  by (simp add: StartInstance_def StopInstance_def strings_Contains_sublist)

theorem state_conflict_swallowed_witness:
  "StartInstance scriptedCloud ''cn-hangzhou'' ''i-001''
       (idleScript\<lparr>sc_starts := [Some ''ErrorCode: IncorrectInstanceStatus'']\<rparr>)
     = (None, tick idleScript)
   \<and> StopInstance scriptedCloud ''cn-hangzhou'' ''i-001'' ''StopCharging''
       (idleScript\<lparr>sc_stops := [Some ''ErrorCode: IncorrectInstanceStatus'']\<rparr>)
     = (None, tick idleScript)
   \<and> StartInstance scriptedCloud ''cn-hangzhou'' ''i-001''
       (idleScript\<lparr>sc_starts := [Some ''Throttling'']\<rparr>)
     = (Some ''failed to start instance i-001: Throttling'', tick idleScript)
   \<and> StopInstance scriptedCloud ''cn-hangzhou'' ''i-001'' ''StopCharging''
       (idleScript\<lparr>sc_stops := [Some ''Throttling'']\<rparr>)
     = (Some ''failed to stop instance i-001: Throttling'', tick idleScript)
   \<and> StartInstance scriptedCloud ''cn-hangzhou'' ''i-001''
       (idleScript\<lparr>sc_clientErr := Some ''no credentials''\<rparr>)
     = (Some ''no credentials'', idleScript\<lparr>sc_clientErr := Some ''no credentials''\<rparr>)"
  using state_conflict_swallowed[where c = scriptedCloud and regionID = "''cn-hangzhou''"
      and instanceID = "''i-001''" and mode = "''StopCharging''"
      and wa = "idleScript\<lparr>sc_starts := [Some ''ErrorCode: IncorrectInstanceStatus'']\<rparr>"
      and wa' = "idleScript\<lparr>sc_starts := [Some ''ErrorCode: IncorrectInstanceStatus'']\<rparr>"
      and ea = "''ErrorCode: IncorrectInstanceStatus''" and wa'' = "tick idleScript"
      and wb = "idleScript\<lparr>sc_stops := [Some ''ErrorCode: IncorrectInstanceStatus'']\<rparr>"
      and wb' = "idleScript\<lparr>sc_stops := [Some ''ErrorCode: IncorrectInstanceStatus'']\<rparr>"
      and eb = "''ErrorCode: IncorrectInstanceStatus''" and wb'' = "tick idleScript"
      and wc = "idleScript\<lparr>sc_starts := [Some ''Throttling'']\<rparr>"
      and wc' = "idleScript\<lparr>sc_starts := [Some ''Throttling'']\<rparr>"
      and ec = "''Throttling''" and wc'' = "tick idleScript"
      and wd = "idleScript\<lparr>sc_stops := [Some ''Throttling'']\<rparr>"
      and wd' = "idleScript\<lparr>sc_stops := [Some ''Throttling'']\<rparr>"
      and ed = "''Throttling''" and wd'' = "tick idleScript"
      and we = "idleScript\<lparr>sc_clientErr := Some ''no credentials''\<rparr>"
      and ee = "''no credentials''"
      and we' = "idleScript\<lparr>sc_clientErr := Some ''no credentials''\<rparr>"]
    conflict_message throttling_message
  by (simp add: scriptedCloud_def idleScript_def tick_def)

section \<open>Callback dispatch\<close>

text \<open>
  C10. A callback whose data, split at the colons, has fewer than two parts, or whose first
  part is not \<^verbatim>\<open>cbwp\<close>, or whose action is none of select, bind, unbind and back, or whose
  action lacks its arguments (fewer than three parts for select, fewer than four for bind
  and unbind) makes \<^verbatim>\<open>handleCallbackQuery\<close> return nil with the state as it was: no
  handler and no call of the bot has run.
\<close>

theorem malformed_callback_noop:
  assumes "parts = strings_Split data (CHR '':'')"
    and "length parts < 2 \<or> parts ! 0 \<noteq> ''cbwp''
         \<or> parts ! 1 \<notin> {''select'', ''bind'', ''unbind'', ''back''}
         \<or> (parts ! 1 = ''select'' \<and> length parts < 3)
         \<or> (parts ! 1 \<in> {''bind'', ''unbind''} \<and> length parts < 4)"
  shows "handleCallbackQuery h callbackID data messageID s = (None, s)"
  using assms by (auto simp: handleCallbackQuery_def Let_def)

lemma split_bind_without_package:
  "[''cbwp'', ''bind'', ''i-001''] = strings_Split ''cbwp:bind:i-001'' (CHR '':'')"
  by simp

theorem malformed_callback_noop_witness:
  "strings_Split ''cbwp:bind:i-001'' (CHR '':'') = [''cbwp'', ''bind'', ''i-001'']
   \<and> handleCallbackQuery countingHandlers ''cb1'' ''cbwp:bind:i-001'' 7 (0::nat) = (None, 0)
   \<and> handleCallbackQuery countingHandlers ''cb1'' ''cbwp:bind:i-001:bwp-1'' 7 (0::nat) = (None, 1)"
proof -
  have "handleCallbackQuery countingHandlers ''cb1'' ''cbwp:bind:i-001'' 7 (0::nat) = (None, 0)"
    by (rule malformed_callback_noop[OF split_bind_without_package]) simp
  moreover have
    "handleCallbackQuery countingHandlers ''cb1'' ''cbwp:bind:i-001:bwp-1'' 7 (0::nat) = (None, 1)"
    by (simp add: handleCallbackQuery_def countingHandlers_def)
  ultimately show ?thesis by simp
qed

section \<open>Runs and their events\<close>

declare retryLoop.simps [simp del]

lemma map_filter_append:
  "List.map_filter f (xs @ ys) = List.map_filter f xs @ List.map_filter f ys"
  by (simp add: map_filter_def)

lemma notesOf_simps [simp]:
  "notesOf [] = []"
  "notesOf (evs @ evs') = notesOf evs @ notesOf evs'"
  "notesOf (e # evs) = (case noteOf e of None \<Rightarrow> notesOf evs | Some n \<Rightarrow> n # notesOf evs)"
  by (simp_all add: notesOf_def map_filter_append split: option.splits)

lemma ranTo_refl: "ranTo s s []"
  by (simp add: ranTo_def)

lemma ranTo_trans: "ranTo s s' evs \<Longrightarrow> ranTo s' s'' evs' \<Longrightarrow> ranTo s s'' (evs @ evs')"
  by (simp add: ranTo_def)

lemma ranTo_newEvents: "ranTo s s' evs \<Longrightarrow> newEvents s s' = evs"
  by (simp add: ranTo_def newEvents_def)

lemma ranTo_status:
  "ecsGetInstanceStatus c r i s = (res, s') \<Longrightarrow> ranTo s s' [EvGetInstanceStatus r i res]"
  by (auto simp: ecsGetInstanceStatus_def ranTo_def split: prod.splits)

lemma ranTo_start:
  "ecsStartInstance c r i s = (res, s') \<Longrightarrow> ranTo s s' [EvStartInstance r i res]"
  by (auto simp: ecsStartInstance_def ranTo_def split: prod.splits)

lemma ranTo_stop:
  "ecsStopInstance c r i mode s = (res, s') \<Longrightarrow> ranTo s s' [EvStopInstance r i mode res]"
  by (auto simp: ecsStopInstance_def ranTo_def split: prod.splits)

lemma ranTo_getInstance:
  "ecsGetInstance c r i s = (res, s') \<Longrightarrow> ranTo s s' [EvGetInstance r i]"
  by (auto simp: ecsGetInstance_def ranTo_def split: prod.splits)

lemma ranTo_sleep: "ranTo s (sleep c d s) [EvSleep d]"
  by (simp add: sleep_def ranTo_def)

lemma ranTo_notify:
  "ranTo s (notify c n s)
     (if hasNotifier (mon s) then [EvNotify n (fst (notifierSend c n (world s)))] else [])"
  by (auto simp: notify_def ranTo_def split: prod.splits)

text \<open>Events that are status queries only.\<close>

lemma waitPolls_ran:
  "\<exists>evs. ranTo s (snd (waitPolls c r i n s)) evs \<and> (\<forall>e \<in> set evs. statusQueried e \<noteq> None)"
proof (induction n arbitrary: s)
  case 0
  then show ?case by (auto intro: ranTo_refl)
next
  case (Suc n)
  obtain res s1 where q: "ecsGetInstanceStatus c r i s = (res, s1)"
    by (cases "ecsGetInstanceStatus c r i s") auto
  from Suc[of s1] obtain evs where evs: "ranTo s1 (snd (waitPolls c r i n s1)) evs"
    "\<forall>e \<in> set evs. statusQueried e \<noteq> None" by blast
  have a: "ranTo s s1 [EvGetInstanceStatus r i res]" using q by (rule ranTo_status)
  show ?case
  proof (cases "res = Inr ''Running''")
    case True
    with q a show ?thesis by (intro exI[of _ "[EvGetInstanceStatus r i res]"]) simp
  next
    case False
    with q have "waitPolls c r i (Suc n) s = waitPolls c r i n s1"
      by (cases res) auto
    with ranTo_trans[OF a evs(1)] evs(2) show ?thesis
      by (intro exI[of _ "[EvGetInstanceStatus r i res] @ evs"]) simp
  qed
qed

lemma status_only:
  assumes "\<forall>e \<in> set evs. statusQueried e \<noteq> None"
  shows "filter isStartCmd evs = []" "notesOf evs = []" "List.map_filter stopIssued evs = []"
    "filter (\<lambda>e. launchedFor ''china'' e \<or> launchedFor ''non-china'' e) evs = []"
  using assms
proof (induction evs)
  case Nil
  { case 1 show ?case by simp next case 2 show ?case by simp next case 3 show ?case by simp next case 4 show ?case by simp }
next
  case (Cons e evs)
  { case 1 then show ?case using Cons by (cases e) auto
  next case 2 then show ?case using Cons by (cases e) auto
  next case 3 then show ?case using Cons by (cases e) auto
  next case 4 then show ?case using Cons by (cases e) auto }
qed

lemma retried_cons:
  assumes "retried inst st n (Suc i) (Some err) nf res evs" "int i < n"
    "length (filter isStartCmd pre) \<le> 1" "List.map_filter stopIssued pre = []"
    "filter (\<lambda>e. launchedFor ''china'' e \<or> launchedFor ''non-china'' e) pre = []"
    "notesOf pre = []"
  shows "retried inst st n i le nf res (pre @ evs)"
proof -
  have "res \<noteq> None" if "notesOf evs = [NotifyInstanceStartFailed (InstanceID inst)
      (InstanceName inst) (RegionID inst) n res]" "nf"
    using assms(1) that by (auto simp: retried_def split: if_splits)
  then show ?thesis
    using assms by (auto simp: retried_def map_filter_append split: if_splits)
qed

lemma retryLoop_run:
  "\<exists>evs. ranTo s (snd (retryLoop c inst st n ri i le s)) evs
     \<and> retried inst st n i le (hasNotifier (mon s)) (fst (retryLoop c inst st n ri i le s)) evs"
proof (induction c inst st n ri i le s rule: retryLoop.induct)
  case (1 c inst st n ri i le s)
  let ?R = "retryLoop c inst st n ri i le s"
  show ?case
  proof (cases "int i < n")
    case False
    then have R: "?R = (le, notify c (NotifyInstanceStartFailed (InstanceID inst)
                     (InstanceName inst) (RegionID inst) n le) s)"
      by (subst retryLoop.simps) simp
    show ?thesis
      unfolding R using False ranTo_notify[of s c "NotifyInstanceStartFailed (InstanceID inst)
                     (InstanceName inst) (RegionID inst) n le"]
      by (intro exI[of _ "if hasNotifier (mon s) then [EvNotify (NotifyInstanceStartFailed (InstanceID inst)
                     (InstanceName inst) (RegionID inst) n le) (fst (notifierSend c (NotifyInstanceStartFailed (InstanceID inst)
                     (InstanceName inst) (RegionID inst) n le) (world s)))] else []"])
         (simp add: retried_def)
  next
    case True
    define s0 where "s0 = (if 0 < i then sleep c (secondsDuration ri) s else s)"
    obtain ev0 where ev0: "ranTo s s0 ev0" "filter isStartCmd ev0 = []" "notesOf ev0 = []"
      "List.map_filter stopIssued ev0 = []"
      "filter (\<lambda>e. launchedFor ''china'' e \<or> launchedFor ''non-china'' e) ev0 = []"
      using ranTo_sleep[of s c "secondsDuration ri"] ranTo_refl[of s]
      by (cases "0 < i") (auto simp: s0_def)
    obtain r1 s1 where st: "ecsStartInstance c (RegionID inst) (InstanceID inst) s0 = (r1, s1)"
      by (cases "ecsStartInstance c (RegionID inst) (InstanceID inst) s0") auto
    define pre1 where "pre1 = ev0 @ [EvStartInstance (RegionID inst) (InstanceID inst) r1]"
    have a1: "ranTo s s1 pre1"
      unfolding pre1_def using ranTo_trans[OF ev0(1) ranTo_start[OF st]] .
    have p1: "length (filter isStartCmd pre1) \<le> 1" "List.map_filter stopIssued pre1 = []"
      "filter (\<lambda>e. launchedFor ''china'' e \<or> launchedFor ''non-china'' e) pre1 = []"
      "notesOf pre1 = []"
      using ev0 by (simp_all add: pre1_def map_filter_append)
    have mon1: "mon s1 = mon s" using a1 by (simp add: ranTo_def)
    show ?thesis
    proof (cases r1)
      case (Some err)
      then have R: "?R = retryLoop c inst st n ri (Suc i) (Some err) s1"
        using True st by (subst retryLoop.simps) (simp add: s0_def)
      from "1.IH"(2)[OF True s0_def st[symmetric] Some] obtain evs
        where evs: "ranTo s1 (snd ?R) evs"
          "retried inst st n (Suc i) (Some err) (hasNotifier (mon s)) (fst ?R) evs"
        unfolding R mon1 by (elim exE conjE)
      show ?thesis
        using ranTo_trans[OF a1 evs(1)] retried_cons[OF evs(2) True p1] by blast
    next
      case None
      obtain r2 s2 where wt: "waitForRunning c (RegionID inst) (InstanceID inst) s1 = (r2, s2)"
        by (cases "waitForRunning c (RegionID inst) (InstanceID inst) s1") auto
      obtain ev2 where ev2: "ranTo s1 s2 ev2" "\<forall>e \<in> set ev2. statusQueried e \<noteq> None"
        using waitPolls_ran[of s1 c "RegionID inst" "InstanceID inst" "ticksBeforeTimeout c (world s1)"] wt
        by (auto simp: waitForRunning_def)
      note q2 = status_only[OF ev2(2)]
      define pre2 where "pre2 = pre1 @ ev2"
      have a2: "ranTo s s2 pre2"
        unfolding pre2_def using ranTo_trans[OF a1 ev2(1)] .
      have p2: "length (filter isStartCmd pre2) \<le> 1" "List.map_filter stopIssued pre2 = []"
        "filter (\<lambda>e. launchedFor ''china'' e \<or> launchedFor ''non-china'' e) pre2 = []"
        "notesOf pre2 = []"
        using p1 q2 by (simp_all add: pre2_def map_filter_append)
      have mon2: "mon s2 = mon s" using a2 by (simp add: ranTo_def)
      show ?thesis
      proof (cases r2)
        case (Some err)
        then have R: "?R = retryLoop c inst st n ri (Suc i) (Some err) s2"
          using True st wt None by (subst retryLoop.simps) (simp add: s0_def)
        from "1.IH"(1)[OF True s0_def st[symmetric] None wt[symmetric] Some] obtain evs
          where evs: "ranTo s2 (snd ?R) evs"
            "retried inst st n (Suc i) (Some err) (hasNotifier (mon s)) (fst ?R) evs"
          unfolding R mon2 by (elim exE conjE)
        show ?thesis
          using ranTo_trans[OF a2 evs(1)] retried_cons[OF evs(2) True p2] by blast
      next
        case r2: None
        obtain r3 s3 where gi: "ecsGetInstance c (RegionID inst) (InstanceID inst) s2 = (r3, s3)"
          by (cases "ecsGetInstance c (RegionID inst) (InstanceID inst) s2") auto
        define inst' where "inst' = (case r3 of Inl err \<Rightarrow> inst | Inr u \<Rightarrow> u)"
        define nt where "nt = NotifyInstanceStarted (InstanceID inst') (InstanceName inst')
               (RegionID inst') (PublicIPAddress inst') (time_Since (timeNow c (world s3)) st)"
        have R: "?R = (None, notify c nt s3)"
          using True st wt None r2 gi
          by (subst retryLoop.simps) (simp add: s0_def inst'_def nt_def Let_def)
        define pre3 where "pre3 = pre2 @ [EvGetInstance (RegionID inst) (InstanceID inst)]"
        have a3: "ranTo s s3 pre3"
          unfolding pre3_def using ranTo_trans[OF a2 ranTo_getInstance[OF gi]] .
        have mon3: "mon s3 = mon s" using a3 by (simp add: ranTo_def)
        define fin where "fin = (if hasNotifier (mon s)
                       then [EvNotify nt (fst (notifierSend c nt (world s3)))] else [])"
        have a4: "ranTo s (notify c nt s3) (pre3 @ fin)"
          using ranTo_trans[OF a3 ranTo_notify[of s3 c nt]] by (simp add: fin_def mon3)
        have "retried inst st n i le (hasNotifier (mon s)) None (pre3 @ fin)"
          using p2 True
          by (auto simp: retried_def pre3_def fin_def map_filter_append nt_def)
        with a4 show ?thesis unfolding R by auto
      qed
    qed
  qed
qed

lemma reclaimNotify_run:
  "\<exists>evs. trace (reclaimNotify c inst s) = trace s @ evs
     \<and> notesOf evs =
         (if canNotify (mon s) (InstanceID inst) (timeNow c (world s)) \<and> hasNotifier (mon s)
          then [NotifyInstanceReclaimed (InstanceID inst) (InstanceName inst) (RegionID inst)]
          else [])
     \<and> filter isStartCmd evs = []
     \<and> List.map_filter stopIssued evs = []
     \<and> filter (\<lambda>e. launchedFor ''china'' e \<or> launchedFor ''non-china'' e) evs = []
     \<and> mon (reclaimNotify c inst s)
         = (mon s)\<lparr>lastNotify := lastNotify (mon (reclaimNotify c inst s))\<rparr>"
  by (cases "notifierSend c (NotifyInstanceReclaimed (InstanceID inst) (InstanceName inst)
                (RegionID inst)) (world s)")
     (simp add: reclaimNotify_def notify_def updateNotifyTime_def Let_def)

section \<open>Reclaim and restart\<close>

text \<open>
  C3. When the group latch of the instance is active, \<^verbatim>\<open>checkInstance\<close> returns nil at once:
  nothing is queried and the state is as it was. When the latch is clear and the status
  query answers anything but \<^verbatim>\<open>Stopped\<close>, it returns nil, the status query is the only event
  of the run and no start command is issued.
\<close>

theorem not_stopped_is_noop:
  "(blocked c (mon s) inst \<longrightarrow> checkInstance c inst s = (None, s))
   \<and> (\<not> blocked c (mon s') inst
        \<and> GetInstanceStatus c (RegionID inst) (InstanceID inst) (world s') = (Inr status, w')
        \<and> status \<noteq> ''Stopped'' \<longrightarrow>
        checkInstance c inst s' =
          (None, s'\<lparr>world := w',
                    trace := trace s' @
                      [EvGetInstanceStatus (RegionID inst) (InstanceID inst) (Inr status)]\<rparr>)
        \<and> filter isStartCmd (newEvents s' (snd (checkInstance c inst s'))) = [])"
  by (simp add: checkInstance_def ecsGetInstanceStatus_def newEvents_def)

lemma latched_blocked:
  "blocked scriptedCloud (mon latchedSys) (demoInstance ''i-001'' ''cn-hangzhou'')"
  by (simp add: blocked_def scriptedCloud_def latchedSys_def demoMonitor_def demoInstance_def)

lemma starting_not_blocked:
  "\<not> blocked scriptedCloud (mon startingSys) (demoInstance ''i-001'' ''cn-hangzhou'')"
  by (simp add: blocked_def scriptedCloud_def startingSys_def demoSys_def demoMonitor_def
      demoInstance_def)

lemma starting_status:
  "GetInstanceStatus scriptedCloud ''cn-hangzhou'' ''i-001'' (world startingSys)
     = (Inr ''Running'', tick idleScript)"
  by (simp add: GetInstanceStatus_def scriptedCloud_def startingSys_def demoSys_def
      idleScript_def tick_def)

theorem not_stopped_is_noop_witness:
  "blocked scriptedCloud (mon latchedSys) (demoInstance ''i-001'' ''cn-hangzhou'')
   \<and> checkInstance scriptedCloud (demoInstance ''i-001'' ''cn-hangzhou'') latchedSys
       = (None, latchedSys)
   \<and> \<not> blocked scriptedCloud (mon startingSys) (demoInstance ''i-001'' ''cn-hangzhou'')
   \<and> checkInstance scriptedCloud (demoInstance ''i-001'' ''cn-hangzhou'') startingSys
      = (None, \<lparr> mon = demoMonitor True [], world = tick idleScript,
                 trace = [EvGetInstanceStatus ''cn-hangzhou'' ''i-001'' (Inr ''Running'')] \<rparr>)
   \<and> filter isStartCmd
        (newEvents startingSys
           (snd (checkInstance scriptedCloud (demoInstance ''i-001'' ''cn-hangzhou'') startingSys)))
      = []"
  using not_stopped_is_noop[where c = scriptedCloud
      and inst = "demoInstance ''i-001'' ''cn-hangzhou''" and s = latchedSys
      and s' = startingSys and status = "''Running''" and w' = "tick idleScript"]
    latched_blocked starting_not_blocked starting_status
  by (simp add: startingSys_def demoSys_def demoInstance_def newEvents_def)

lemma attempt_run:
  "\<exists>evs. ranTo s (snd (attempt c inst ri i s)) evs
     \<and> length (filter isStartCmd evs) = 1 \<and> notesOf evs = []"
proof -
  define s0 where "s0 = (if 0 < i then sleep c (secondsDuration ri) s else s)"
  obtain ev0 where ev0: "ranTo s s0 ev0" "filter isStartCmd ev0 = []" "notesOf ev0 = []"
    using ranTo_sleep[of s c "secondsDuration ri"] ranTo_refl[of s]
    by (cases "0 < i") (auto simp: s0_def)
  obtain r1 s1 where st: "ecsStartInstance c (RegionID inst) (InstanceID inst) s0 = (r1, s1)"
    by (cases "ecsStartInstance c (RegionID inst) (InstanceID inst) s0") auto
  note a1 = ranTo_trans[OF ev0(1) ranTo_start[OF st]]
  show ?thesis
  proof (cases r1)
    case (Some err)
    then have "attempt c inst ri i s = (Some err, s1)"
      using st by (simp add: attempt_def s0_def[symmetric])
    with a1 ev0 show ?thesis
      by (intro exI[of _ "ev0 @ [EvStartInstance (RegionID inst) (InstanceID inst) r1]"]) simp
  next
    case None
    then have A: "attempt c inst ri i s = waitForRunning c (RegionID inst) (InstanceID inst) s1"
      using st by (simp add: attempt_def s0_def[symmetric])
    obtain ev2 where ev2: "ranTo s1 (snd (attempt c inst ri i s)) ev2"
        "\<forall>e \<in> set ev2. statusQueried e \<noteq> None"
      using waitPolls_ran[of s1 c "RegionID inst" "InstanceID inst"
          "ticksBeforeTimeout c (world s1)"]
      unfolding A by (auto simp: waitForRunning_def)
    note q2 = status_only[OF ev2(2)]
    from ranTo_trans[OF a1 ev2(1)] ev0 q2 show ?thesis
      by (intro exI[of _ "(ev0 @ [EvStartInstance (RegionID inst) (InstanceID inst) r1]) @ ev2"])
         simp
  qed
qed

lemma attempts_failed:
  "attemptsUntilSuccess c inst ri i m le s = Inl (le', sf) \<Longrightarrow>
     \<exists>evs. ranTo s sf evs \<and> length (filter isStartCmd evs) = m \<and> notesOf evs = []
       \<and> (0 < m \<longrightarrow> (\<exists>sp e. attempt c inst ri (i + m - 1) sp = (Some e, sf) \<and> le' = Some e))
       \<and> (m = 0 \<longrightarrow> le' = le)"
proof (induction m arbitrary: i le s)
  case 0
  then show ?case by (auto intro: ranTo_refl)
next
  case (Suc m)
  obtain r s1 where a: "attempt c inst ri i s = (r, s1)" by (cases "attempt c inst ri i s") auto
  obtain e where r: "r = Some e"
    using Suc.prems a by (cases r) auto
  have next': "attemptsUntilSuccess c inst ri (Suc i) m (Some e) s1 = Inl (le', sf)"
    using Suc.prems a r by simp
  obtain ev1 where ev1: "ranTo s s1 ev1" "length (filter isStartCmd ev1) = 1" "notesOf ev1 = []"
    using attempt_run[of s c inst ri i] a by auto
  obtain evs where evs: "ranTo s1 sf evs" "length (filter isStartCmd evs) = m" "notesOf evs = []"
     "0 < m \<longrightarrow> (\<exists>sp e. attempt c inst ri (Suc i + m - 1) sp = (Some e, sf) \<and> le' = Some e)"
     "m = 0 \<longrightarrow> le' = Some e"
    using Suc.IH[OF next'] by blast
  have last: "\<exists>sp e. attempt c inst ri (i + Suc m - 1) sp = (Some e, sf) \<and> le' = Some e"
  proof (cases m)
    case 0
    with next' have "sf = s1" "le' = Some e" by simp_all
    with a r 0 show ?thesis by auto
  next
    case (Suc k)
    with evs(4) show ?thesis by simp
  qed
  from ranTo_trans[OF ev1(1) evs(1)] ev1 evs last show ?case
    by (intro exI[of _ "ev1 @ evs"]) simp
qed

lemma attempts_succeeded:
  "attemptsUntilSuccess c inst ri i m le s = Inr (j, sw) \<Longrightarrow>
     \<exists>evs. ranTo s sw evs \<and> i \<le> j \<and> j < i + m
       \<and> length (filter isStartCmd evs) = Suc (j - i) \<and> notesOf evs = []
       \<and> (\<exists>sp. attempt c inst ri j sp = (None, sw))"
proof (induction m arbitrary: i le s)
  case 0
  then show ?case by simp
next
  case (Suc m)
  obtain r s1 where a: "attempt c inst ri i s = (r, s1)" by (cases "attempt c inst ri i s") auto
  obtain ev1 where ev1: "ranTo s s1 ev1" "length (filter isStartCmd ev1) = 1" "notesOf ev1 = []"
    using attempt_run[of s c inst ri i] a by auto
  show ?case
  proof (cases r)
    case None
    with Suc.prems a have "j = i" "sw = s1" by simp_all
    with ev1 a None show ?thesis by (intro exI[of _ ev1]) auto
  next
    case (Some e)
    with Suc.prems a have next': "attemptsUntilSuccess c inst ri (Suc i) m (Some e) s1 = Inr (j, sw)"
      by simp
    obtain evs where evs: "ranTo s1 sw evs" "Suc i \<le> j" "j < Suc i + m"
       "length (filter isStartCmd evs) = Suc (j - Suc i)" "notesOf evs = []"
       "\<exists>sp. attempt c inst ri j sp = (None, sw)"
      using Suc.IH[OF next'] by blast
    from ranTo_trans[OF ev1(1) evs(1)] ev1 evs show ?thesis
      by (intro exI[of _ "ev1 @ evs"]) auto
  qed
qed

lemma retryLoop_attempts:
  "m = nat (n - int i) \<Longrightarrow>
   retryLoop c inst st n ri i le s =
     (case attemptsUntilSuccess c inst ri i m le s of
        Inl (le', sf) \<Rightarrow>
          (le', notify c (NotifyInstanceStartFailed (InstanceID inst) (InstanceName inst)
                            (RegionID inst) n le') sf)
      | Inr (j, sw) \<Rightarrow>
          (None, notify c (startedNote c inst st sw)
                   (snd (ecsGetInstance c (RegionID inst) (InstanceID inst) sw))))"
proof (induction m arbitrary: i le s)
  case 0
  then have "\<not> int i < n" by simp
  then show ?case by (subst retryLoop.simps) simp
next
  case (Suc m)
  then have lt: "int i < n" and m: "m = nat (n - int (Suc i))" by simp_all
  define s0 where "s0 = (if 0 < i then sleep c (secondsDuration ri) s else s)"
  obtain r1 s1 where st: "ecsStartInstance c (RegionID inst) (InstanceID inst) s0 = (r1, s1)"
    by (cases "ecsStartInstance c (RegionID inst) (InstanceID inst) s0") auto
  show ?case
  proof (cases r1)
    case (Some err)
    have A: "attempt c inst ri i s = (Some err, s1)"
      using st Some by (simp add: attempt_def s0_def[symmetric])
    have "retryLoop c inst st n ri i le s = retryLoop c inst st n ri (Suc i) (Some err) s1"
      using lt st Some by (subst retryLoop.simps) (simp add: s0_def[symmetric])
    with Suc.IH[OF m, of "Some err" s1] A show ?thesis by simp
  next
    case None
    obtain r2 s2 where wt: "waitForRunning c (RegionID inst) (InstanceID inst) s1 = (r2, s2)"
      by (cases "waitForRunning c (RegionID inst) (InstanceID inst) s1") auto
    have A: "attempt c inst ri i s = (r2, s2)"
      using st None wt by (simp add: attempt_def s0_def[symmetric])
    show ?thesis
    proof (cases r2)
      case (Some err)
      have "retryLoop c inst st n ri i le s = retryLoop c inst st n ri (Suc i) (Some err) s2"
        using lt st None wt Some by (subst retryLoop.simps) (simp add: s0_def[symmetric])
      with Suc.IH[OF m, of "Some err" s2] A Some show ?thesis by simp
    next
      case r2: None
      obtain r3 s3 where gi: "ecsGetInstance c (RegionID inst) (InstanceID inst) s2 = (r3, s3)"
        by (cases "ecsGetInstance c (RegionID inst) (InstanceID inst) s2") auto
      have "retryLoop c inst st n ri i le s = (None, notify c (startedNote c inst st s2) s3)"
        using lt st None wt r2 gi
        by (subst retryLoop.simps) (simp add: s0_def[symmetric] startedNote_def Let_def)
      with A r2 gi show ?thesis by simp
    qed
  qed
qed


text \<open>
  C2, as the code has it. For an instance whose latch is clear and whose status query answers
  \<^verbatim>\<open>Stopped\<close>, \<^verbatim>\<open>checkInstance\<close> makes, after the cooldown block, the attempts 0, 1, ... one
  after the other, at most \<^verbatim>\<open>RetryCount\<close> of them, and stops at the first in which the start
  command and the wait for \<^verbatim>\<open>Running\<close> both succeed; every attempt issues exactly one start
  command. When attempt \<open>j\<close> succeeds, \<open>j + 1\<close> start commands were issued, the result is nil
  and, when a notifier is configured, exactly one "started" notification is sent, whose
  duration is the time from the clock reading taken after the cooldown block to the one taken
  after the instance was refreshed. When all attempts fail, as many start commands as
  \<^verbatim>\<open>RetryCount\<close> were issued (none when it is not positive), the result is the error of the
  last attempt (nil when there was none) and, when a notifier is configured, exactly one
  "start failed" notification is sent that carries the retry count and that error. Apart from
  the optional "reclaimed" alert nothing else is sent, and nothing at all without a notifier.
\<close>

theorem restart_bounded:
  fixes c :: "'w cloud" and s :: "'w sys" and inst :: SpotInstance and w' :: 'w
  assumes nb: "\<not> blocked c (mon s) inst"
    and stopped: "GetInstanceStatus c (RegionID inst) (InstanceID inst) (world s)
                    = (Inr ''Stopped'', w')"
  defines "s2 \<equiv> reclaimNotify c inst
                   (s\<lparr>world := w',
                      trace := trace s @ [EvGetInstanceStatus (RegionID inst) (InstanceID inst)
                                            (Inr ''Stopped'')]\<rparr>)"
  defines "n \<equiv> RetryCount (cfg (mon s))"
  defines "ri \<equiv> RetryInterval (cfg (mon s))"
  defines "R \<equiv> checkInstance c inst s"
  defines "rp \<equiv> (if canNotify (mon s) (InstanceID inst) (timeNow c w') \<and> hasNotifier (mon s)
                  then [NotifyInstanceReclaimed (InstanceID inst) (InstanceName inst)
                          (RegionID inst)] else [])"
  defines "A \<equiv> attemptsUntilSuccess c inst ri 0 (nat n) None s2"
  shows
   "(A = Inl (le, sf) \<longrightarrow>
       R = (le, notify c (NotifyInstanceStartFailed (InstanceID inst) (InstanceName inst)
                            (RegionID inst) n le) sf)
       \<and> length (filter isStartCmd (newEvents s (snd R))) = nat n
       \<and> notesOf (newEvents s (snd R))
           = rp @ (if hasNotifier (mon s)
                   then [NotifyInstanceStartFailed (InstanceID inst) (InstanceName inst)
                           (RegionID inst) n le]
                   else [])
       \<and> (0 < n \<longrightarrow> (\<exists>sp e. attempt c inst ri (nat n - 1) sp = (Some e, sf) \<and> le = Some e))
       \<and> (n \<le> 0 \<longrightarrow> le = None))
    \<and> (A = Inr (j, sw) \<longrightarrow>
       R = (None, notify c (startedNote c inst (timeNow c (world s2)) sw)
                    (snd (ecsGetInstance c (RegionID inst) (InstanceID inst) sw)))
       \<and> j < nat n
       \<and> length (filter isStartCmd (newEvents s (snd R))) = Suc j
       \<and> notesOf (newEvents s (snd R))
           = rp @ (if hasNotifier (mon s) then [startedNote c inst (timeNow c (world s2)) sw]
                   else [])
       \<and> (\<exists>sp. attempt c inst ri j sp = (None, sw))
       \<and> (\<exists>i' n' r' ip.
             startedNote c inst (timeNow c (world s2)) sw
               = NotifyInstanceStarted i' n' r' ip
                   (time_Since
                      (timeNow c (world (snd (ecsGetInstance c (RegionID inst) (InstanceID inst)
                                                sw))))
                      (timeNow c (world s2)))))
    \<and> ((fst (attempt c inst k i t) = None)
         = (fst (ecsStartInstance c (RegionID inst) (InstanceID inst)
                   (if 0 < i then sleep c (secondsDuration k) t else t)) = None
            \<and> fst (waitForRunning c (RegionID inst) (InstanceID inst)
                     (snd (ecsStartInstance c (RegionID inst) (InstanceID inst)
                             (if 0 < i then sleep c (secondsDuration k) t else t)))) = None))"
proof -
  define s1 where "s1 = s\<lparr>world := w',
                      trace := trace s @ [EvGetInstanceStatus (RegionID inst) (InstanceID inst)
                                            (Inr ''Stopped'')]\<rparr>"
  have s2: "s2 = reclaimNotify c inst s1" by (simp add: s2_def s1_def)
  have cfg2: "cfg (mon s2) = cfg (mon s)" "hasNotifier (mon s2) = hasNotifier (mon s)"
    unfolding s2 by (simp_all add: reclaimNotify_def notify_def updateNotifyTime_def Let_def s1_def
        split: prod.splits)
  have R0: "R = retryLoop c inst (timeNow c (world s2)) n ri 0 None s2"
    using nb stopped cfg2
    by (simp add: R_def checkInstance_def ecsGetInstanceStatus_def Let_def s2 s1_def n_def ri_def)
  have R1: "R = (case A of
        Inl (le', sf) \<Rightarrow>
          (le', notify c (NotifyInstanceStartFailed (InstanceID inst) (InstanceName inst)
                            (RegionID inst) n le') sf)
      | Inr (j, sw) \<Rightarrow>
          (None, notify c (startedNote c inst (timeNow c (world s2)) sw)
                   (snd (ecsGetInstance c (RegionID inst) (InstanceID inst) sw))))"
    unfolding R0 A_def by (rule retryLoop_attempts) simp
  obtain ev1 where ev1: "trace s2 = trace s1 @ ev1" "notesOf ev1 = rp"
      "filter isStartCmd ev1 = []"
    using reclaimNotify_run[of c inst s1] unfolding s2 by (auto simp: s1_def rp_def)
  have pre: "trace s2 = trace s @ (EvGetInstanceStatus (RegionID inst) (InstanceID inst)
                                     (Inr ''Stopped'') # ev1)"
    using ev1(1) by (simp add: s1_def)
  have failed: "R = (le, notify c (NotifyInstanceStartFailed (InstanceID inst) (InstanceName inst)
                            (RegionID inst) n le) sf)
       \<and> length (filter isStartCmd (newEvents s (snd R))) = nat n
       \<and> notesOf (newEvents s (snd R))
           = rp @ (if hasNotifier (mon s)
                   then [NotifyInstanceStartFailed (InstanceID inst) (InstanceName inst)
                           (RegionID inst) n le]
                   else [])
       \<and> (0 < n \<longrightarrow> (\<exists>sp e. attempt c inst ri (nat n - 1) sp = (Some e, sf) \<and> le = Some e))
       \<and> (n \<le> 0 \<longrightarrow> le = None)"
    if A: "A = Inl (le, sf)"
  proof -
    let ?nt = "NotifyInstanceStartFailed (InstanceID inst) (InstanceName inst) (RegionID inst) n le"
    have R: "R = (le, notify c ?nt sf)" using R1 A by simp
    have "\<exists>evs. ranTo s2 sf evs \<and> length (filter isStartCmd evs) = nat n
        \<and> notesOf evs = []
        \<and> (0 < n \<longrightarrow> (\<exists>sp e. attempt c inst ri (nat n - 1) sp = (Some e, sf) \<and> le = Some e))
        \<and> (n \<le> 0 \<longrightarrow> le = None)"
      using attempts_failed[OF A[unfolded A_def]] by simp
    then obtain evs where evs: "ranTo s2 sf evs" "length (filter isStartCmd evs) = nat n"
        "notesOf evs = []"
        "0 < n \<longrightarrow> (\<exists>sp e. attempt c inst ri (nat n - 1) sp = (Some e, sf) \<and> le = Some e)"
        "n \<le> 0 \<longrightarrow> le = None"
      by blast
    have nf: "hasNotifier (mon sf) = hasNotifier (mon s)"
      using evs(1) cfg2 by (simp add: ranTo_def)
    have "trace (notify c ?nt sf)
        = trace s @ (EvGetInstanceStatus (RegionID inst) (InstanceID inst) (Inr ''Stopped'')
                       # ev1 @ evs
                       @ (if hasNotifier (mon s)
                          then [EvNotify ?nt (fst (notifierSend c ?nt (world sf)))] else []))"
      using ranTo_notify[of sf c ?nt] evs(1) pre nf by (simp add: ranTo_def)
    then have new: "newEvents s (notify c ?nt sf)
        = EvGetInstanceStatus (RegionID inst) (InstanceID inst) (Inr ''Stopped'')
            # ev1 @ evs
            @ (if hasNotifier (mon s)
               then [EvNotify ?nt (fst (notifierSend c ?nt (world sf)))] else [])"
      by (simp add: newEvents_def)
    show ?thesis
      using R evs(2-5) ev1(2,3) by (simp add: new)
  qed
  have succeeded: "R = (None, notify c (startedNote c inst (timeNow c (world s2)) sw)
                    (snd (ecsGetInstance c (RegionID inst) (InstanceID inst) sw)))
       \<and> j < nat n
       \<and> length (filter isStartCmd (newEvents s (snd R))) = Suc j
       \<and> notesOf (newEvents s (snd R))
           = rp @ (if hasNotifier (mon s) then [startedNote c inst (timeNow c (world s2)) sw]
                   else [])
       \<and> (\<exists>sp. attempt c inst ri j sp = (None, sw))
       \<and> (\<exists>i' n' r' ip.
             startedNote c inst (timeNow c (world s2)) sw
               = NotifyInstanceStarted i' n' r' ip
                   (time_Since
                      (timeNow c (world (snd (ecsGetInstance c (RegionID inst) (InstanceID inst)
                                                sw))))
                      (timeNow c (world s2))))"
    if A: "A = Inr (j, sw)"
  proof -
    let ?nt = "startedNote c inst (timeNow c (world s2)) sw"
    define sg where "sg = snd (ecsGetInstance c (RegionID inst) (InstanceID inst) sw)"
    have R: "R = (None, notify c ?nt sg)" using R1 A by (simp add: sg_def)
    have "\<exists>evs. ranTo s2 sw evs \<and> j < nat n
        \<and> length (filter isStartCmd evs) = Suc j \<and> notesOf evs = []
        \<and> (\<exists>sp. attempt c inst ri j sp = (None, sw))"
      using attempts_succeeded[OF A[unfolded A_def]] by simp
    then obtain evs where evs: "ranTo s2 sw evs" "j < nat n"
        "length (filter isStartCmd evs) = Suc j" "notesOf evs = []"
        "\<exists>sp. attempt c inst ri j sp = (None, sw)"
      by blast
    have g: "ranTo sw sg [EvGetInstance (RegionID inst) (InstanceID inst)]"
      unfolding sg_def
      by (rule ranTo_getInstance[of c _ _ _ "fst (ecsGetInstance c (RegionID inst) (InstanceID inst) sw)"])
         simp
    have nf: "hasNotifier (mon sg) = hasNotifier (mon s)"
      using evs(1) g cfg2 by (simp add: ranTo_def)
    have "trace (notify c ?nt sg)
        = trace s @ (EvGetInstanceStatus (RegionID inst) (InstanceID inst) (Inr ''Stopped'')
                       # ev1 @ evs @ [EvGetInstance (RegionID inst) (InstanceID inst)]
                       @ (if hasNotifier (mon s)
                          then [EvNotify ?nt (fst (notifierSend c ?nt (world sg)))] else []))"
      using ranTo_notify[of sg c ?nt] evs(1) g pre nf by (simp add: ranTo_def)
    then have new: "newEvents s (notify c ?nt sg)
        = EvGetInstanceStatus (RegionID inst) (InstanceID inst) (Inr ''Stopped'')
            # ev1 @ evs @ [EvGetInstance (RegionID inst) (InstanceID inst)]
            @ (if hasNotifier (mon s)
               then [EvNotify ?nt (fst (notifierSend c ?nt (world sg)))] else [])"
      by (simp add: newEvents_def)
    have d: "\<exists>i' n' r' ip. ?nt = NotifyInstanceStarted i' n' r' ip
                   (time_Since (timeNow c (world sg)) (timeNow c (world s2)))"
      by (simp add: startedNote_def Let_def sg_def)
    show ?thesis
      using R evs(2-5) ev1(2,3) d by (simp add: new sg_def[symmetric])
  qed
  have att: "(fst (attempt c inst k i t) = None)
         = (fst (ecsStartInstance c (RegionID inst) (InstanceID inst)
                   (if 0 < i then sleep c (secondsDuration k) t else t)) = None
            \<and> fst (waitForRunning c (RegionID inst) (InstanceID inst)
                     (snd (ecsStartInstance c (RegionID inst) (InstanceID inst)
                             (if 0 < i then sleep c (secondsDuration k) t else t)))) = None)"
    by (auto simp: attempt_def Let_def split: prod.splits option.splits)
  from failed succeeded att show ?thesis by blast
qed

lemma reclaimed_not_blocked:
  "\<not> blocked scriptedCloud (mon (reclaimedSys nf)) (demoInstance ''i-001'' ''cn-hangzhou'')"
  by (simp add: blocked_def scriptedCloud_def reclaimedSys_def demoSys_def demoMonitor_def
      demoInstance_def)

lemma reclaimed_status:
  "GetInstanceStatus scriptedCloud (RegionID (demoInstance ''i-001'' ''cn-hangzhou''))
      (InstanceID (demoInstance ''i-001'' ''cn-hangzhou'')) (world (reclaimedSys nf))
     = (Inr ''Stopped'',
        tick (idleScript\<lparr>sc_statuses := [Inr [''Running'']],
                          sc_starts := [Some ''Throttling'', Some ''Throttling'', None]\<rparr>))"
  by (simp add: GetInstanceStatus_def scriptedCloud_def reclaimedSys_def demoSys_def
      idleScript_def tick_def demoInstance_def)

lemma reclaimed_run:
  "fst (checkInstance scriptedCloud (demoInstance ''i-001'' ''cn-hangzhou'') (reclaimedSys True))
     = None
   \<and> trace (snd (checkInstance scriptedCloud (demoInstance ''i-001'' ''cn-hangzhou'')
                   (reclaimedSys True)))
     = [EvGetInstanceStatus ''cn-hangzhou'' ''i-001'' (Inr ''Stopped''),
        EvNotify (NotifyInstanceReclaimed ''i-001'' ''web'' ''cn-hangzhou'') None,
        EvStartInstance ''cn-hangzhou'' ''i-001''
          (Some ''failed to start instance i-001: Throttling''),
        EvSleep 30000000000,
        EvStartInstance ''cn-hangzhou'' ''i-001''
          (Some ''failed to start instance i-001: Throttling''),
        EvSleep 30000000000,
        EvStartInstance ''cn-hangzhou'' ''i-001'' None,
        EvGetInstanceStatus ''cn-hangzhou'' ''i-001'' (Inr ''Running''),
        EvGetInstance ''cn-hangzhou'' ''i-001'',
        EvNotify (NotifyInstanceStarted ''i-001'' ''web'' ''cn-hangzhou'' [] 65000000000) None]"
  by code_simp

lemma failing_not_blocked:
  "\<not> blocked scriptedCloud (mon (failingSys nf)) (demoInstance ''i-001'' ''cn-hangzhou'')"
  by (simp add: blocked_def scriptedCloud_def failingSys_def demoSys_def demoMonitor_def
      demoInstance_def)

lemma failing_status:
  "GetInstanceStatus scriptedCloud (RegionID (demoInstance ''i-001'' ''cn-hangzhou''))
      (InstanceID (demoInstance ''i-001'' ''cn-hangzhou'')) (world (failingSys nf))
     = (Inr ''Stopped'',
        tick (idleScript\<lparr>sc_statuses := [],
                          sc_starts := [Some ''Throttling'', Some ''Throttling'',
                                        Some ''Throttling'']\<rparr>))"
  by (simp add: GetInstanceStatus_def scriptedCloud_def failingSys_def demoSys_def
      idleScript_def tick_def demoInstance_def)

lemma failing_run:
  "trace (snd (checkInstance scriptedCloud (demoInstance ''i-001'' ''cn-hangzhou'')
                 (failingSys True)))
     = [EvGetInstanceStatus ''cn-hangzhou'' ''i-001'' (Inr ''Stopped''),
        EvNotify (NotifyInstanceReclaimed ''i-001'' ''web'' ''cn-hangzhou'') None,
        EvStartInstance ''cn-hangzhou'' ''i-001''
          (Some ''failed to start instance i-001: Throttling''),
        EvSleep 30000000000,
        EvStartInstance ''cn-hangzhou'' ''i-001''
          (Some ''failed to start instance i-001: Throttling''),
        EvSleep 30000000000,
        EvStartInstance ''cn-hangzhou'' ''i-001''
          (Some ''failed to start instance i-001: Throttling''),
        EvNotify (NotifyInstanceStartFailed ''i-001'' ''web'' ''cn-hangzhou'' 3
                    (Some ''failed to start instance i-001: Throttling'')) None]
   \<and> trace (snd (checkInstance scriptedCloud (demoInstance ''i-001'' ''cn-hangzhou'')
                   (failingSys False)))
     = [EvGetInstanceStatus ''cn-hangzhou'' ''i-001'' (Inr ''Stopped''),
        EvStartInstance ''cn-hangzhou'' ''i-001''
          (Some ''failed to start instance i-001: Throttling''),
        EvSleep 30000000000,
        EvStartInstance ''cn-hangzhou'' ''i-001''
          (Some ''failed to start instance i-001: Throttling''),
        EvSleep 30000000000,
        EvStartInstance ''cn-hangzhou'' ''i-001''
          (Some ''failed to start instance i-001: Throttling'')]"
  by code_simp

lemma reclaimed_attempts:
  "\<not> isl (attemptsUntilSuccess scriptedCloud (demoInstance ''i-001'' ''cn-hangzhou'')
       (RetryInterval (cfg (mon (reclaimedSys True)))) 0
       (nat (RetryCount (cfg (mon (reclaimedSys True))))) None
       (reclaimNotify scriptedCloud (demoInstance ''i-001'' ''cn-hangzhou'')
          ((reclaimedSys True)
             \<lparr>world := tick (idleScript\<lparr>sc_statuses := [Inr [''Running'']],
                               sc_starts := [Some ''Throttling'', Some ''Throttling'', None]\<rparr>),
              trace := trace (reclaimedSys True)
                 @ [EvGetInstanceStatus (RegionID (demoInstance ''i-001'' ''cn-hangzhou''))
                      (InstanceID (demoInstance ''i-001'' ''cn-hangzhou''))
                      (Inr ''Stopped'')]\<rparr>)))
   \<and> fst (projr (attemptsUntilSuccess scriptedCloud (demoInstance ''i-001'' ''cn-hangzhou'')
       (RetryInterval (cfg (mon (reclaimedSys True)))) 0
       (nat (RetryCount (cfg (mon (reclaimedSys True))))) None
       (reclaimNotify scriptedCloud (demoInstance ''i-001'' ''cn-hangzhou'')
          ((reclaimedSys True)
             \<lparr>world := tick (idleScript\<lparr>sc_statuses := [Inr [''Running'']],
                               sc_starts := [Some ''Throttling'', Some ''Throttling'', None]\<rparr>),
              trace := trace (reclaimedSys True)
                 @ [EvGetInstanceStatus (RegionID (demoInstance ''i-001'' ''cn-hangzhou''))
                      (InstanceID (demoInstance ''i-001'' ''cn-hangzhou''))
                      (Inr ''Stopped'')]\<rparr>)))) = 2"
  by code_simp

lemma failing_attempts:
  "isl (attemptsUntilSuccess scriptedCloud (demoInstance ''i-001'' ''cn-hangzhou'')
       (RetryInterval (cfg (mon (failingSys False)))) 0
       (nat (RetryCount (cfg (mon (failingSys False))))) None
       (reclaimNotify scriptedCloud (demoInstance ''i-001'' ''cn-hangzhou'')
          ((failingSys False)
             \<lparr>world := tick (idleScript\<lparr>sc_statuses := [],
                               sc_starts := [Some ''Throttling'', Some ''Throttling'',
                                             Some ''Throttling'']\<rparr>),
              trace := trace (failingSys False)
                 @ [EvGetInstanceStatus (RegionID (demoInstance ''i-001'' ''cn-hangzhou''))
                      (InstanceID (demoInstance ''i-001'' ''cn-hangzhou''))
                      (Inr ''Stopped'')]\<rparr>)))
   \<and> fst (projl (attemptsUntilSuccess scriptedCloud (demoInstance ''i-001'' ''cn-hangzhou'')
       (RetryInterval (cfg (mon (failingSys False)))) 0
       (nat (RetryCount (cfg (mon (failingSys False))))) None
       (reclaimNotify scriptedCloud (demoInstance ''i-001'' ''cn-hangzhou'')
          ((failingSys False)
             \<lparr>world := tick (idleScript\<lparr>sc_statuses := [],
                               sc_starts := [Some ''Throttling'', Some ''Throttling'',
                                             Some ''Throttling'']\<rparr>),
              trace := trace (failingSys False)
                 @ [EvGetInstanceStatus (RegionID (demoInstance ''i-001'' ''cn-hangzhou''))
                      (InstanceID (demoInstance ''i-001'' ''cn-hangzhou''))
                      (Inr ''Stopped'')]\<rparr>))))
       = Some ''failed to start instance i-001: Throttling''"
  by code_simp

theorem restart_bounded_witness:
  "\<not> blocked scriptedCloud (mon (reclaimedSys True)) (demoInstance ''i-001'' ''cn-hangzhou'')
   \<and> fst (GetInstanceStatus scriptedCloud ''cn-hangzhou'' ''i-001'' (world (reclaimedSys True)))
       = Inr ''Stopped''
   \<and> fst (checkInstance scriptedCloud (demoInstance ''i-001'' ''cn-hangzhou'')
           (reclaimedSys True)) = None
   \<and> length (filter isStartCmd
        (newEvents (reclaimedSys True)
           (snd (checkInstance scriptedCloud (demoInstance ''i-001'' ''cn-hangzhou'')
                   (reclaimedSys True))))) = 3
   \<and> notesOf (newEvents (reclaimedSys True)
        (snd (checkInstance scriptedCloud (demoInstance ''i-001'' ''cn-hangzhou'')
                (reclaimedSys True))))
      = [NotifyInstanceReclaimed ''i-001'' ''web'' ''cn-hangzhou'',
         NotifyInstanceStarted ''i-001'' ''web'' ''cn-hangzhou'' [] 65000000000]
   \<and> \<not> blocked scriptedCloud (mon (failingSys False)) (demoInstance ''i-001'' ''cn-hangzhou'')
   \<and> fst (GetInstanceStatus scriptedCloud ''cn-hangzhou'' ''i-001'' (world (failingSys False)))
       = Inr ''Stopped''
   \<and> fst (checkInstance scriptedCloud (demoInstance ''i-001'' ''cn-hangzhou'')
           (failingSys False)) = Some ''failed to start instance i-001: Throttling''
   \<and> length (filter isStartCmd
        (newEvents (failingSys False)
           (snd (checkInstance scriptedCloud (demoInstance ''i-001'' ''cn-hangzhou'')
                   (failingSys False))))) = 3
   \<and> notesOf (newEvents (failingSys False)
        (snd (checkInstance scriptedCloud (demoInstance ''i-001'' ''cn-hangzhou'')
                (failingSys False)))) = []
   \<and> notesOf (newEvents (failingSys True)
        (snd (checkInstance scriptedCloud (demoInstance ''i-001'' ''cn-hangzhou'')
                (failingSys True))))
      = [NotifyInstanceReclaimed ''i-001'' ''web'' ''cn-hangzhou'',
         NotifyInstanceStartFailed ''i-001'' ''web'' ''cn-hangzhou'' 3
           (Some ''failed to start instance i-001: Throttling'')]"
proof -
  let ?i = "demoInstance ''i-001'' ''cn-hangzhou''"
  let ?A = "attemptsUntilSuccess scriptedCloud ?i
       (RetryInterval (cfg (mon (reclaimedSys True)))) 0
       (nat (RetryCount (cfg (mon (reclaimedSys True))))) None
       (reclaimNotify scriptedCloud ?i
          ((reclaimedSys True)
             \<lparr>world := tick (idleScript\<lparr>sc_statuses := [Inr [''Running'']],
                               sc_starts := [Some ''Throttling'', Some ''Throttling'', None]\<rparr>),
              trace := trace (reclaimedSys True)
                 @ [EvGetInstanceStatus (RegionID ?i) (InstanceID ?i) (Inr ''Stopped'')]\<rparr>))"
  let ?B = "attemptsUntilSuccess scriptedCloud ?i
       (RetryInterval (cfg (mon (failingSys False)))) 0
       (nat (RetryCount (cfg (mon (failingSys False))))) None
       (reclaimNotify scriptedCloud ?i
          ((failingSys False)
             \<lparr>world := tick (idleScript\<lparr>sc_statuses := [],
                               sc_starts := [Some ''Throttling'', Some ''Throttling'',
                                             Some ''Throttling'']\<rparr>),
              trace := trace (failingSys False)
                 @ [EvGetInstanceStatus (RegionID ?i) (InstanceID ?i) (Inr ''Stopped'')]\<rparr>))"
  have A: "?A = Inr (2, snd (projr ?A))"
    using reclaimed_attempts by (cases ?A) auto
  have B: "?B = Inl (Some ''failed to start instance i-001: Throttling'', snd (projl ?B))"
    using failing_attempts by (cases ?B) auto
  note T = restart_bounded[OF reclaimed_not_blocked[of True] reclaimed_status[of True],
      where j = 2 and sw = "snd (projr ?A)", THEN conjunct2, THEN conjunct1, THEN mp, OF A]
  note U = restart_bounded[OF failing_not_blocked[of False] failing_status[of False],
      where le = "Some ''failed to start instance i-001: Throttling''"
        and sf = "snd (projl ?B)", THEN conjunct1, THEN mp, OF B]
  have t1: "fst (checkInstance scriptedCloud ?i (reclaimedSys True)) = None"
    using T[THEN conjunct1] by simp
  have t2: "length (filter isStartCmd
        (newEvents (reclaimedSys True)
           (snd (checkInstance scriptedCloud ?i (reclaimedSys True))))) = 3"
    using T[THEN conjunct2, THEN conjunct2, THEN conjunct1] by simp
  have u1: "fst (checkInstance scriptedCloud ?i (failingSys False))
              = Some ''failed to start instance i-001: Throttling''"
    using U[THEN conjunct1] by simp
  have u2: "length (filter isStartCmd
        (newEvents (failingSys False)
           (snd (checkInstance scriptedCloud ?i (failingSys False))))) = 3"
    using U[THEN conjunct2, THEN conjunct1]
    by (simp add: failingSys_def demoSys_def demoMonitor_def demoConfig_def)
  have u3: "notesOf (newEvents (failingSys False)
        (snd (checkInstance scriptedCloud ?i (failingSys False)))) = []"
    using U[THEN conjunct2, THEN conjunct2, THEN conjunct1]
    by (simp add: failingSys_def demoSys_def demoMonitor_def)
  have tr0: "trace (reclaimedSys True) = []" "trace (failingSys True) = []"
    by (simp_all add: reclaimedSys_def failingSys_def demoSys_def)
  have n1: "notesOf (newEvents (reclaimedSys True)
        (snd (checkInstance scriptedCloud ?i (reclaimedSys True))))
      = [NotifyInstanceReclaimed ''i-001'' ''web'' ''cn-hangzhou'',
         NotifyInstanceStarted ''i-001'' ''web'' ''cn-hangzhou'' [] 65000000000]"
    using reclaimed_run by (simp add: newEvents_def tr0)
  have n2: "notesOf (newEvents (failingSys True)
        (snd (checkInstance scriptedCloud ?i (failingSys True))))
      = [NotifyInstanceReclaimed ''i-001'' ''web'' ''cn-hangzhou'',
         NotifyInstanceStartFailed ''i-001'' ''web'' ''cn-hangzhou'' 3
           (Some ''failed to start instance i-001: Throttling'')]"
    using failing_run by (simp add: newEvents_def tr0)
  have h1: "fst (GetInstanceStatus scriptedCloud ''cn-hangzhou'' ''i-001''
                   (world (reclaimedSys True))) = Inr ''Stopped''"
    using reclaimed_status[of True] by (simp add: demoInstance_def)
  have h2: "fst (GetInstanceStatus scriptedCloud ''cn-hangzhou'' ''i-001''
                   (world (failingSys False))) = Inr ''Stopped''"
    using failing_status[of False] by (simp add: demoInstance_def)
  from t1 t2 u1 u2 u3 n1 n2 h1 h2 reclaimed_not_blocked[of True] failing_not_blocked[of False]
  show ?thesis by blast
qed

text \<open>
  The sentence of the specification fails when no notifier is configured (\<^verbatim>\<open>m.notifier == nil\<close>): the same
  run restarts the instance with three start commands and sends no "started" notification.
\<close>

theorem restart_without_notifier_counterexample:
  "\<not> blocked scriptedCloud (mon (reclaimedSys False)) (demoInstance ''i-001'' ''cn-hangzhou'')
   \<and> fst (GetInstanceStatus scriptedCloud ''cn-hangzhou'' ''i-001'' (world (reclaimedSys False)))
       = Inr ''Stopped''
   \<and> fst (checkInstance scriptedCloud (demoInstance ''i-001'' ''cn-hangzhou'')
           (reclaimedSys False)) = None
   \<and> length (filter isStartCmd
        (newEvents (reclaimedSys False)
           (snd (checkInstance scriptedCloud (demoInstance ''i-001'' ''cn-hangzhou'')
                   (reclaimedSys False))))) = 3
   \<and> length (filter isStarted (notesOf
        (newEvents (reclaimedSys False)
           (snd (checkInstance scriptedCloud (demoInstance ''i-001'' ''cn-hangzhou'')
                   (reclaimedSys False)))))) \<noteq> 1"
  by code_simp

lemma reclaimNotify_mon:
  "\<exists>ln. mon (reclaimNotify c inst s) = (mon s)\<lparr>lastNotify := ln\<rparr>"
proof (cases "canNotify (mon s) (InstanceID inst) (timeNow c (world s))")
  case False
  then have "mon (reclaimNotify c inst s) = (mon s)\<lparr>lastNotify := lastNotify (mon s)\<rparr>"
    by (simp add: reclaimNotify_def)
  then show ?thesis by blast
next
  case True
  then have "mon (reclaimNotify c inst s)
      = (mon s)\<lparr>lastNotify := (lastNotify (mon s))(InstanceID inst \<mapsto>
           timeNow c (world (notify c (NotifyInstanceReclaimed (InstanceID inst)
                                         (InstanceName inst) (RegionID inst)) s)))\<rparr>"
    by (cases "notifierSend c (NotifyInstanceReclaimed (InstanceID inst) (InstanceName inst)
                (RegionID inst)) (world s)")
       (simp add: reclaimNotify_def notify_def updateNotifyTime_def Let_def)
  then show ?thesis by blast
qed

lemma checkInstance_run:
  "\<exists>evs ln. trace (snd (checkInstance c inst s)) = trace s @ evs
     \<and> mon (snd (checkInstance c inst s)) = (mon s)\<lparr>lastNotify := ln\<rparr>
     \<and> filter isMonitorStarted (notesOf evs) = []
     \<and> filter isTrafficShutdown (notesOf evs) = []
     \<and> List.map_filter stopIssued evs = []
     \<and> filter (\<lambda>e. launchedFor ''china'' e \<or> launchedFor ''non-china'' e) evs = []"
proof (cases "blocked c (mon s) inst")
  case True
  then show ?thesis
    by (intro exI[of _ "[]"] exI[of _ "lastNotify (mon s)"]) (simp add: checkInstance_def)
next
  case False
  obtain res s1 where q: "ecsGetInstanceStatus c (RegionID inst) (InstanceID inst) s = (res, s1)"
    by (cases "ecsGetInstanceStatus c (RegionID inst) (InstanceID inst) s") auto
  note a1 = ranTo_status[OF q]
  show ?thesis
  proof (cases "res = Inr ''Stopped''")
    case ns: False
    then have "snd (checkInstance c inst s) = s1"
      using False q by (cases res) (auto simp: checkInstance_def)
    with a1 show ?thesis
      by (intro exI[of _ "[EvGetInstanceStatus (RegionID inst) (InstanceID inst) res]"]
            exI[of _ "lastNotify (mon s)"])
         (simp add: ranTo_def)
  next
    case True
    define s2 where "s2 = reclaimNotify c inst s1"
    define R where "R = checkInstance c inst s"
    have R: "R = retryLoop c inst (timeNow c (world s2)) (RetryCount (cfg (mon s2)))
                   (RetryInterval (cfg (mon s2))) 0 None s2"
      using False q True by (simp add: R_def checkInstance_def Let_def s2_def)
    obtain ev1 where ev1: "trace s2 = trace s1 @ ev1"
        "notesOf ev1 = [] \<or> notesOf ev1 = [NotifyInstanceReclaimed (InstanceID inst)
                                             (InstanceName inst) (RegionID inst)]"
        "List.map_filter stopIssued ev1 = []"
        "filter (\<lambda>e. launchedFor ''china'' e \<or> launchedFor ''non-china'' e) ev1 = []"
      using reclaimNotify_run[of c inst s1] unfolding s2_def by (auto split: if_splits)
    obtain ln where ln: "mon s2 = (mon s1)\<lparr>lastNotify := ln\<rparr>"
      using reclaimNotify_mon[of c inst s1] unfolding s2_def by blast
    obtain evs where evs: "ranTo s2 (snd R) evs"
        "retried inst (timeNow c (world s2)) (RetryCount (cfg (mon s2))) 0 None
           (hasNotifier (mon s2)) (fst R) evs"
      using retryLoop_run[of s2 c inst "timeNow c (world s2)" "RetryCount (cfg (mon s2))"
          "RetryInterval (cfg (mon s2))" 0 None]
      unfolding R by blast
    have n2: "filter isMonitorStarted (notesOf evs) = []"
      "filter isTrafficShutdown (notesOf evs) = []"
      using evs(2) by (auto simp: retried_def split: if_splits)
    have n1: "filter isMonitorStarted (notesOf ev1) = []"
      "filter isTrafficShutdown (notesOf ev1) = []"
      using ev1(2) by auto
    have m: "mon (snd R) = (mon s)\<lparr>lastNotify := ln\<rparr>"
      using evs(1) ln a1 by (simp add: ranTo_def)
    have "trace (snd R)
            = trace s @ (EvGetInstanceStatus (RegionID inst) (InstanceID inst) res # ev1 @ evs)"
      using evs(1) ev1(1) a1 by (simp add: ranTo_def)
    with m n1 n2 ev1(3,4) evs(2) show ?thesis
      unfolding R_def
      by (intro exI[of _ "EvGetInstanceStatus (RegionID inst) (InstanceID inst) res # ev1 @ evs"]
            exI[of _ ln])
         (simp add: retried_def map_filter_append)
  qed
qed

lemma checkAll_run:
  "\<exists>evs ln. trace (checkAll c insts s) = trace s @ evs
     \<and> mon (checkAll c insts s) = (mon s)\<lparr>lastNotify := ln\<rparr>
     \<and> filter isMonitorStarted (notesOf evs) = []
     \<and> filter isTrafficShutdown (notesOf evs) = []
     \<and> List.map_filter stopIssued evs = []
     \<and> filter (\<lambda>e. launchedFor ''china'' e \<or> launchedFor ''non-china'' e) evs = []"
proof (induction insts arbitrary: s)
  case Nil
  then show ?case
    by (intro exI[of _ "[]"] exI[of _ "lastNotify (mon s)"]) simp
next
  case (Cons inst rest)
  define s1 where "s1 = snd (checkInstance c inst s)"
  obtain ev1 ln1 where ev1: "trace s1 = trace s @ ev1"
     "mon s1 = (mon s)\<lparr>lastNotify := ln1\<rparr>"
     "filter isMonitorStarted (notesOf ev1) = []"
     "filter isTrafficShutdown (notesOf ev1) = []"
     "List.map_filter stopIssued ev1 = []"
     "filter (\<lambda>e. launchedFor ''china'' e \<or> launchedFor ''non-china'' e) ev1 = []"
    using checkInstance_run[of c inst s] unfolding s1_def by blast
  obtain ev2 ln2 where ev2: "trace (checkAll c rest s1) = trace s1 @ ev2"
     "mon (checkAll c rest s1) = (mon s1)\<lparr>lastNotify := ln2\<rparr>"
     "filter isMonitorStarted (notesOf ev2) = []"
     "filter isTrafficShutdown (notesOf ev2) = []"
     "List.map_filter stopIssued ev2 = []"
     "filter (\<lambda>e. launchedFor ''china'' e \<or> launchedFor ''non-china'' e) ev2 = []"
    using Cons[of s1] by blast
  show ?case
    using ev1 ev2
    by (intro exI[of _ "ev1 @ ev2"] exI[of _ ln2]) (simp add: s1_def[symmetric] map_filter_append)
qed

lemma checkAll_instances: "instances (mon (checkAll c insts s)) = instances (mon s)"
proof -
  obtain ln where "mon (checkAll c insts s) = (mon s)\<lparr>lastNotify := ln\<rparr>"
    using checkAll_run[of c insts s] by blast
  then show ?thesis by simp
qed

section \<open>Discovery and reconciliation\<close>

lemma idMap_foldl:
  "foldl (\<lambda>mp inst. mp(InstanceID inst := True)) m insts k
     = (m k \<or> k \<in> InstanceID ` set insts)"
  by (induction insts arbitrary: m) auto

lemma idMap_iff: "idMap insts k \<longleftrightarrow> k \<in> InstanceID ` set insts"
  by (simp add: idMap_def idMap_foldl)

lemma notesOf_logs [simp]:
  "notesOf (map EvLogNew xs) = []" "notesOf (map EvLogRemoved xs) = []"
  by (induction xs) simp_all

lemma refreshInstances_run:
  "\<exists>evs. trace (snd (refreshInstances c s)) = trace s @ evs \<and> notesOf evs = []"
  by (cases "DiscoverAllSpotInstances c (world s)")
     (auto simp: refreshInstances_def Let_def split: sum.splits)

lemma Check_run:
  "\<exists>evs. trace (snd (Check c s)) = trace s @ evs \<and> filter isMonitorStarted (notesOf evs) = []"
proof -
  define s1 where "s1 = snd (refreshInstances c s)"
  obtain ev1 where ev1: "trace s1 = trace s @ ev1" "notesOf ev1 = []"
    using refreshInstances_run[of c s] unfolding s1_def by blast
  obtain ev2 where ev2: "trace (checkAll c (instances (mon s1)) s1) = trace s1 @ ev2"
      "filter isMonitorStarted (notesOf ev2) = []"
    using checkAll_run[of c "instances (mon s1)" s1] by blast
  show ?thesis
    using ev1 ev2 by (intro exI[of _ "ev1 @ ev2"]) (simp add: Check_def Let_def s1_def[symmetric])
qed

lemma CheckTimes_run:
  "\<exists>evs. trace (CheckTimes c k s) = trace s @ evs \<and> filter isMonitorStarted (notesOf evs) = []"
proof (induction k arbitrary: s)
  case 0
  then show ?case by simp
next
  case (Suc k)
  obtain ev1 where ev1: "trace (snd (Check c s)) = trace s @ ev1"
      "filter isMonitorStarted (notesOf ev1) = []"
    using Check_run[of c s] by blast
  obtain ev2 where ev2: "trace (CheckTimes c k (snd (Check c s))) = trace (snd (Check c s)) @ ev2"
      "filter isMonitorStarted (notesOf ev2) = []"
    using Suc[of "snd (Check c s)"] by blast
  show ?case using ev1 ev2 by (intro exI[of _ "ev1 @ ev2"]) simp
qed

lemma DiscoverInstances_events:
  "newEvents s (snd (DiscoverInstances c s))
     = (case fst (DiscoverAllSpotInstances c (world s)) of
          Inl err \<Rightarrow> []
        | Inr insts \<Rightarrow>
            if hasNotifier (mon s) \<and> insts \<noteq> []
            then [EvNotify (NotifyMonitorStarted (length insts) (map instanceLine insts))
                    (fst (notifierSend c (NotifyMonitorStarted (length insts)
                                            (map instanceLine insts))
                            (snd (DiscoverAllSpotInstances c (world s)))))]
            else [])"
  by (cases "DiscoverAllSpotInstances c (world s)")
     (auto simp: DiscoverInstances_def newEvents_def notify_def Let_def
           split: sum.splits prod.splits)

lemma scanRegions_all_failed:
  "everyListingFails c rs w \<Longrightarrow> fst (scanRegions c rs acc w) = acc"
  by (induction rs arbitrary: w) (auto split: prod.splits sum.splits)

lemma discovery_fails_iff:
  "isl (fst (DiscoverAllSpotInstances c w)) = isl (fst (GetAllRegions c w))"
  by (simp add: DiscoverAllSpotInstances_def split: prod.splits sum.splits)

lemma discovery_all_failed:
  assumes "GetAllRegions c w = (Inr regions, wr)"
    and "everyListingFails c (completionOrder c regions wr) wr"
  shows "fst (DiscoverAllSpotInstances c w) = Inr []"
  using assms scanRegions_all_failed[OF assms(2), of "[]"]
  by (auto simp: DiscoverAllSpotInstances_def split: prod.splits)

text \<open>
  C5, as the code has it. When the discovery succeeds, \<^verbatim>\<open>refreshInstances\<close> returns nil, the
  registry is exactly the discovered list and nothing else of the monitor has changed, the log
  has one "new" line for each discovered instance whose id was not tracked and one "removed"
  line for each tracked instance whose id was not discovered, and \<^verbatim>\<open>Check\<close> goes over the
  discovered list. When the discovery returns an error, \<^verbatim>\<open>refreshInstances\<close> returns the
  wrapped error and leaves monitor and trace as they were, \<^verbatim>\<open>Check\<close> goes over the previous
  registry, and the registry after the cycle is still the previous one. The discovery returns
  an error exactly when the listing of the regions does. A region whose listing of instances
  fails counts as a region without instances: when the regions are listed and the listing of
  every one of them fails, the discovery succeeds with the empty list, so
  \<^verbatim>\<open>refreshInstances\<close> returns nil, the registry is emptied, every tracked instance is logged
  as removed, and \<^verbatim>\<open>Check\<close> checks no instance.
\<close>

theorem refresh_replaces_or_keeps:
  "(DiscoverAllSpotInstances c (world s) = (Inr insts, w') \<longrightarrow>
      fst (refreshInstances c s) = None
      \<and> mon (snd (refreshInstances c s)) = (mon s)\<lparr>instances := insts\<rparr>
      \<and> newEvents s (snd (refreshInstances c s)) =
          map EvLogNew
            (filter (\<lambda>inst. InstanceID inst \<notin> InstanceID ` set (instances (mon s))) insts)
          @ map EvLogRemoved
              (filter (\<lambda>inst. InstanceID inst \<notin> InstanceID ` set insts) (instances (mon s)))
      \<and> Check c s = (None, checkAll c insts (snd (refreshInstances c s))))
   \<and> (DiscoverAllSpotInstances c (world t) = (Inl err, w'') \<longrightarrow>
      refreshInstances c t = (Some (''failed to discover instances: '' @ err), t\<lparr>world := w''\<rparr>)
      \<and> Check c t = (None, checkAll c (instances (mon t)) (t\<lparr>world := w''\<rparr>))
      \<and> instances (mon (snd (Check c t))) = instances (mon t))
   \<and> isl (fst (DiscoverAllSpotInstances c v)) = isl (fst (GetAllRegions c v))
   \<and> (GetAllRegions c (world u) = (Inr regions, wr)
        \<and> everyListingFails c (completionOrder c regions wr) wr \<longrightarrow>
      fst (refreshInstances c u) = None
      \<and> mon (snd (refreshInstances c u)) = (mon u)\<lparr>instances := []\<rparr>
      \<and> newEvents u (snd (refreshInstances c u)) = map EvLogRemoved (instances (mon u))
      \<and> Check c u = (None, snd (refreshInstances c u)))"
proof -
  have a: "DiscoverAllSpotInstances c (world s) = (Inr insts, w') \<longrightarrow>
      fst (refreshInstances c s) = None
      \<and> mon (snd (refreshInstances c s)) = (mon s)\<lparr>instances := insts\<rparr>
      \<and> newEvents s (snd (refreshInstances c s)) =
          map EvLogNew
            (filter (\<lambda>inst. InstanceID inst \<notin> InstanceID ` set (instances (mon s))) insts)
          @ map EvLogRemoved
              (filter (\<lambda>inst. InstanceID inst \<notin> InstanceID ` set insts) (instances (mon s)))
      \<and> Check c s = (None, checkAll c insts (snd (refreshInstances c s)))"
    by (simp add: refreshInstances_def Check_def newEvents_def idMap_iff Let_def)
  have b: "DiscoverAllSpotInstances c (world t) = (Inl err, w'') \<longrightarrow>
      refreshInstances c t = (Some (''failed to discover instances: '' @ err), t\<lparr>world := w''\<rparr>)
      \<and> Check c t = (None, checkAll c (instances (mon t)) (t\<lparr>world := w''\<rparr>))
      \<and> instances (mon (snd (Check c t))) = instances (mon t)"
    by (simp add: refreshInstances_def Check_def Let_def checkAll_instances)
  have d: "fst (refreshInstances c u) = None
      \<and> mon (snd (refreshInstances c u)) = (mon u)\<lparr>instances := []\<rparr>
      \<and> newEvents u (snd (refreshInstances c u)) = map EvLogRemoved (instances (mon u))
      \<and> Check c u = (None, snd (refreshInstances c u))"
    if h: "GetAllRegions c (world u) = (Inr regions, wr)"
      "everyListingFails c (completionOrder c regions wr) wr"
  proof -
    obtain w2 where w2: "DiscoverAllSpotInstances c (world u) = (Inr [], w2)"
      using discovery_all_failed[OF h] by (cases "DiscoverAllSpotInstances c (world u)") simp
    show ?thesis
      by (simp add: refreshInstances_def Check_def newEvents_def idMap_def Let_def w2)
  qed
  from a b d discovery_fails_iff[of c v] show ?thesis by blast
qed

lemma fleet_discovery:
  "fst (DiscoverAllSpotInstances scriptedCloud (world fleetSys))
     = Inr [toSpotInstance ''cn-hangzhou'' (demoRaw ''A''),
            toSpotInstance ''cn-hangzhou'' (demoRaw ''C'')]"
  by code_simp

lemma outage_discovery:
  "fst (DiscoverAllSpotInstances scriptedCloud (world outageSys))
     = Inl ''failed to describe regions: timeout''"
  by code_simp

lemma blackout_regions:
  "GetAllRegions scriptedCloud (world blackoutSys)
     = (Inr [''cn-hangzhou''], snd (GetAllRegions scriptedCloud (world blackoutSys)))"
proof -
  have "fst (GetAllRegions scriptedCloud (world blackoutSys)) = Inr [''cn-hangzhou'']"
    by code_simp
  then show ?thesis by (simp add: prod_eq_iff)
qed

lemma blackout_listings:
  "everyListingFails scriptedCloud
     (completionOrder scriptedCloud [''cn-hangzhou'']
        (snd (GetAllRegions scriptedCloud (world blackoutSys))))
     (snd (GetAllRegions scriptedCloud (world blackoutSys)))"
  by code_simp

theorem refresh_replaces_or_keeps_witness:
  "fst (refreshInstances scriptedCloud fleetSys) = None
   \<and> instances (mon (snd (refreshInstances scriptedCloud fleetSys)))
       = [toSpotInstance ''cn-hangzhou'' (demoRaw ''A''),
          toSpotInstance ''cn-hangzhou'' (demoRaw ''C'')]
   \<and> newEvents fleetSys (snd (refreshInstances scriptedCloud fleetSys))
       = [EvLogNew (toSpotInstance ''cn-hangzhou'' (demoRaw ''C'')),
          EvLogRemoved (toSpotInstance ''cn-hangzhou'' (demoRaw ''B''))]
   \<and> fst (refreshInstances scriptedCloud outageSys)
       = Some ''failed to discover instances: failed to describe regions: timeout''
   \<and> instances (mon (snd (refreshInstances scriptedCloud outageSys)))
       = [toSpotInstance ''cn-hangzhou'' (demoRaw ''A''),
          toSpotInstance ''cn-hangzhou'' (demoRaw ''B'')]
   \<and> instances (mon (snd (Check scriptedCloud outageSys)))
       = [toSpotInstance ''cn-hangzhou'' (demoRaw ''A''),
          toSpotInstance ''cn-hangzhou'' (demoRaw ''B'')]
   \<and> everyListingFails scriptedCloud [''cn-hangzhou'']
         (snd (GetAllRegions scriptedCloud (world blackoutSys)))
   \<and> fst (refreshInstances scriptedCloud blackoutSys) = None
   \<and> instances (mon (snd (refreshInstances scriptedCloud blackoutSys))) = []
   \<and> fst (Check scriptedCloud blackoutSys) = None"
proof -
  have a: "DiscoverAllSpotInstances scriptedCloud (world fleetSys)
      = (Inr [toSpotInstance ''cn-hangzhou'' (demoRaw ''A''),
              toSpotInstance ''cn-hangzhou'' (demoRaw ''C'')],
         snd (DiscoverAllSpotInstances scriptedCloud (world fleetSys)))"
    using fleet_discovery by (simp add: prod_eq_iff)
  have b: "DiscoverAllSpotInstances scriptedCloud (world outageSys)
      = (Inl ''failed to describe regions: timeout'',
         snd (DiscoverAllSpotInstances scriptedCloud (world outageSys)))"
    using outage_discovery by (simp add: prod_eq_iff)
  note T = refresh_replaces_or_keeps[where c = scriptedCloud and s = fleetSys and t = outageSys
      and insts = "[toSpotInstance ''cn-hangzhou'' (demoRaw ''A''),
                    toSpotInstance ''cn-hangzhou'' (demoRaw ''C'')]"
      and w' = "snd (DiscoverAllSpotInstances scriptedCloud (world fleetSys))"
      and err = "''failed to describe regions: timeout''"
      and w'' = "snd (DiscoverAllSpotInstances scriptedCloud (world outageSys))"
      and u = blackoutSys and regions = "[''cn-hangzhou'']"
      and wr = "snd (GetAllRegions scriptedCloud (world blackoutSys))"]
  have old: "instances (mon fleetSys) = [toSpotInstance ''cn-hangzhou'' (demoRaw ''A''),
                   toSpotInstance ''cn-hangzhou'' (demoRaw ''B'')]"
    "instances (mon outageSys) = [toSpotInstance ''cn-hangzhou'' (demoRaw ''A''),
                   toSpotInstance ''cn-hangzhou'' (demoRaw ''B'')]"
    by (simp_all add: fleetSys_def outageSys_def demoSys_def demoMonitor_def)
  have ids: "InstanceID (toSpotInstance ''cn-hangzhou'' (demoRaw ''A'')) = ''A''"
    "InstanceID (toSpotInstance ''cn-hangzhou'' (demoRaw ''B'')) = ''B''"
    "InstanceID (toSpotInstance ''cn-hangzhou'' (demoRaw ''C'')) = ''C''"
    by (simp_all add: toSpotInstance_def demoRaw_def Let_def)
  note TA = T[THEN conjunct1, THEN mp, OF a]
  note TB = T[THEN conjunct2, THEN conjunct1, THEN mp, OF b]
  note TC = T[THEN conjunct2, THEN conjunct2, THEN conjunct2, THEN mp,
      OF conjI[OF blackout_regions blackout_listings]]
  have c0: "everyListingFails scriptedCloud [''cn-hangzhou'']
         (snd (GetAllRegions scriptedCloud (world blackoutSys)))"
    using blackout_listings by (simp add: scriptedCloud_def)
  from TC have c1: "fst (refreshInstances scriptedCloud blackoutSys) = None" by blast
  from TC have "mon (snd (refreshInstances scriptedCloud blackoutSys))
      = (mon blackoutSys)\<lparr>instances := []\<rparr>" by blast
  then have c2: "instances (mon (snd (refreshInstances scriptedCloud blackoutSys))) = []"
    by simp
  from TC have "Check scriptedCloud blackoutSys
      = (None, snd (refreshInstances scriptedCloud blackoutSys))" by blast
  then have c3: "fst (Check scriptedCloud blackoutSys) = None" by simp
  from TA have a1: "fst (refreshInstances scriptedCloud fleetSys) = None" by blast
  from TA have "mon (snd (refreshInstances scriptedCloud fleetSys))
      = (mon fleetSys)\<lparr>instances := [toSpotInstance ''cn-hangzhou'' (demoRaw ''A''),
                                       toSpotInstance ''cn-hangzhou'' (demoRaw ''C'')]\<rparr>"
    by blast
  then have a2: "instances (mon (snd (refreshInstances scriptedCloud fleetSys)))
       = [toSpotInstance ''cn-hangzhou'' (demoRaw ''A''),
          toSpotInstance ''cn-hangzhou'' (demoRaw ''C'')]"
    by simp
  from TA have "newEvents fleetSys (snd (refreshInstances scriptedCloud fleetSys)) =
          map EvLogNew
            (filter (\<lambda>inst. InstanceID inst \<notin> InstanceID ` set (instances (mon fleetSys)))
               [toSpotInstance ''cn-hangzhou'' (demoRaw ''A''),
                toSpotInstance ''cn-hangzhou'' (demoRaw ''C'')])
          @ map EvLogRemoved
              (filter (\<lambda>inst. InstanceID inst \<notin> InstanceID `
                         set [toSpotInstance ''cn-hangzhou'' (demoRaw ''A''),
                              toSpotInstance ''cn-hangzhou'' (demoRaw ''C'')])
                 (instances (mon fleetSys)))"
    by blast
  then have a3: "newEvents fleetSys (snd (refreshInstances scriptedCloud fleetSys))
       = [EvLogNew (toSpotInstance ''cn-hangzhou'' (demoRaw ''C'')),
          EvLogRemoved (toSpotInstance ''cn-hangzhou'' (demoRaw ''B''))]"
    by (simp add: old ids)
  from TB have "refreshInstances scriptedCloud outageSys
      = (Some (''failed to discover instances: '' @ ''failed to describe regions: timeout''),
         outageSys\<lparr>world := snd (DiscoverAllSpotInstances scriptedCloud (world outageSys))\<rparr>)"
    by blast
  then have b1: "fst (refreshInstances scriptedCloud outageSys)
       = Some ''failed to discover instances: failed to describe regions: timeout''"
    "instances (mon (snd (refreshInstances scriptedCloud outageSys)))
       = [toSpotInstance ''cn-hangzhou'' (demoRaw ''A''),
          toSpotInstance ''cn-hangzhou'' (demoRaw ''B'')]"
    by (simp_all add: old)
  from TB have "instances (mon (snd (Check scriptedCloud outageSys)))
      = instances (mon outageSys)" by blast
  then have b2: "instances (mon (snd (Check scriptedCloud outageSys)))
       = [toSpotInstance ''cn-hangzhou'' (demoRaw ''A''),
          toSpotInstance ''cn-hangzhou'' (demoRaw ''B'')]"
    by (simp add: old)
  from a1 a2 a3 b1 b2 c0 c1 c2 c3 show ?thesis by blast
qed

text \<open>
  The sentence of the specification fails when the regions are listed and the listing of every region's
  instances fails: \<^verbatim>\<open>refreshInstances\<close> returns nil, the registry that held \<^verbatim>\<open>A\<close> and \<^verbatim>\<open>B\<close>
  is empty afterwards, and the check cycle checks no instance.
\<close>

theorem refresh_blackout_counterexample:
  "instances (mon blackoutSys)
     = [toSpotInstance ''cn-hangzhou'' (demoRaw ''A''),
        toSpotInstance ''cn-hangzhou'' (demoRaw ''B'')]
   \<and> fst (GetAllRegions scriptedCloud (world blackoutSys)) = Inr [''cn-hangzhou'']
   \<and> fst (GetSpotInstances scriptedCloud ''cn-hangzhou''
            (snd (GetAllRegions scriptedCloud (world blackoutSys))))
       = Inl ''failed to describe instances in region cn-hangzhou: timeout''
   \<and> fst (refreshInstances scriptedCloud blackoutSys) = None
   \<and> instances (mon (snd (refreshInstances scriptedCloud blackoutSys))) = []
   \<and> instances (mon (snd (Check scriptedCloud blackoutSys))) = []
   \<and> trace (snd (Check scriptedCloud blackoutSys))
       = [EvLogRemoved (toSpotInstance ''cn-hangzhou'' (demoRaw ''A'')),
          EvLogRemoved (toSpotInstance ''cn-hangzhou'' (demoRaw ''B''))]"
  by code_simp

lemma secondsDuration_in_range:
  assumes "- 9223372036 \<le> n" "n \<le> 9223372036"
  shows "secondsDuration n = n * 1000000000"
proof -
  have e: "(word_of_int n * 1000000000 :: 64 word) = word_of_int (n * 1000000000)"
    by simp
  have "sint (word_of_int (n * 1000000000) :: 64 word)
          = signed_take_bit (LENGTH(64) - 1) (n * 1000000000)"
    by (rule sint_sbintrunc')
  also have "\<dots> = n * 1000000000"
    by (rule signed_take_bit_int_eq_self) (use assms in simp_all)
  finally show ?thesis
    unfolding secondsDuration_def e .
qed

lemma time_Since_in_range:
  "- (2 ^ 63) \<le> now - t \<Longrightarrow> now - t < 2 ^ 63 \<Longrightarrow> time_Since now t = now - t"
  by (simp add: time_Since_def)

lemma DiscoverInstances_run:
  "\<exists>evs. trace (snd (DiscoverInstances c s)) = trace s @ evs \<and> length (notesOf evs) \<le> 1"
  by (cases "DiscoverAllSpotInstances c (world s)")
     (auto simp: DiscoverInstances_def notify_def Let_def split: sum.splits prod.splits)

text \<open>
  C7, as the code has it. \<^verbatim>\<open>refreshInstances\<close> sends nothing at all, and neither one check
  cycle nor any number of them sends a "monitor started" notification. \<^verbatim>\<open>DiscoverInstances\<close>
  sends exactly one whenever its discovery succeeds with at least one instance and a notifier
  is configured, on every invocation: the monitor keeps no record of a first discovery. So
  a run that calls \<^verbatim>\<open>DiscoverInstances\<close> once and then only check cycles sends at most one.
\<close>

theorem monitor_started_by_discover_only:
  "notesOf (newEvents s (snd (refreshInstances c s))) = []
   \<and> filter isMonitorStarted (notesOf (newEvents s (snd (Check c s)))) = []
   \<and> filter isMonitorStarted (notesOf (newEvents s (CheckTimes c k s))) = []
   \<and> (DiscoverAllSpotInstances c (world s) = (Inr insts, w') \<longrightarrow>
        notesOf (newEvents s (snd (DiscoverInstances c s)))
          = (if hasNotifier (mon s) \<and> insts \<noteq> []
             then [NotifyMonitorStarted (length insts) (map instanceLine insts)] else []))
   \<and> (DiscoverAllSpotInstances c (world t) = (Inl err, w'') \<longrightarrow>
        newEvents t (snd (DiscoverInstances c t)) = [])
   \<and> length (filter isMonitorStarted
        (notesOf (newEvents s (CheckTimes c k (snd (DiscoverInstances c s)))))) \<le> 1"
proof -
  obtain e1 where e1: "trace (snd (refreshInstances c s)) = trace s @ e1" "notesOf e1 = []"
    using refreshInstances_run[of c s] by blast
  obtain e2 where e2: "trace (snd (Check c s)) = trace s @ e2"
      "filter isMonitorStarted (notesOf e2) = []"
    using Check_run[of c s] by blast
  obtain e3 where e3: "trace (CheckTimes c k s) = trace s @ e3"
      "filter isMonitorStarted (notesOf e3) = []"
    using CheckTimes_run[of c k s] by blast
  define d where "d = snd (DiscoverInstances c s)"
  obtain e4 where e4: "trace d = trace s @ e4" "length (notesOf e4) \<le> 1"
    using DiscoverInstances_run[of c s] unfolding d_def by blast
  obtain e5 where e5: "trace (CheckTimes c k d) = trace d @ e5"
      "filter isMonitorStarted (notesOf e5) = []"
    using CheckTimes_run[of c k d] by blast
  have "length (filter isMonitorStarted (notesOf e4)) \<le> 1"
    using e4(2) by (meson le_trans length_filter_le)
  then have f: "length (filter isMonitorStarted
        (notesOf (newEvents s (CheckTimes c k (snd (DiscoverInstances c s)))))) \<le> 1"
    using e4(1) e5 by (simp add: newEvents_def d_def[symmetric])
  have a: "notesOf (newEvents s (snd (refreshInstances c s))) = []"
    using e1 by (simp add: newEvents_def)
  have b: "filter isMonitorStarted (notesOf (newEvents s (snd (Check c s)))) = []"
    using e2 by (simp add: newEvents_def)
  have cc: "filter isMonitorStarted (notesOf (newEvents s (CheckTimes c k s))) = []"
    using e3 by (simp add: newEvents_def)
  have dd: "DiscoverAllSpotInstances c (world s) = (Inr insts, w') \<longrightarrow>
        notesOf (newEvents s (snd (DiscoverInstances c s)))
          = (if hasNotifier (mon s) \<and> insts \<noteq> []
             then [NotifyMonitorStarted (length insts) (map instanceLine insts)] else [])"
    by (simp add: DiscoverInstances_events)
  have ee: "DiscoverAllSpotInstances c (world t) = (Inl err, w'') \<longrightarrow>
        newEvents t (snd (DiscoverInstances c t)) = []"
    by (simp add: DiscoverInstances_events)
  from a b cc dd ee f show ?thesis by blast
qed

theorem monitor_started_by_discover_only_witness:
  "fst (DiscoverAllSpotInstances scriptedCloud (world fleetSys))
     = Inr [toSpotInstance ''cn-hangzhou'' (demoRaw ''A''),
            toSpotInstance ''cn-hangzhou'' (demoRaw ''C'')]
   \<and> notesOf (newEvents fleetSys (snd (DiscoverInstances scriptedCloud fleetSys)))
     = [NotifyMonitorStarted 2 [''web (A) - cn-hangzhou'', ''web (C) - cn-hangzhou'']]
   \<and> fst (DiscoverAllSpotInstances scriptedCloud (world outageSys))
     = Inl ''failed to describe regions: timeout''
   \<and> newEvents outageSys (snd (DiscoverInstances scriptedCloud outageSys)) = []
   \<and> notesOf (newEvents fleetSys (snd (refreshInstances scriptedCloud fleetSys))) = []"
proof -
  have a: "DiscoverAllSpotInstances scriptedCloud (world fleetSys)
      = (Inr [toSpotInstance ''cn-hangzhou'' (demoRaw ''A''),
              toSpotInstance ''cn-hangzhou'' (demoRaw ''C'')],
         snd (DiscoverAllSpotInstances scriptedCloud (world fleetSys)))"
    using fleet_discovery by (simp add: prod_eq_iff)
  have b: "DiscoverAllSpotInstances scriptedCloud (world outageSys)
      = (Inl ''failed to describe regions: timeout'',
         snd (DiscoverAllSpotInstances scriptedCloud (world outageSys)))"
    using outage_discovery by (simp add: prod_eq_iff)
  note T = monitor_started_by_discover_only[where c = scriptedCloud and s = fleetSys
      and t = outageSys and k = 0
      and insts = "[toSpotInstance ''cn-hangzhou'' (demoRaw ''A''),
                    toSpotInstance ''cn-hangzhou'' (demoRaw ''C'')]"
      and w' = "snd (DiscoverAllSpotInstances scriptedCloud (world fleetSys))"
      and err = "''failed to describe regions: timeout''"
      and w'' = "snd (DiscoverAllSpotInstances scriptedCloud (world outageSys))"]
  have nf: "hasNotifier (mon fleetSys)"
    by (simp add: fleetSys_def demoSys_def demoMonitor_def)
  have lines: "map instanceLine [toSpotInstance ''cn-hangzhou'' (demoRaw ''A''),
                    toSpotInstance ''cn-hangzhou'' (demoRaw ''C'')]
      = [''web (A) - cn-hangzhou'', ''web (C) - cn-hangzhou'']"
    by (simp add: instanceLine_def toSpotInstance_def demoRaw_def Let_def)
  from T a have "notesOf (newEvents fleetSys (snd (DiscoverInstances scriptedCloud fleetSys)))
          = (if hasNotifier (mon fleetSys) \<and> [toSpotInstance ''cn-hangzhou'' (demoRaw ''A''),
                    toSpotInstance ''cn-hangzhou'' (demoRaw ''C'')] \<noteq> []
             then [NotifyMonitorStarted (length [toSpotInstance ''cn-hangzhou'' (demoRaw ''A''),
                    toSpotInstance ''cn-hangzhou'' (demoRaw ''C'')])
                     (map instanceLine [toSpotInstance ''cn-hangzhou'' (demoRaw ''A''),
                    toSpotInstance ''cn-hangzhou'' (demoRaw ''C'')])] else [])"
    by blast
  then have c1: "notesOf (newEvents fleetSys (snd (DiscoverInstances scriptedCloud fleetSys)))
     = [NotifyMonitorStarted 2 [''web (A) - cn-hangzhou'', ''web (C) - cn-hangzhou'']]"
    using nf lines by simp
  from T b have c2: "newEvents outageSys (snd (DiscoverInstances scriptedCloud outageSys)) = []"
    by blast
  from T have c3: "notesOf (newEvents fleetSys (snd (refreshInstances scriptedCloud fleetSys))) = []"
    by blast
  from fleet_discovery outage_discovery c1 c2 c3 show ?thesis by blast
qed

text \<open>
  The sentence of the specification fails for a second invocation of \<^verbatim>\<open>DiscoverInstances\<close>: it sends
  "monitor started" again.
\<close>

theorem second_discovery_counterexample:
  "filter isMonitorStarted
     (notesOf (newEvents (snd (DiscoverInstances scriptedCloud fleetSys))
        (snd (DiscoverInstances scriptedCloud (snd (DiscoverInstances scriptedCloud fleetSys))))))
   = [NotifyMonitorStarted 2 [''web (A) - cn-hangzhou'', ''web (C) - cn-hangzhou'']]
   \<and> length (filter isMonitorStarted
        (notesOf (trace (snd (DiscoverInstances scriptedCloud
                                (snd (DiscoverInstances scriptedCloud fleetSys))))))) = 2"
  by code_simp

section \<open>Notification cooldown\<close>

lemma reclaimNotify_events:
  "trace (reclaimNotify c inst s) = trace s @ newEvents s (reclaimNotify c inst s)
   \<and> notesOf (newEvents s (reclaimNotify c inst s))
       = (if canNotify (mon s) (InstanceID inst) (timeNow c (world s)) \<and> hasNotifier (mon s)
          then [NotifyInstanceReclaimed (InstanceID inst) (InstanceName inst) (RegionID inst)]
          else [])"
proof -
  obtain evs where evs: "trace (reclaimNotify c inst s) = trace s @ evs"
    "notesOf evs =
         (if canNotify (mon s) (InstanceID inst) (timeNow c (world s)) \<and> hasNotifier (mon s)
          then [NotifyInstanceReclaimed (InstanceID inst) (InstanceName inst) (RegionID inst)]
          else [])"
    using reclaimNotify_run[of c inst s] by blast
  then show ?thesis by (simp add: newEvents_def)
qed

lemma reclaimNotify_stamp:
  "canNotify (mon s) (InstanceID inst) (timeNow c (world s)) \<Longrightarrow>
     lastNotify (mon (reclaimNotify c inst s)) (InstanceID inst)
       = Some (timeNow c (world (reclaimNotify c inst s)))"
  by (cases "notifierSend c (NotifyInstanceReclaimed (InstanceID inst) (InstanceName inst)
                (RegionID inst)) (world s)")
     (simp add: reclaimNotify_def notify_def updateNotifyTime_def Let_def)

text \<open>
  C4, as the code has it. A key without an entry is eligible at once; a key with an entry is
  eligible exactly when more than the cooldown window has passed since the recorded time.
  When the cooldown allows, the cooldown block of \<^verbatim>\<open>checkInstance\<close> records the time for the
  instance whether or not a notifier is configured and whatever the notifier returns, and it
  sends the "reclaimed" alert only when a notifier is configured. With a notifier, a first
  eligible trigger and a second one in a monitor that the first one left as it was send one
  alert when the second comes within the window and two when it comes after more than the
  window. A trigger that the cooldown refuses changes nothing. In \<^verbatim>\<open>checkInstance\<close> the block
  runs before the retry loop, which neither touches the monitor nor sends a "reclaimed" alert.
\<close>

theorem cooldown_gate:
  fixes c :: "'w cloud" and s t u :: "'w sys" and inst :: SpotInstance and w' :: 'w
  defines "alert \<equiv> NotifyInstanceReclaimed (InstanceID inst) (InstanceName inst) (RegionID inst)"
  defines "s' \<equiv> reclaimNotify c inst s"
  defines "t' \<equiv> reclaimNotify c inst t"
  defines "u1 \<equiv> u\<lparr>world := w',
                     trace := trace u @ [EvGetInstanceStatus (RegionID inst) (InstanceID inst)
                                           (Inr ''Stopped'')]\<rparr>"
  shows
   "(lastNotify m k = None \<longrightarrow> canNotify m k now)
    \<and> (lastNotify m' k' = Some t0 \<longrightarrow>
         canNotify m' k' now' = (secondsDuration (NotifyCooldown (cfg m')) < time_Since now' t0))
    \<and> (canNotify (mon s) (InstanceID inst) (timeNow c (world s)) \<longrightarrow>
         lastNotify (mon s') (InstanceID inst) = Some (timeNow c (world s'))
         \<and> notesOf (newEvents s s') = (if hasNotifier (mon s) then [alert] else []))
    \<and> (canNotify (mon s) (InstanceID inst) (timeNow c (world s)) \<and> hasNotifier (mon s)
          \<and> mon t = mon s' \<longrightarrow>
         notesOf (newEvents s s') @ notesOf (newEvents t t')
           = (if secondsDuration (NotifyCooldown (cfg (mon s)))
                   < time_Since (timeNow c (world t)) (timeNow c (world s'))
              then [alert, alert] else [alert]))
    \<and> (\<not> canNotify (mon t) (InstanceID inst) (timeNow c (world t)) \<longrightarrow> t' = t)
    \<and> (\<not> blocked c (mon u) inst
          \<and> GetInstanceStatus c (RegionID inst) (InstanceID inst) (world u)
               = (Inr ''Stopped'', w') \<longrightarrow>
         checkInstance c inst u
           = retryLoop c inst (timeNow c (world (reclaimNotify c inst u1)))
               (RetryCount (cfg (mon u))) (RetryInterval (cfg (mon u))) 0 None
               (reclaimNotify c inst u1)
         \<and> mon (snd (checkInstance c inst u)) = mon (reclaimNotify c inst u1)
         \<and> filter isReclaimed (notesOf (newEvents u (snd (checkInstance c inst u))))
             = notesOf (newEvents u1 (reclaimNotify c inst u1)))"
proof -
  have a: "lastNotify m k = None \<longrightarrow> canNotify m k now"
    by (simp add: canNotify_def)
  have b: "lastNotify m' k' = Some t0 \<longrightarrow>
         canNotify m' k' now' = (secondsDuration (NotifyCooldown (cfg m')) < time_Since now' t0)"
    by (simp add: canNotify_def)
  have c3: "canNotify (mon s) (InstanceID inst) (timeNow c (world s)) \<longrightarrow>
         lastNotify (mon s') (InstanceID inst) = Some (timeNow c (world s'))
         \<and> notesOf (newEvents s s') = (if hasNotifier (mon s) then [alert] else [])"
    using reclaimNotify_stamp[of s inst c] reclaimNotify_events[of c inst s]
    by (simp add: s'_def alert_def)
  have d: "canNotify (mon s) (InstanceID inst) (timeNow c (world s)) \<and> hasNotifier (mon s)
          \<and> mon t = mon s' \<longrightarrow>
         notesOf (newEvents s s') @ notesOf (newEvents t t')
           = (if secondsDuration (NotifyCooldown (cfg (mon s)))
                   < time_Since (timeNow c (world t)) (timeNow c (world s'))
              then [alert, alert] else [alert])"
  proof (intro impI, elim conjE)
    assume can: "canNotify (mon s) (InstanceID inst) (timeNow c (world s))"
      and nf: "hasNotifier (mon s)" and same: "mon t = mon s'"
    obtain ln where ln: "mon s' = (mon s)\<lparr>lastNotify := ln\<rparr>"
      using reclaimNotify_mon[of c inst s] unfolding s'_def by blast
    have st: "lastNotify (mon t) (InstanceID inst) = Some (timeNow c (world s'))"
      using reclaimNotify_stamp[OF can] same by (simp add: s'_def)
    have "canNotify (mon t) (InstanceID inst) (timeNow c (world t))
            = (secondsDuration (NotifyCooldown (cfg (mon s)))
                 < time_Since (timeNow c (world t)) (timeNow c (world s')))"
      using st same ln by (simp add: canNotify_def)
    moreover have "hasNotifier (mon t)" using same ln nf by simp
    ultimately show "notesOf (newEvents s s') @ notesOf (newEvents t t')
           = (if secondsDuration (NotifyCooldown (cfg (mon s)))
                   < time_Since (timeNow c (world t)) (timeNow c (world s'))
              then [alert, alert] else [alert])"
      using reclaimNotify_events[of c inst s] reclaimNotify_events[of c inst t] can nf
      by (simp add: s'_def t'_def alert_def)
  qed
  have e: "\<not> canNotify (mon t) (InstanceID inst) (timeNow c (world t)) \<longrightarrow> t' = t"
    by (simp add: t'_def reclaimNotify_def)
  have f: "\<not> blocked c (mon u) inst
          \<and> GetInstanceStatus c (RegionID inst) (InstanceID inst) (world u)
               = (Inr ''Stopped'', w') \<longrightarrow>
         checkInstance c inst u
           = retryLoop c inst (timeNow c (world (reclaimNotify c inst u1)))
               (RetryCount (cfg (mon u))) (RetryInterval (cfg (mon u))) 0 None
               (reclaimNotify c inst u1)
         \<and> mon (snd (checkInstance c inst u)) = mon (reclaimNotify c inst u1)
         \<and> filter isReclaimed (notesOf (newEvents u (snd (checkInstance c inst u))))
             = notesOf (newEvents u1 (reclaimNotify c inst u1))"
  proof (intro impI, elim conjE)
    assume nb: "\<not> blocked c (mon u) inst"
      and stopped: "GetInstanceStatus c (RegionID inst) (InstanceID inst) (world u)
               = (Inr ''Stopped'', w')"
    define u2 where "u2 = reclaimNotify c inst u1"
    define R where "R = checkInstance c inst u"
    obtain ln where ln: "mon u2 = (mon u1)\<lparr>lastNotify := ln\<rparr>"
      using reclaimNotify_mon[of c inst u1] unfolding u2_def by blast
    have R: "R = retryLoop c inst (timeNow c (world u2)) (RetryCount (cfg (mon u)))
                   (RetryInterval (cfg (mon u))) 0 None u2"
      using nb stopped ln
      by (simp add: R_def checkInstance_def ecsGetInstanceStatus_def Let_def u2_def u1_def)
    obtain evs where evs: "ranTo u2 (snd R) evs"
        "retried inst (timeNow c (world u2)) (RetryCount (cfg (mon u))) 0 None
           (hasNotifier (mon u2)) (fst R) evs"
      using retryLoop_run[of u2 c inst "timeNow c (world u2)" "RetryCount (cfg (mon u))"
          "RetryInterval (cfg (mon u))" 0 None]
      unfolding R by blast
    have n2: "filter isReclaimed (notesOf evs) = []"
      using evs(2) by (auto simp: retried_def split: if_splits)
    obtain ev1 where ev1: "trace u2 = trace u1 @ ev1"
      "notesOf ev1 =
         (if canNotify (mon u1) (InstanceID inst) (timeNow c (world u1)) \<and> hasNotifier (mon u1)
          then [NotifyInstanceReclaimed (InstanceID inst) (InstanceName inst) (RegionID inst)]
          else [])"
      using reclaimNotify_run[of c inst u1] unfolding u2_def by blast
    have ne1: "newEvents u1 u2 = ev1"
      using ev1(1) by (simp add: newEvents_def)
    have n1: "filter isReclaimed (notesOf ev1) = notesOf ev1"
      using ev1(2) by simp
    have "trace (snd R) = trace u @ (EvGetInstanceStatus (RegionID inst) (InstanceID inst)
             (Inr ''Stopped'') # ev1 @ evs)"
      using evs(1) ev1(1) by (simp add: ranTo_def u1_def)
    then have "newEvents u (snd R)
        = EvGetInstanceStatus (RegionID inst) (InstanceID inst) (Inr ''Stopped'') # ev1 @ evs"
      by (simp add: newEvents_def)
    then have "filter isReclaimed (notesOf (newEvents u (snd R))) = notesOf (newEvents u1 u2)"
      using n1 n2 ne1 by simp
    moreover have "mon (snd R) = mon u2" using evs(1) by (simp add: ranTo_def)
    ultimately show "checkInstance c inst u
           = retryLoop c inst (timeNow c (world (reclaimNotify c inst u1)))
               (RetryCount (cfg (mon u))) (RetryInterval (cfg (mon u))) 0 None
               (reclaimNotify c inst u1)
         \<and> mon (snd (checkInstance c inst u)) = mon (reclaimNotify c inst u1)
         \<and> filter isReclaimed (notesOf (newEvents u (snd (checkInstance c inst u))))
             = notesOf (newEvents u1 (reclaimNotify c inst u1))"
      using R by (simp add: R_def u2_def)
  qed
  from a b c3 d e f show ?thesis by blast
qed

lemma first_alert_facts:
  "canNotify (mon (demoSys nf [demoInstance ''i-001'' ''cn-hangzhou''] idleScript)) ''i-001''
     (timeNow scriptedCloud (world (demoSys nf [demoInstance ''i-001'' ''cn-hangzhou''] idleScript)))"
  "lastNotify (mon (demoSys nf [demoInstance ''i-001'' ''cn-hangzhou''] idleScript)) ''i-001'' = None"
  "hasNotifier (mon (demoSys True [demoInstance ''i-001'' ''cn-hangzhou''] idleScript))"
  "mon (laterSys nf seconds) = mon (alertedSys nf)"
  by (simp_all add: canNotify_def demoSys_def demoMonitor_def laterSys_def)

lemma later_alert_facts:
  "lastNotify (mon (alertedSys True)) ''i-001'' = Some 1000000000"
  "timeNow scriptedCloud (world (alertedSys True)) = 1000000000"
  "timeNow scriptedCloud (world (laterSys True 99)) = 100000000000"
  "timeNow scriptedCloud (world (laterSys True 3999)) = 4000000000000"
  "NotifyCooldown (cfg (mon (demoSys True [demoInstance ''i-001'' ''cn-hangzhou''] idleScript)))
     = 3600"
  "\<not> canNotify (mon (laterSys True 99)) ''i-001'' (timeNow scriptedCloud (world (laterSys True 99)))"
  by code_simp+

lemma window_facts:
  "secondsDuration 3600 = 3600000000000"
  "time_Since 100000000000 1000000000 = 99000000000"
  "time_Since 4000000000000 1000000000 = 3999000000000"
  by (simp_all add: secondsDuration_in_range time_Since_def)

theorem cooldown_gate_witness:
  "canNotify (mon (demoSys True [demoInstance ''i-001'' ''cn-hangzhou''] idleScript)) ''i-001'' 0
   \<and> lastNotify (mon (alertedSys True)) ''i-001'' = Some 1000000000
   \<and> notesOf (newEvents (demoSys True [demoInstance ''i-001'' ''cn-hangzhou''] idleScript)
                (alertedSys True))
       = [NotifyInstanceReclaimed ''i-001'' ''web'' ''cn-hangzhou'']
   \<and> notesOf (newEvents (demoSys True [demoInstance ''i-001'' ''cn-hangzhou''] idleScript)
                (alertedSys True))
       @ notesOf (newEvents (laterSys True 99)
                    (reclaimNotify scriptedCloud (demoInstance ''i-001'' ''cn-hangzhou'')
                       (laterSys True 99)))
       = [NotifyInstanceReclaimed ''i-001'' ''web'' ''cn-hangzhou'']
   \<and> notesOf (newEvents (demoSys True [demoInstance ''i-001'' ''cn-hangzhou''] idleScript)
                (alertedSys True))
       @ notesOf (newEvents (laterSys True 3999)
                    (reclaimNotify scriptedCloud (demoInstance ''i-001'' ''cn-hangzhou'')
                       (laterSys True 3999)))
       = [NotifyInstanceReclaimed ''i-001'' ''web'' ''cn-hangzhou'',
          NotifyInstanceReclaimed ''i-001'' ''web'' ''cn-hangzhou'']
   \<and> reclaimNotify scriptedCloud (demoInstance ''i-001'' ''cn-hangzhou'') (laterSys True 99)
       = laterSys True 99
   \<and> filter isReclaimed
        (notesOf (newEvents (reclaimedSys True)
           (snd (checkInstance scriptedCloud (demoInstance ''i-001'' ''cn-hangzhou'')
                   (reclaimedSys True)))))
       = [NotifyInstanceReclaimed ''i-001'' ''web'' ''cn-hangzhou'']"
proof -
  let ?i = "demoInstance ''i-001'' ''cn-hangzhou''"
  let ?s = "demoSys True [?i] idleScript"
  note T1 = cooldown_gate[where c = scriptedCloud and inst = ?i and s = ?s
      and t = "laterSys True 99" and m = "mon ?s" and k = "''i-001''" and now = 0
      and m' = "mon (alertedSys True)" and k' = "''i-001''" and now' = 100000000000
      and ?t0.0 = 1000000000 and u = "reclaimedSys True"
      and w' = "tick (idleScript\<lparr>sc_statuses := [Inr [''Running'']],
                          sc_starts := [Some ''Throttling'', Some ''Throttling'', None]\<rparr>)",
      folded alertedSys_def]
  note T2 = cooldown_gate[where c = scriptedCloud and inst = ?i and s = ?s
      and t = "laterSys True 3999", folded alertedSys_def]
  have id: "InstanceID ?i = ''i-001''" "InstanceName ?i = ''web''" "RegionID ?i = ''cn-hangzhou''"
    by (simp_all add: demoInstance_def)
  have now0: "timeNow scriptedCloud (world ?s) = 0"
    by (simp add: scriptedCloud_def demoSys_def idleScript_def)
  from T1 first_alert_facts(2)[of True] have a: "canNotify (mon ?s) ''i-001'' 0" by blast
  from T1 first_alert_facts(1)[of True]
  have c: "lastNotify (mon (alertedSys True)) ''i-001''
             = Some (timeNow scriptedCloud (world (alertedSys True)))
           \<and> notesOf (newEvents ?s (alertedSys True))
             = (if hasNotifier (mon ?s) then [NotifyInstanceReclaimed ''i-001'' ''web'' ''cn-hangzhou'']
                else [])"
    unfolding id by blast
  from T1 first_alert_facts(1)[of True] first_alert_facts(3) first_alert_facts(4)[of True 99]
  have d1: "notesOf (newEvents ?s (alertedSys True))
       @ notesOf (newEvents (laterSys True 99) (reclaimNotify scriptedCloud ?i (laterSys True 99)))
       = (if secondsDuration (NotifyCooldown (cfg (mon ?s)))
                   < time_Since (timeNow scriptedCloud (world (laterSys True 99)))
                       (timeNow scriptedCloud (world (alertedSys True)))
          then [NotifyInstanceReclaimed ''i-001'' ''web'' ''cn-hangzhou'',
                NotifyInstanceReclaimed ''i-001'' ''web'' ''cn-hangzhou'']
          else [NotifyInstanceReclaimed ''i-001'' ''web'' ''cn-hangzhou''])"
    unfolding id by blast
  from T2 first_alert_facts(1)[of True] first_alert_facts(3) first_alert_facts(4)[of True 3999]
  have d2: "notesOf (newEvents ?s (alertedSys True))
       @ notesOf (newEvents (laterSys True 3999)
                    (reclaimNotify scriptedCloud ?i (laterSys True 3999)))
       = (if secondsDuration (NotifyCooldown (cfg (mon ?s)))
                   < time_Since (timeNow scriptedCloud (world (laterSys True 3999)))
                       (timeNow scriptedCloud (world (alertedSys True)))
          then [NotifyInstanceReclaimed ''i-001'' ''web'' ''cn-hangzhou'',
                NotifyInstanceReclaimed ''i-001'' ''web'' ''cn-hangzhou'']
          else [NotifyInstanceReclaimed ''i-001'' ''web'' ''cn-hangzhou''])"
    unfolding id by blast
  from T1 later_alert_facts(6)
  have e: "reclaimNotify scriptedCloud ?i (laterSys True 99) = laterSys True 99"
    unfolding id by blast
  from T1 reclaimed_not_blocked[of True] reclaimed_status[of True]
  have "filter isReclaimed
        (notesOf (newEvents (reclaimedSys True)
           (snd (checkInstance scriptedCloud ?i (reclaimedSys True)))))
       = notesOf (newEvents ((reclaimedSys True)\<lparr>world := tick (idleScript\<lparr>sc_statuses := [Inr [''Running'']],
                          sc_starts := [Some ''Throttling'', Some ''Throttling'', None]\<rparr>),
                     trace := trace (reclaimedSys True) @ [EvGetInstanceStatus ''cn-hangzhou'' ''i-001''
                                           (Inr ''Stopped'')]\<rparr>)
            (reclaimNotify scriptedCloud ?i ((reclaimedSys True)\<lparr>world := tick (idleScript\<lparr>sc_statuses := [Inr [''Running'']],
                          sc_starts := [Some ''Throttling'', Some ''Throttling'', None]\<rparr>),
                     trace := trace (reclaimedSys True) @ [EvGetInstanceStatus ''cn-hangzhou'' ''i-001''
                                           (Inr ''Stopped'')]\<rparr>)))"
    unfolding id by blast
  also have "\<dots> = [NotifyInstanceReclaimed ''i-001'' ''web'' ''cn-hangzhou'']"
    by code_simp
  finally have f: "filter isReclaimed
        (notesOf (newEvents (reclaimedSys True)
           (snd (checkInstance scriptedCloud ?i (reclaimedSys True)))))
       = [NotifyInstanceReclaimed ''i-001'' ''web'' ''cn-hangzhou'']" .
  from a c d1 d2 e f show ?thesis
    by (simp add: later_alert_facts(1-5) window_facts first_alert_facts(3))
qed

text \<open>
  The sentence of the specification fails when no notifier is configured: two triggers for \<^verbatim>\<open>i-001\<close>, the
  second 99 seconds after the first with a window of 3600 seconds, send no alert at all,
  while the cooldown time is recorded.
\<close>

theorem cooldown_without_notifier_counterexample:
  "canNotify (mon (demoSys False [demoInstance ''i-001'' ''cn-hangzhou''] idleScript)) ''i-001'' 0
   \<and> lastNotify (mon (alertedSys False)) ''i-001'' = Some 0
   \<and> timeNow scriptedCloud (world (laterSys False 99)) = 99000000000
   \<and> length (notesOf (newEvents (demoSys False [demoInstance ''i-001'' ''cn-hangzhou''] idleScript)
                        (alertedSys False))
             @ notesOf (newEvents (laterSys False 99)
                    (reclaimNotify scriptedCloud (demoInstance ''i-001'' ''cn-hangzhou'')
                       (laterSys False 99)))) \<noteq> 1"
  by code_simp

section \<open>Traffic latches\<close>


lemma launches_simps [simp]:
  "launches g [] = 0"
  "launches g (evs @ evs') = launches g evs + launches g evs'"
  "launches g [EvGoShutdown r t l] = (if r = g then 1 else 0)"
  by (simp_all add: launches_def)











section \<open>Bulk shutdown\<close>

lemma shutdownLoop_run:
  "\<exists>evs ss. trace (snd (shutdownLoop c region insts acc s)) = trace s @ evs
     \<and> mon (snd (shutdownLoop c region insts acc s)) = mon s
     \<and> List.map_filter statusQueried evs
         = map instKey (filter (\<lambda>i. \<not> skippedGroup c region i) insts)
     \<and> List.map_filter stopIssued evs
         = map (\<lambda>(r, i). (r, i, ''StopCharging'')) (List.map_filter sawRunning evs)
     \<and> subseq ss (filter (\<lambda>i. \<not> skippedGroup c region i) insts)
     \<and> List.map_filter stopSucceeded evs = map instKey ss
     \<and> fst (shutdownLoop c region insts acc s) = acc @ map (stoppedLine c) ss
     \<and> notesOf evs = []"
  (is "\<exists>evs ss. ?P insts acc s evs ss")
proof (induction insts arbitrary: acc s)
  case Nil
  show ?case by (intro exI[of _ "[]"]) simp
next
  case (Cons inst rest)
  show ?case
  proof (cases "skippedGroup c region inst")
    case True
    then show ?thesis using Cons[of acc s] by simp
  next
    case False
    let ?r = "RegionID inst" and ?i = "InstanceID inst"
    obtain res s1 where q: "ecsGetInstanceStatus c ?r ?i s = (res, s1)"
      by (cases "ecsGetInstanceStatus c ?r ?i s") auto
    have a1: "trace s1 = trace s @ [EvGetInstanceStatus ?r ?i res]" "mon s1 = mon s"
      using ranTo_status[OF q] by (simp_all add: ranTo_def)
    show ?thesis
    proof (cases "res = Inr ''Running''")
      case nr: False
      then have L: "shutdownLoop c region (inst # rest) acc s = shutdownLoop c region rest acc s1"
        using False q by (cases res) auto
      have sr: "sawRunning (EvGetInstanceStatus ?r ?i res) = None"
        using nr by (cases res) auto
      obtain evs ss where IH:
        "trace (snd (shutdownLoop c region rest acc s1)) = trace s1 @ evs"
        "mon (snd (shutdownLoop c region rest acc s1)) = mon s1"
        "List.map_filter statusQueried evs
           = map instKey (filter (\<lambda>i. \<not> skippedGroup c region i) rest)"
        "List.map_filter stopIssued evs
           = map (\<lambda>(r, i). (r, i, ''StopCharging'')) (List.map_filter sawRunning evs)"
        "subseq ss (filter (\<lambda>i. \<not> skippedGroup c region i) rest)"
        "List.map_filter stopSucceeded evs = map instKey ss"
        "fst (shutdownLoop c region rest acc s1) = acc @ map (stoppedLine c) ss"
        "notesOf evs = []"
        using Cons[of acc s1] by blast
      show ?thesis
        unfolding L using IH a1 False sr
        by (intro exI[of _ "EvGetInstanceStatus ?r ?i res # evs"] exI[of _ ss])
           (simp add: instKey_def list_emb_Cons)
    next
      case True
      obtain r2 s2 where st: "ecsStopInstance c ?r ?i ''StopCharging'' s1 = (r2, s2)"
        by (cases "ecsStopInstance c ?r ?i ''StopCharging'' s1") auto
      have a2: "trace s2 = trace s1 @ [EvStopInstance ?r ?i ''StopCharging'' r2]" "mon s2 = mon s1"
        using ranTo_stop[OF st] by (simp_all add: ranTo_def)
      define acc' where "acc' = (case r2 of None \<Rightarrow> acc @ [stoppedLine c inst] | Some e \<Rightarrow> acc)"
      have L: "shutdownLoop c region (inst # rest) acc s = shutdownLoop c region rest acc' s2"
        using False q True st by (cases r2) (auto simp: acc'_def)
      obtain evs ss where IH:
        "trace (snd (shutdownLoop c region rest acc' s2)) = trace s2 @ evs"
        "mon (snd (shutdownLoop c region rest acc' s2)) = mon s2"
        "List.map_filter statusQueried evs
           = map instKey (filter (\<lambda>i. \<not> skippedGroup c region i) rest)"
        "List.map_filter stopIssued evs
           = map (\<lambda>(r, i). (r, i, ''StopCharging'')) (List.map_filter sawRunning evs)"
        "subseq ss (filter (\<lambda>i. \<not> skippedGroup c region i) rest)"
        "List.map_filter stopSucceeded evs = map instKey ss"
        "fst (shutdownLoop c region rest acc' s2) = acc' @ map (stoppedLine c) ss"
        "notesOf evs = []"
        using Cons[of acc' s2] by blast
      show ?thesis
      proof (cases r2)
        case None
        show ?thesis
          unfolding L using IH a1 a2 False True None
          by (intro exI[of _ "EvGetInstanceStatus ?r ?i res
                               # EvStopInstance ?r ?i ''StopCharging'' r2 # evs"]
                exI[of _ "inst # ss"])
             (simp add: instKey_def acc'_def list_emb_Cons)
      next
        case (Some e)
        show ?thesis
          unfolding L using IH a1 a2 False True Some
          by (intro exI[of _ "EvGetInstanceStatus ?r ?i res
                               # EvStopInstance ?r ?i ''StopCharging'' r2 # evs"]
                exI[of _ ss])
             (simp add: instKey_def acc'_def list_emb_Cons)
      qed
    qed
  qed
qed

text \<open>
  C6, as the code has it. The bulk shutdown of a group queries the status of exactly the
  tracked instances of the group, in order. It issues one stop command for each query that
  answered \<^verbatim>\<open>Running\<close>, in the same order, for the same instance and with the mode
  \<^verbatim>\<open>StopCharging\<close>; an instance whose query failed or answered another status gets no
  command. It leaves the monitor as it was. It sends at most one notification: when a
  notifier is configured and at least one stop command returned nil, one "traffic shutdown"
  notification with the group, the traffic, the budget and the lines of exactly the
  instances whose stop command returned nil, in order; otherwise none.
\<close>

theorem bulk_shutdown_stops_running:
  fixes c :: "'w cloud" and s :: "'w sys" and region :: string
    and trafficGB limitGB :: float64
  defines "grp \<equiv> filter (\<lambda>i. \<not> skippedGroup c region i) (instances (mon s))"
  defines "evs \<equiv> newEvents s (shutdownRegionInstances c region trafficGB limitGB s)"
  shows
   "List.map_filter statusQueried evs = map instKey grp
    \<and> List.map_filter stopIssued evs
        = map (\<lambda>(r, i). (r, i, ''StopCharging'')) (List.map_filter sawRunning evs)
    \<and> (\<exists>ss. subseq ss grp
          \<and> List.map_filter stopSucceeded evs = map instKey ss
          \<and> notesOf evs
              = (if hasNotifier (mon s) \<and> ss \<noteq> []
                 then [NotifyTrafficShutdown region trafficGB limitGB (map (stoppedLine c) ss)]
                 else []))
    \<and> mon (shutdownRegionInstances c region trafficGB limitGB s) = mon s
    \<and> (region = ''china'' \<longrightarrow>
         grp = filter (\<lambda>i. isChinaMainlandRegion c (RegionID i)) (instances (mon s)))
    \<and> (region = ''non-china'' \<longrightarrow>
         grp = filter (\<lambda>i. \<not> isChinaMainlandRegion c (RegionID i)) (instances (mon s)))"
proof -
  define L where "L = shutdownLoop c region (instances (mon s)) [] s"
  obtain ev ss where run:
    "trace (snd L) = trace s @ ev" "mon (snd L) = mon s"
    "List.map_filter statusQueried ev = map instKey grp"
    "List.map_filter stopIssued ev
       = map (\<lambda>(r, i). (r, i, ''StopCharging'')) (List.map_filter sawRunning ev)"
    "subseq ss grp" "List.map_filter stopSucceeded ev = map instKey ss"
    "fst L = map (stoppedLine c) ss" "notesOf ev = []"
    using shutdownLoop_run[of c region "instances (mon s)" "[]" s]
    unfolding L_def grp_def by auto
  define n where "n = NotifyTrafficShutdown region trafficGB limitGB (fst L)"
  define fin where "fin = (if hasNotifier (mon s) \<and> ss \<noteq> []
                           then [EvNotify n (fst (notifierSend c n (world (snd L))))] else [])"
  have S: "shutdownRegionInstances c region trafficGB limitGB s
      = (if fst L \<noteq> [] then notify c n (snd L) else snd L)"
    by (cases L) (simp add: shutdownRegionInstances_def L_def[symmetric] n_def)
  have ne: "fst L \<noteq> [] \<longleftrightarrow> ss \<noteq> []" using run(7) by simp
  have tr: "trace (shutdownRegionInstances c region trafficGB limitGB s) = trace s @ ev @ fin"
    and mn: "mon (shutdownRegionInstances c region trafficGB limitGB s) = mon s"
    unfolding S using run(1,2) ne ranTo_notify[of "snd L" c n]
    by (auto simp: fin_def ranTo_def)
  have evs: "evs = ev @ fin" using tr by (simp add: evs_def newEvents_def)
  have finq: "List.map_filter statusQueried fin = []" "List.map_filter stopIssued fin = []"
    "List.map_filter sawRunning fin = []" "List.map_filter stopSucceeded fin = []"
    "notesOf fin = (if hasNotifier (mon s) \<and> ss \<noteq> [] then [n] else [])"
    by (simp_all add: fin_def)
  have a: "List.map_filter statusQueried evs = map instKey grp"
    using run(3) finq by (simp add: evs map_filter_append)
  have b: "List.map_filter stopIssued evs
        = map (\<lambda>(r, i). (r, i, ''StopCharging'')) (List.map_filter sawRunning evs)"
    using run(4) finq by (simp add: evs map_filter_append)
  have "subseq ss grp
          \<and> List.map_filter stopSucceeded evs = map instKey ss
          \<and> notesOf evs
              = (if hasNotifier (mon s) \<and> ss \<noteq> []
                 then [NotifyTrafficShutdown region trafficGB limitGB (map (stoppedLine c) ss)]
                 else [])"
    using run(5,6,7,8) finq by (simp add: evs map_filter_append n_def)
  then have cc: "\<exists>ss. subseq ss grp
          \<and> List.map_filter stopSucceeded evs = map instKey ss
          \<and> notesOf evs
              = (if hasNotifier (mon s) \<and> ss \<noteq> []
                 then [NotifyTrafficShutdown region trafficGB limitGB (map (stoppedLine c) ss)]
                 else [])"
    by blast
  have d: "region = ''china'' \<longrightarrow>
         grp = filter (\<lambda>i. isChinaMainlandRegion c (RegionID i)) (instances (mon s))"
    by (simp add: grp_def skippedGroup_def)
  have e: "region = ''non-china'' \<longrightarrow>
         grp = filter (\<lambda>i. \<not> isChinaMainlandRegion c (RegionID i)) (instances (mon s))"
    by (simp add: grp_def skippedGroup_def)
  from a b cc mn d e show ?thesis by blast
qed

lemma breached_run:
  "trace (shutdownRegionInstances scriptedCloud ''china'' (Fin 20) (Fin 19) breachedSys)
     = [EvGetInstanceStatus ''cn-hangzhou'' ''i-001'' (Inr ''Running''),
        EvStopInstance ''cn-hangzhou'' ''i-001'' ''StopCharging'' None,
        EvGetInstanceStatus ''cn-beijing'' ''i-003'' (Inr ''Stopped''),
        EvNotify (NotifyTrafficShutdown ''china'' (Fin 20) (Fin 19) [''web (i-001) - cn-hangzhou''])
          None]"
  by code_simp

lemma breached_start: "trace breachedSys = []" "trace quietSys = []"
  by (simp_all add: breachedSys_def quietSys_def demoSys_def)

theorem bulk_shutdown_stops_running_witness:
  "List.map_filter statusQueried
      (newEvents breachedSys
         (shutdownRegionInstances scriptedCloud ''china'' (Fin 20) (Fin 19) breachedSys))
     = [(''cn-hangzhou'', ''i-001''), (''cn-beijing'', ''i-003'')]
   \<and> List.map_filter stopIssued
      (newEvents breachedSys
         (shutdownRegionInstances scriptedCloud ''china'' (Fin 20) (Fin 19) breachedSys))
     = [(''cn-hangzhou'', ''i-001'', ''StopCharging'')]
   \<and> notesOf (newEvents breachedSys
         (shutdownRegionInstances scriptedCloud ''china'' (Fin 20) (Fin 19) breachedSys))
     = [NotifyTrafficShutdown ''china'' (Fin 20) (Fin 19) [''web (i-001) - cn-hangzhou'']]
   \<and> mon (shutdownRegionInstances scriptedCloud ''china'' (Fin 20) (Fin 19) breachedSys)
     = mon breachedSys"
proof -
  note T = bulk_shutdown_stops_running[where c = scriptedCloud and region = "''china''"
      and trafficGB = "Fin 20" and limitGB = "Fin 19" and s = breachedSys]
  have r: "''china'' = ''china''" by simp
  have new: "newEvents breachedSys
         (shutdownRegionInstances scriptedCloud ''china'' (Fin 20) (Fin 19) breachedSys)
       = trace (shutdownRegionInstances scriptedCloud ''china'' (Fin 20) (Fin 19) breachedSys)"
    by (simp add: newEvents_def breached_start)
  from T r have grp: "filter (\<lambda>i. \<not> skippedGroup scriptedCloud ''china'' i)
        (instances (mon breachedSys))
      = filter (\<lambda>i. isChinaMainlandRegion scriptedCloud (RegionID i))
          (instances (mon breachedSys))"
    by blast
  have grp2: "filter (\<lambda>i. isChinaMainlandRegion scriptedCloud (RegionID i))
          (instances (mon breachedSys))
      = [demoInstance ''i-001'' ''cn-hangzhou'', demoInstance ''i-003'' ''cn-beijing'']"
    by (simp add: breachedSys_def demoSys_def demoMonitor_def scriptedCloud_def demoInstance_def)
  from T have "List.map_filter statusQueried
      (newEvents breachedSys
         (shutdownRegionInstances scriptedCloud ''china'' (Fin 20) (Fin 19) breachedSys))
     = map instKey (filter (\<lambda>i. \<not> skippedGroup scriptedCloud ''china'' i)
        (instances (mon breachedSys)))"
    by blast
  then have a: "List.map_filter statusQueried
      (newEvents breachedSys
         (shutdownRegionInstances scriptedCloud ''china'' (Fin 20) (Fin 19) breachedSys))
     = [(''cn-hangzhou'', ''i-001''), (''cn-beijing'', ''i-003'')]"
    unfolding grp grp2 by (simp add: instKey_def demoInstance_def)
  from T have "List.map_filter stopIssued
      (newEvents breachedSys
         (shutdownRegionInstances scriptedCloud ''china'' (Fin 20) (Fin 19) breachedSys))
     = map (\<lambda>(r, i). (r, i, ''StopCharging'')) (List.map_filter sawRunning (newEvents breachedSys
         (shutdownRegionInstances scriptedCloud ''china'' (Fin 20) (Fin 19) breachedSys)))"
    by blast
  then have b: "List.map_filter stopIssued
      (newEvents breachedSys
         (shutdownRegionInstances scriptedCloud ''china'' (Fin 20) (Fin 19) breachedSys))
     = [(''cn-hangzhou'', ''i-001'', ''StopCharging'')]"
    unfolding new breached_run by simp
  have c: "notesOf (newEvents breachedSys
         (shutdownRegionInstances scriptedCloud ''china'' (Fin 20) (Fin 19) breachedSys))
     = [NotifyTrafficShutdown ''china'' (Fin 20) (Fin 19) [''web (i-001) - cn-hangzhou'']]"
    unfolding new breached_run by simp
  from T have d: "mon (shutdownRegionInstances scriptedCloud ''china'' (Fin 20) (Fin 19) breachedSys)
     = mon breachedSys"
    by blast
  from a b c d show ?thesis by blast
qed

text \<open>
  The sentence of the specification fails when nothing was stopped: with a notifier configured and the only
  instance of the group stopped already, the bulk shutdown sends no notification.
\<close>

theorem bulk_shutdown_nothing_stopped_counterexample:
  "hasNotifier (mon quietSys)
   \<and> trace (shutdownRegionInstances scriptedCloud ''china'' (Fin 20) (Fin 19) quietSys)
       = [EvGetInstanceStatus ''cn-beijing'' ''i-003'' (Inr ''Stopped'')]
   \<and> length (notesOf
        (newEvents quietSys
           (shutdownRegionInstances scriptedCloud ''china'' (Fin 20) (Fin 19) quietSys))) \<noteq> 1"
  by code_simp

section \<open>Uniqueness of instance ids\<close>

lemma subseq_distinct: "subseq xs ys \<Longrightarrow> distinct ys \<Longrightarrow> distinct xs"
  by (induction rule: list_emb.induct) (auto dest: list_emb_set)

lemma InstanceID_toSpotInstance [simp]:
  "InstanceID (toSpotInstance regionID inst) = raw_InstanceId inst"
  by (simp add: toSpotInstance_def Let_def)

lemma page_ids_subseq:
  "subseq (map InstanceID (map (toSpotInstance regionID) (filter isSpot page)))
     (map raw_InstanceId page)"
  by (simp add: comp_def subseq_map)

lemma scanPages_ids:
  "scanPages regionID pages acc = Inr out \<Longrightarrow>
     \<exists>extra. out = acc @ extra
       \<and> subseq (map InstanceID extra) (concat (map pageIds pages))"
proof (induction pages arbitrary: acc)
  case Nil
  then show ?case by simp
next
  case (Cons p ps)
  show ?case
  proof (cases p)
    case (Inl err)
    with Cons.prems show ?thesis by simp
  next
    case (Inr page)
    define new where "new = map (toSpotInstance regionID) (filter isSpot page)"
    have n: "subseq (map InstanceID new) (map raw_InstanceId page)"
      unfolding new_def by (rule page_ids_subseq)
    show ?thesis
    proof (cases "length page < 100")
      case True
      with Cons.prems Inr have "out = acc @ new" by (simp add: new_def Let_def)
      with n Inr show ?thesis by (auto intro: list_emb_prefix)
    next
      case False
      with Cons.prems Inr have "scanPages regionID ps (acc @ new) = Inr out"
        by (simp add: new_def Let_def)
      from Cons.IH[OF this] obtain extra where
        e: "out = (acc @ new) @ extra" "subseq (map InstanceID extra) (concat (map pageIds ps))"
        by blast
      have "subseq (map InstanceID (new @ extra))
              (map raw_InstanceId page @ concat (map pageIds ps))"
        using n e(2) by (simp add: list_emb_append_mono)
      with e(1) Inr show ?thesis by (intro exI[of _ "new @ extra"]) simp
    qed
  qed
qed

lemma scanRegions_ids:
  "\<exists>extra. fst (scanRegions c rs acc w) = acc @ extra
     \<and> subseq (map InstanceID extra) (listedIds (scanAnswers c rs w))"
proof (induction rs arbitrary: acc w)
  case Nil
  then show ?case by (simp add: listedIds_def)
next
  case (Cons r rs)
  obtain ce w1 where gc: "getClient c r w = (ce, w1)" by (cases "getClient c r w") auto
  show ?case
  proof (cases ce)
    case (Some err)
    with gc have "scanRegions c (r # rs) acc w = scanRegions c rs acc w1"
      "scanAnswers c (r # rs) w = scanAnswers c rs w1"
      by (simp_all add: GetSpotInstances_def)
    with Cons[of acc w1] show ?thesis by simp
  next
    case None
    obtain pages w2 where pg: "sdkDescribeInstancePages c r w1 = (pages, w2)"
      by (cases "sdkDescribeInstancePages c r w1") auto
    have G: "GetSpotInstances c r w = (scanPages r pages [], w2)"
      using gc None pg by (simp add: GetSpotInstances_def)
    have A: "scanAnswers c (r # rs) w = pages # scanAnswers c rs w2"
      using gc None pg by simp
    have L: "listedIds (scanAnswers c (r # rs) w)
               = concat (map pageIds pages) @ listedIds (scanAnswers c rs w2)"
      unfolding A by (simp add: listedIds_def)
    show ?thesis
    proof (cases "scanPages r pages []")
      case (Inl err)
      then have "scanRegions c (r # rs) acc w = scanRegions c rs acc w2"
        using G by simp
      with Cons[of acc w2] L show ?thesis by (auto intro: list_emb_append2)
    next
      case (Inr insts)
      from scanPages_ids[OF Inr] have i: "subseq (map InstanceID insts) (concat (map pageIds pages))"
        by simp
      have S: "scanRegions c (r # rs) acc w = scanRegions c rs (acc @ insts) w2"
        using G Inr by (cases insts) simp_all
      from Cons[of "acc @ insts" w2] obtain extra where
        e: "fst (scanRegions c rs (acc @ insts) w2) = (acc @ insts) @ extra"
           "subseq (map InstanceID extra) (listedIds (scanAnswers c rs w2))"
        by blast
      have "subseq (map InstanceID (insts @ extra))
              (concat (map pageIds pages) @ listedIds (scanAnswers c rs w2))"
        using i e(2) by (simp add: list_emb_append_mono)
      with e(1) S L show ?thesis by (intro exI[of _ "insts @ extra"]) simp
    qed
  qed
qed

text \<open>
  C9, as the code has it. \<^verbatim>\<open>DiscoverAllSpotInstances\<close> does not remove duplicates: the ids of
  its result are, in order, among the ids that the region listings answered during the scan.
  So the ids of the result are pairwise distinct whenever those listed ids are (no region
  scanned twice, no instance listed on two pages or in two regions), and then so are the ids
  of the registry that \<^verbatim>\<open>refreshInstances\<close> or \<^verbatim>\<open>DiscoverInstances\<close> installs.
\<close>

theorem discovery_keeps_listed_ids:
  "(GetAllRegions c w = (Inr regions, wr) \<longrightarrow>
      (\<exists>insts. fst (DiscoverAllSpotInstances c w) = Inr insts
         \<and> subseq (map InstanceID insts)
             (listedIds (scanAnswers c (completionOrder c regions wr) wr))
         \<and> (distinct (listedIds (scanAnswers c (completionOrder c regions wr) wr))
              \<longrightarrow> distinct (map InstanceID insts))))
   \<and> (DiscoverAllSpotInstances c (world s) = (Inr found, w')
        \<and> distinct (map InstanceID found) \<longrightarrow>
        instances (mon (snd (refreshInstances c s))) = found
        \<and> instances (mon (snd (DiscoverInstances c s))) = found
        \<and> distinct (map InstanceID (instances (mon (snd (refreshInstances c s)))))
        \<and> distinct (map InstanceID (instances (mon (snd (DiscoverInstances c s))))))"
proof -
  have a: "GetAllRegions c w = (Inr regions, wr) \<longrightarrow>
      (\<exists>insts. fst (DiscoverAllSpotInstances c w) = Inr insts
         \<and> subseq (map InstanceID insts)
             (listedIds (scanAnswers c (completionOrder c regions wr) wr))
         \<and> (distinct (listedIds (scanAnswers c (completionOrder c regions wr) wr))
              \<longrightarrow> distinct (map InstanceID insts)))"
  proof
    assume g: "GetAllRegions c w = (Inr regions, wr)"
    let ?order = "completionOrder c regions wr"
    obtain extra where e: "fst (scanRegions c ?order [] wr) = [] @ extra"
      "subseq (map InstanceID extra) (listedIds (scanAnswers c ?order wr))"
      using scanRegions_ids[of c ?order "[]" wr] by blast
    have "fst (DiscoverAllSpotInstances c w) = Inr extra"
      using g e(1) by (auto simp: DiscoverAllSpotInstances_def split: prod.splits)
    with e(2) show "\<exists>insts. fst (DiscoverAllSpotInstances c w) = Inr insts
         \<and> subseq (map InstanceID insts) (listedIds (scanAnswers c ?order wr))
         \<and> (distinct (listedIds (scanAnswers c ?order wr)) \<longrightarrow> distinct (map InstanceID insts))"
      by (auto intro: subseq_distinct)
  qed
  have b: "DiscoverAllSpotInstances c (world s) = (Inr found, w')
        \<and> distinct (map InstanceID found) \<longrightarrow>
        instances (mon (snd (refreshInstances c s))) = found
        \<and> instances (mon (snd (DiscoverInstances c s))) = found
        \<and> distinct (map InstanceID (instances (mon (snd (refreshInstances c s)))))
        \<and> distinct (map InstanceID (instances (mon (snd (DiscoverInstances c s)))))"
    by (auto simp: refreshInstances_def DiscoverInstances_def notify_def Let_def
        split: prod.splits)
  from a b show ?thesis by blast
qed

lemma fleet_regions:
  "GetAllRegions scriptedCloud (world fleetSys) = (Inr [''cn-hangzhou''], tick (world fleetSys))"
  by (simp add: GetAllRegions_def scriptedCloud_def fleetSys_def fleetScript_def demoSys_def
      idleScript_def)

lemma fleet_listed:
  "listedIds (scanAnswers scriptedCloud
      (completionOrder scriptedCloud [''cn-hangzhou''] (tick (world fleetSys)))
      (tick (world fleetSys))) = [''A'', ''C'']"
  by (simp add: listedIds_def scriptedCloud_def fleetSys_def fleetScript_def demoSys_def
      idleScript_def tick_def demoRaw_def)

theorem discovery_keeps_listed_ids_witness:
  "listedIds (scanAnswers scriptedCloud
      (completionOrder scriptedCloud [''cn-hangzhou''] (tick (world fleetSys)))
      (tick (world fleetSys))) = [''A'', ''C'']
   \<and> fst (DiscoverAllSpotInstances scriptedCloud (world fleetSys))
       = Inr [toSpotInstance ''cn-hangzhou'' (demoRaw ''A''),
              toSpotInstance ''cn-hangzhou'' (demoRaw ''C'')]
   \<and> distinct (map InstanceID (instances (mon (snd (refreshInstances scriptedCloud fleetSys)))))
   \<and> distinct (map InstanceID (instances (mon (snd (DiscoverInstances scriptedCloud fleetSys)))))"
proof -
  let ?found = "[toSpotInstance ''cn-hangzhou'' (demoRaw ''A''),
                 toSpotInstance ''cn-hangzhou'' (demoRaw ''C'')]"
  note T = discovery_keeps_listed_ids[where c = scriptedCloud and w = "world fleetSys"
      and regions = "[''cn-hangzhou'']" and wr = "tick (world fleetSys)" and s = fleetSys
      and found = ?found
      and w' = "snd (DiscoverAllSpotInstances scriptedCloud (world fleetSys))"]
  from T fleet_regions obtain insts where
    i: "fst (DiscoverAllSpotInstances scriptedCloud (world fleetSys)) = Inr insts"
       "distinct (listedIds (scanAnswers scriptedCloud
          (completionOrder scriptedCloud [''cn-hangzhou''] (tick (world fleetSys)))
          (tick (world fleetSys)))) \<longrightarrow> distinct (map InstanceID insts)"
    by blast
  have ins: "insts = ?found" using i(1) fleet_discovery by simp
  have d: "distinct (map InstanceID ?found)"
    using i(2) unfolding fleet_listed ins by simp
  have q: "DiscoverAllSpotInstances scriptedCloud (world fleetSys)
      = (Inr ?found, snd (DiscoverAllSpotInstances scriptedCloud (world fleetSys)))"
    using fleet_discovery by (simp add: prod_eq_iff)
  from T q d have
    "distinct (map InstanceID (instances (mon (snd (refreshInstances scriptedCloud fleetSys)))))
     \<and> distinct (map InstanceID (instances (mon (snd (DiscoverInstances scriptedCloud fleetSys)))))"
    by blast
  with fleet_listed fleet_discovery show ?thesis by blast
qed

lemma firstPage_facts:
  "length firstPage = 100" "filter isSpot firstPage = firstPage"
  "numberedRaw 99 \<in> set firstPage" "isSpot (numberedRaw 99)"
proof -
  show "length firstPage = 100" unfolding firstPage_def by (simp del: upt_rec_numeral)
  have spot: "isSpot (numberedRaw k)" for k
    by (simp add: isSpot_def numberedRaw_def demoRaw_def)
  have "\<forall>x \<in> set firstPage. isSpot x"
    unfolding firstPage_def using spot by (auto simp del: upt_rec_numeral)
  then show "filter isSpot firstPage = firstPage" by (simp only: filter_True)
  show "numberedRaw 99 \<in> set firstPage"
    unfolding firstPage_def by (simp del: upt_rec_numeral)
  show "isSpot (numberedRaw 99)" by (rule spot)
qed

lemma shifted_pages:
  "scanPages ''cn-hangzhou'' [Inr firstPage, Inr [numberedRaw 99]] []
     = Inr (map (toSpotInstance ''cn-hangzhou'') firstPage
            @ [toSpotInstance ''cn-hangzhou'' (numberedRaw 99)])"
  by (simp add: firstPage_facts Let_def)

lemma shifted_discovery:
  "fst (DiscoverAllSpotInstances scriptedCloud (world shiftedSys))
     = Inr (map (toSpotInstance ''cn-hangzhou'') firstPage
            @ [toSpotInstance ''cn-hangzhou'' (numberedRaw 99)])"
  by (simp add: DiscoverAllSpotInstances_def GetAllRegions_def GetSpotInstances_def
      scriptedCloud_def shiftedSys_def shiftedScript_def demoSys_def idleScript_def tick_def
      shifted_pages del: scanPages.simps)

text \<open>
  The sentence of the specification fails when the listing repeats an instance: a region with more than a
  page of spot instances, where an instance created between the two page requests shifts the
  listing by one, yields a registry that holds the last instance of the first page twice.
\<close>

theorem shifted_listing_counterexample:
  "fst (refreshInstances scriptedCloud shiftedSys) = None
   \<and> length (instances (mon (snd (refreshInstances scriptedCloud shiftedSys)))) = 101
   \<and> \<not> distinct (map InstanceID (instances (mon (snd (refreshInstances scriptedCloud shiftedSys)))))"
proof -
  define found where "found = map (toSpotInstance ''cn-hangzhou'') firstPage
            @ [toSpotInstance ''cn-hangzhou'' (numberedRaw 99)]"
  have q: "DiscoverAllSpotInstances scriptedCloud (world shiftedSys)
      = (Inr found, snd (DiscoverAllSpotInstances scriptedCloud (world shiftedSys)))"
    using shifted_discovery by (simp add: prod_eq_iff found_def)
  have r: "fst (refreshInstances scriptedCloud shiftedSys) = None"
    "instances (mon (snd (refreshInstances scriptedCloud shiftedSys))) = found"
    unfolding refreshInstances_def by (subst q, simp add: Let_def)+
  have "raw_InstanceId (numberedRaw 99) \<in> raw_InstanceId ` set firstPage"
    using firstPage_facts(3) by blast
  then have nd: "\<not> distinct (map InstanceID found)"
    unfolding found_def by (simp add: comp_def)
  have len: "length found = 101"
    unfolding found_def by (simp add: firstPage_facts(1))
  from r nd len show ?thesis by simp
qed

end
